theory Spec2Isabelle
  imports Complex_Main
begin

section \<open>Vectors and engine constants\<close>

text \<open>
  The movement component computes with the engine's single-precision \<^verbatim>\<open>FVector\<close>.
  The embedding takes a \<^verbatim>\<open>float\<close> to be a \<^typ>\<open>real\<close>; infinities and NaN are outside the
  model. Arithmetic is exact, with one exception: the apex substep of \<^verbatim>\<open>PhysFalling\<close>
  compares a time it has just computed from a quotient with the time step the quotient was
  taken from, so that rounding decides the branch at ordinary inputs. Every operation of that
  block, and of the loop's variables that it reads and writes, rounds its exact result with
  the engine's \<open>RoundFloat\<close>.
\<close>

datatype FVector = FVector (X: real) (Y: real) (Z: real)

instantiation FVector :: "{zero, plus, minus}"
begin

definition zero_FVector :: FVector where
  "zero_FVector = FVector 0 0 0"

definition plus_FVector :: "FVector \<Rightarrow> FVector \<Rightarrow> FVector" where
  "plus_FVector a b = FVector (X a + X b) (Y a + Y b) (Z a + Z b)"

definition minus_FVector :: "FVector \<Rightarrow> FVector \<Rightarrow> FVector" where
  "minus_FVector a b = FVector (X a - X b) (Y a - Y b) (Z a - Z b)"

instance ..

end

text \<open>\<^verbatim>\<open>V * k\<close>, a vector scaled by a float.\<close>

definition Scale :: "FVector \<Rightarrow> real \<Rightarrow> FVector" where
  "Scale v k = FVector (X v * k) (Y v * k) (Z v * k)"

text \<open>\<^verbatim>\<open>A | B\<close>, the dot product.\<close>

definition Dot :: "FVector \<Rightarrow> FVector \<Rightarrow> real" where
  "Dot a b = X a * X b + Y a * Y b + Z a * Z b"

text \<open>\<^verbatim>\<open>FVector::IsZero\<close>: all three components compare equal to zero.\<close>

definition IsZero :: "FVector \<Rightarrow> bool" where
  "IsZero v \<longleftrightarrow> X v = 0 \<and> Y v = 0 \<and> Z v = 0"

definition SizeSquared :: "FVector \<Rightarrow> real" where
  "SizeSquared v = X v * X v + Y v * Y v + Z v * Z v"

definition Size :: "FVector \<Rightarrow> real" where
  "Size v = sqrt (X v * X v + Y v * Y v + Z v * Z v)"

definition DownVector :: FVector where
  "DownVector = FVector 0 0 (- 1)"

text \<open>
  Rounding to the nearest single-precision number, ties to even: 24 bits of mantissa, the
  spacing of the subnormal numbers below \<^verbatim>\<open>2^-126\<close>, no overflow. \<open>FloatBinade n p x\<close> looks
  for the power of two \<open>p\<close> with \<open>p \<le> x < 2p\<close>, at most \<open>n\<close> binades away from where it
  starts.
\<close>

fun FloatBinade :: "nat \<Rightarrow> real \<Rightarrow> real \<Rightarrow> real" where
  "FloatBinade 0 p x = p"
| "FloatBinade (Suc n) p x =
     (if x < p then FloatBinade n (p / 2) x
      else if 2 * p \<le> x then FloatBinade n (2 * p) x
      else p)"

definition RoundHalfEven :: "real \<Rightarrow> int" where
  "RoundHalfEven q =
     (let f = \<lfloor>q\<rfloor> in
      if q - of_int f < 1 / 2 then f
      else if q - of_int f > 1 / 2 then f + 1
      else if even f then f else f + 1)"

definition RoundToNearestFloat :: "real \<Rightarrow> real" where
  "RoundToNearestFloat x =
     (if x = 0 then 0
      else
        (let ulp = max (FloatBinade 300 1 \<bar>x\<bar>) (1 / 2 ^ 126) / 2 ^ 23 in
         sgn x * (of_int (RoundHalfEven (\<bar>x\<bar> / ulp)) * ulp)))"

text \<open>
  The engine's numeric constants are not declared in this repository; every function that
  reads one takes them in this record, together with the rounding of a single-precision
  operation. \<open>UE4\<close> holds the values the engine ships with and is used only to evaluate
  concrete inputs.
\<close>

record engine =
  SMALL_NUMBER :: real
  KINDA_SMALL_NUMBER :: real
  MIN_TICK_TIME :: real
  MIN_FLOOR_DIST :: real
  MAX_FLOOR_DIST :: real
  SWEEP_EDGE_REJECT_DISTANCE :: real
  RoundFloat :: "real \<Rightarrow> real"

definition UE4 :: engine where
  "UE4 = \<lparr> SMALL_NUMBER = 1 / 100000000, KINDA_SMALL_NUMBER = 1 / 10000,
     MIN_TICK_TIME = 1 / 1000000, MIN_FLOOR_DIST = 19 / 10, MAX_FLOOR_DIST = 24 / 10,
     SWEEP_EDGE_REJECT_DISTANCE = 15 / 100, RoundFloat = RoundToNearestFloat \<rparr>"

text \<open>
  The operations of \<^verbatim>\<open>float\<close> and of \<^verbatim>\<open>FVector\<close> (engine) with their rounding: each
  operation rounds its exact result. A vector is divided by a float by multiplying with the
  rounded reciprocal; the dot product adds its three products from left to right.
\<close>

definition FloatAdd :: "engine \<Rightarrow> real \<Rightarrow> real \<Rightarrow> real" where
  "FloatAdd K a b = RoundFloat K (a + b)"

definition FloatSub :: "engine \<Rightarrow> real \<Rightarrow> real \<Rightarrow> real" where
  "FloatSub K a b = RoundFloat K (a - b)"

definition FloatMul :: "engine \<Rightarrow> real \<Rightarrow> real \<Rightarrow> real" where
  "FloatMul K a b = RoundFloat K (a * b)"

definition FloatDiv :: "engine \<Rightarrow> real \<Rightarrow> real \<Rightarrow> real" where
  "FloatDiv K a b = RoundFloat K (a / b)"

definition FloatVectorAdd :: "engine \<Rightarrow> FVector \<Rightarrow> FVector \<Rightarrow> FVector" where
  "FloatVectorAdd K a b =
     FVector (FloatAdd K (X a) (X b)) (FloatAdd K (Y a) (Y b)) (FloatAdd K (Z a) (Z b))"

definition FloatVectorSub :: "engine \<Rightarrow> FVector \<Rightarrow> FVector \<Rightarrow> FVector" where
  "FloatVectorSub K a b =
     FVector (FloatSub K (X a) (X b)) (FloatSub K (Y a) (Y b)) (FloatSub K (Z a) (Z b))"

definition FloatVectorScale :: "engine \<Rightarrow> FVector \<Rightarrow> real \<Rightarrow> FVector" where
  "FloatVectorScale K v k = FVector (FloatMul K (X v) k) (FloatMul K (Y v) k) (FloatMul K (Z v) k)"

definition FloatVectorDiv :: "engine \<Rightarrow> FVector \<Rightarrow> real \<Rightarrow> FVector" where
  "FloatVectorDiv K v k = (let RScale = FloatDiv K 1 k in FloatVectorScale K v RScale)"

definition FloatDot :: "engine \<Rightarrow> FVector \<Rightarrow> FVector \<Rightarrow> real" where
  "FloatDot K a b =
     FloatAdd K (FloatAdd K (FloatMul K (X a) (X b)) (FloatMul K (Y a) (Y b)))
       (FloatMul K (Z a) (Z b))"

definition FloatVectorPlaneProject :: "engine \<Rightarrow> FVector \<Rightarrow> FVector \<Rightarrow> FVector" where
  "FloatVectorPlaneProject K V PlaneNormal =
     FloatVectorSub K V (FloatVectorScale K PlaneNormal (FloatDot K V PlaneNormal))"

text \<open>
  \<^verbatim>\<open>FVector::GetSafeNormal\<close> (engine): a vector of squared length exactly one is returned as
  it is, one of squared length below \<^verbatim>\<open>SMALL_NUMBER\<close> becomes the zero vector, any other is
  scaled by the inverse square root of its squared length.
\<close>

definition GetSafeNormal :: "engine \<Rightarrow> FVector \<Rightarrow> FVector" where
  "GetSafeNormal K v =
     (let SquareSum = X v * X v + Y v * Y v + Z v * Z v in
      if SquareSum = 1 then v
      else if SquareSum < SMALL_NUMBER K then 0
      else Scale v (1 / sqrt SquareSum))"

text \<open>
  \<^verbatim>\<open>FVector::VectorPlaneProject(V, PlaneNormal)\<close> (engine):
  \<^verbatim>\<open>V - V.ProjectOnToNormal(PlaneNormal)\<close>.
\<close>

definition VectorPlaneProject :: "FVector \<Rightarrow> FVector \<Rightarrow> FVector" where
  "VectorPlaneProject V PlaneNormal = V - Scale PlaneNormal (Dot V PlaneNormal)"

text \<open>\<^verbatim>\<open>FVector::PointPlaneProject(Point, PlaneBase, PlaneNormal)\<close> (engine).\<close>

definition PointPlaneProject :: "FVector \<Rightarrow> FVector \<Rightarrow> FVector \<Rightarrow> FVector" where
  "PointPlaneProject Point PlaneBase PlaneNorm =
     Point - Scale PlaneNorm (Dot (Point - PlaneBase) PlaneNorm)"

text \<open>\<^verbatim>\<open>FMath::ClosestPointOnInfiniteLine(LineStart, LineEnd, Point)\<close> (engine).\<close>

definition ClosestPointOnInfiniteLine :: "engine \<Rightarrow> FVector \<Rightarrow> FVector \<Rightarrow> FVector \<Rightarrow> FVector" where
  "ClosestPointOnInfiniteLine K LineStart LineEnd Point =
     (let A = Dot (LineStart - Point) (LineEnd - LineStart);
          B = SizeSquared (LineEnd - LineStart) in
      if B < SMALL_NUMBER K then LineStart
      else LineStart + Scale (LineEnd - LineStart) (- A / B))"

text \<open>
  \<^verbatim>\<open>FMath::ClosestPointOnLine(LineStart, LineEnd, Point)\<close> (engine), the closest point of the
  segment: the parameter is clamped to \<open>[0, 1]\<close>. The engine divides by the squared length
  without a guard; for a segment of length zero the model returns \<open>LineStart\<close>, the only
  point of the segment.
\<close>

definition ClosestPointOnLine :: "FVector \<Rightarrow> FVector \<Rightarrow> FVector \<Rightarrow> FVector" where
  "ClosestPointOnLine LineStart LineEnd Point =
     (let A = Dot (LineStart - Point) (LineEnd - LineStart);
          B = SizeSquared (LineEnd - LineStart) in
      if B = 0 then LineStart
      else LineStart + Scale (LineEnd - LineStart) (max 0 (min 1 (- A / B))))"

text \<open>\<^verbatim>\<open>FBox(Min, Max).GetClosestPointTo(Point)\<close> (engine): each coordinate clamped into the box.\<close>

definition BoxClosestPointTo :: "FVector \<Rightarrow> FVector \<Rightarrow> FVector \<Rightarrow> FVector" where
  "BoxClosestPointTo BoxMin BoxMax Point =
     FVector
       (if X Point < X BoxMin then X BoxMin else if X Point > X BoxMax then X BoxMax else X Point)
       (if Y Point < Y BoxMin then Y BoxMin else if Y Point > Y BoxMax then Y BoxMax else Y Point)
       (if Z Point < Z BoxMin then Z BoxMin else if Z Point > Z BoxMax then Z BoxMax else Z Point)"

section \<open>Orientation: \<^verbatim>\<open>NinjaMath.h\<close>\<close>

datatype FQuat = FQuat (QX: real) (QY: real) (QZ: real) (QW: real)

text \<open>\<^verbatim>\<open>FNinjaMath::GetAxisZ(const FQuat&)\<close>: the up direction rotated by a quaternion.\<close>

definition GetAxisZ :: "FQuat \<Rightarrow> FVector" where
  "GetAxisZ Quat =
     (let X2 = QX Quat * 2; Y2 = QY Quat * 2; Z2 = QZ Quat * 2 in
      FVector (QX Quat * Z2 + QW Quat * Y2)
              (QY Quat * Z2 - QW Quat * X2)
              (1 - (QX Quat * X2 + QY Quat * Y2)))"

section \<open>Hit results, floor results and the component's state\<close>

text \<open>
  Pointers to engine objects (actors, primitive components) are identifiers; \<open>None\<close> is
  \<^verbatim>\<open>nullptr\<close>. What the engine answers about an object is a field of the record \<open>world\<close>
  further down.
\<close>

type_synonym object = nat

record FHitResult =
  bBlockingHit :: bool
  bStartPenetrating :: bool
  Time :: real
  HitLocation :: FVector
  ImpactPoint :: FVector
  Normal :: FVector
  ImpactNormal :: FVector
  Component :: "object option"
  BoneName :: string

text \<open>\<^verbatim>\<open>FHitResult(float InTime)\<close>: the engine's constructor clears every field but the time.\<close>

definition FHitResult_init :: "real \<Rightarrow> FHitResult" where
  "FHitResult_init InTime =
     \<lparr> bBlockingHit = False, bStartPenetrating = False, Time = InTime, HitLocation = 0,
       ImpactPoint = 0, Normal = 0, ImpactNormal = 0, Component = None, BoneName = [] \<rparr>"

text \<open>\<^verbatim>\<open>FHitResult::IsValidBlockingHit\<close> (engine).\<close>

definition IsValidBlockingHit :: "FHitResult \<Rightarrow> bool" where
  "IsValidBlockingHit Hit \<longleftrightarrow> bBlockingHit Hit \<and> \<not> bStartPenetrating Hit"

record FFindFloorResult =
  floor_bBlockingHit :: bool
  bWalkableFloor :: bool
  bLineTrace :: bool
  FloorDist :: real
  LineDist :: real
  HitResult :: FHitResult

text \<open>\<^verbatim>\<open>FFindFloorResult::IsWalkableFloor\<close> (engine).\<close>

definition IsWalkableFloor :: "FFindFloorResult \<Rightarrow> bool" where
  "IsWalkableFloor F \<longleftrightarrow> floor_bBlockingHit F \<and> bWalkableFloor F"

text \<open>\<^verbatim>\<open>FFindFloorResult::GetDistanceToFloor\<close> (engine).\<close>

definition GetDistanceToFloor :: "FFindFloorResult \<Rightarrow> real" where
  "GetDistanceToFloor F = (if bLineTrace F then LineDist F else FloorDist F)"

text \<open>\<^verbatim>\<open>FFindFloorResult::SetFromSweep(InHit, InSweepFloorDist, bIsWalkableFloor)\<close> (engine).\<close>

definition SetFromSweep :: "FHitResult \<Rightarrow> real \<Rightarrow> bool \<Rightarrow> FFindFloorResult" where
  "SetFromSweep InHit InSweepFloorDist bIsWalkableFloor =
     \<lparr> floor_bBlockingHit = IsValidBlockingHit InHit, bWalkableFloor = bIsWalkableFloor,
       bLineTrace = False, FloorDist = InSweepFloorDist, LineDist = 0, HitResult = InHit \<rparr>"

datatype EMovementMode =
  MOVE_None | MOVE_Walking | MOVE_NavWalking | MOVE_Falling | MOVE_Swimming | MOVE_Flying
  | MOVE_Custom

datatype ENinjaGravityDirectionMode =
  Fixed | SplineTangent | Point | Line | Segment | Spline | Plane | SplinePlane | Box | Collision
  | Unused1 | Unused2 | Unused3 | Unused4 | Unused5 | Unused6 | Unused7 | Unused8 | Unused9

text \<open>
  The fields of \<^verbatim>\<open>UNinjaCharacterMovementComponent\<close> (and of the character and the updated
  component it owns) that the modelled functions read or write. \<open>bUpdatedComponent\<close> and
  \<open>bCharacterOwner\<close> say that the pointer of that name is not null, \<open>bIsActive\<close> is
  \<^verbatim>\<open>IsActive()\<close>, \<open>bIsSimulatedProxy\<close> is
  \<^verbatim>\<open>CharacterOwner->GetLocalRole() == ROLE_SimulatedProxy\<close>,
  \<open>GravityZ\<close> is \<^verbatim>\<open>UPawnMovementComponent::GetGravityZ()\<close>, \<open>bWaterVolume\<close> is
  \<^verbatim>\<open>GetPhysicsVolume()->bWaterVolume\<close>, \<open>CollisionHalfHeight\<close> is
  \<^verbatim>\<open>CharacterOwner->GetSimpleCollisionHalfHeight()\<close>, \<open>PawnRadius\<close> and \<open>PawnHalfHeight\<close>
  are the scaled size of the capsule, \<open>ForceJumpPeakSubstep\<close> is the console variable
  \<^verbatim>\<open>p.ForceJumpPeakSubstep\<close>, and \<open>MovementBase\<close>, \<open>BasedBoneName\<close> and \<open>BasedLocation\<close> are
  the character's \<^verbatim>\<open>GetBasedMovement()\<close>.
\<close>

record movement =
  bUpdatedComponent :: bool
  bCharacterOwner :: bool
  bIsActive :: bool
  bIsSimulatedProxy :: bool
  Location :: FVector
  ComponentQuat :: FQuat
  Velocity :: FVector
  Acceleration :: FVector
  MovementMode :: EMovementMode
  CurrentFloor :: FFindFloorResult
  bJustTeleported :: bool
  bForceNextFloorCheck :: bool
  bMaintainHorizontalGroundVelocity :: bool
  bLandOnAnySurface :: bool
  WalkableFloorZ :: real
  MaxStepHeight :: real
  PawnRadius :: real
  PawnHalfHeight :: real
  Buoyancy :: real
  bWaterVolume :: bool
  CollisionHalfHeight :: real
  ForceJumpPeakSubstep :: int
  NumJumpApexAttempts :: int
  MaxJumpApexAttemptsPerSimulation :: int
  MaxSimulationIterations :: int
  MovementBase :: "object option"
  BasedBoneName :: string
  BasedLocation :: FVector
  bNetworkLargeClientCorrection :: bool
  LastUpdateLocation :: FVector
  LastUpdateRotation :: FQuat
  LastUpdateVelocity :: FVector
  ThresholdParallelCosine :: real
  GravityZ :: real
  GravityScale :: real
  GravityDirectionMode :: ENinjaGravityDirectionMode
  GravityVectorA :: FVector
  GravityVectorB :: FVector
  GravityActor :: "object option"

text \<open>
  How the part of a falling substep that moves the capsule ends: the function has returned
  (landing, entering water, a changed movement mode, lost data), or the loop goes on.
\<close>

datatype falling_step = Return movement | Continue movement

text \<open>
  The answers of the engine and of the collision backend, which are outside this repository:
  whether an actor is alive, the spline queries on the gravity actor (\<open>None\<close>: the actor has
  no spline component), its location, bounds and closest collision point, the slope override
  of a hit component, whether the physics volume has a brush component, and the line trace
  against that brush (\<open>None\<close>: nothing was hit and the engine leaves the hit result as the
  caller constructed it; \<open>Some h\<close>: the hit it wrote). The sweeps
  \<^verbatim>\<open>SafeMoveUpdatedComponent\<close> and \<^verbatim>\<open>MoveUpdatedComponent\<close> move the capsule of the given
  component by a delta and answer with the hit and the location the capsule reached;
  \<^verbatim>\<open>CanStepUp\<close>, \<^verbatim>\<open>HandleImpact\<close>, \<^verbatim>\<open>SlideAlongSurface\<close> (the amount it slid and the
  component after it) and \<^verbatim>\<open>FindFloor\<close> are the engine's, too. The last five fields are
  the parts of the falling and swimming integrators that run the engine's velocity
  computation and the collision response; the sections of \<^verbatim>\<open>PhysFalling\<close> and
  \<^verbatim>\<open>PhysSwimming\<close> say which lines each stands for.
\<close>

record world =
  IsPendingKill :: "object \<Rightarrow> bool"
  FindDirectionClosestToWorldLocation :: "object \<Rightarrow> FVector \<Rightarrow> FVector option"
  FindLocationClosestToWorldLocation :: "object \<Rightarrow> FVector \<Rightarrow> FVector option"
  ClosestLocationAndUpVector :: "object \<Rightarrow> FVector \<Rightarrow> (FVector \<times> FVector) option"
  GetActorLocation :: "object \<Rightarrow> FVector"
  GetActorBounds :: "object \<Rightarrow> FVector \<times> FVector"
  GetClosestPointOnCollision :: "object \<Rightarrow> FVector \<Rightarrow> real \<times> FVector"
  ModifyWalkableFloorZ :: "object \<Rightarrow> real \<Rightarrow> real"
  bVolumeBrushComp :: bool
  BrushLineTrace :: "FVector \<Rightarrow> FVector \<Rightarrow> FHitResult option"
  SafeMoveUpdatedComponent :: "movement \<Rightarrow> FVector \<Rightarrow> FHitResult \<times> FVector"
  MoveUpdatedComponent :: "movement \<Rightarrow> FVector \<Rightarrow> FHitResult \<times> FVector"
  CanStepUp :: "movement \<Rightarrow> FHitResult \<Rightarrow> bool"
  HandleImpact :: "FHitResult \<Rightarrow> movement \<Rightarrow> movement"
  SlideAlongSurface ::
    "FVector \<Rightarrow> real \<Rightarrow> FVector \<Rightarrow> FHitResult \<Rightarrow> bool \<Rightarrow> movement \<Rightarrow> real \<times> movement"
  FindFloor :: "movement \<Rightarrow> FVector \<Rightarrow> FHitResult option \<Rightarrow> FFindFloorResult"
  GetSimulationTimeStep :: "real \<Rightarrow> int \<Rightarrow> real"
  RestorePreAdditiveRootMotionVelocity :: "movement \<Rightarrow> movement"
  FallingVelocity :: "movement \<Rightarrow> real \<Rightarrow> FVector \<Rightarrow> movement \<Rightarrow> movement"
  FallingMove ::
    "movement \<Rightarrow> movement \<Rightarrow> real \<Rightarrow> real \<Rightarrow> int \<Rightarrow> FVector \<Rightarrow> real \<Rightarrow> movement
       \<Rightarrow> falling_step"
  SwimmingBody :: "real \<Rightarrow> int \<Rightarrow> FVector \<Rightarrow> movement \<Rightarrow> movement"

definition GetComponentAxisZ :: "movement \<Rightarrow> FVector" where
  "GetComponentAxisZ st = GetAxisZ (ComponentQuat st)"

text \<open>\<^verbatim>\<open>HasValidData\<close> (engine): the updated component and the character owner exist.\<close>

definition HasValidData :: "movement \<Rightarrow> bool" where
  "HasValidData st \<longleftrightarrow> bUpdatedComponent st \<and> bCharacterOwner st"

text \<open>
  \<^verbatim>\<open>IsFalling\<close> and \<^verbatim>\<open>IsMovingOnGround\<close> (engine): a test of the movement mode on an
  existing updated component.
\<close>

definition IsFalling :: "movement \<Rightarrow> bool" where
  "IsFalling st \<longleftrightarrow> MovementMode st = MOVE_Falling \<and> bUpdatedComponent st"

definition IsMovingOnGround :: "movement \<Rightarrow> bool" where
  "IsMovingOnGround st \<longleftrightarrow>
     (MovementMode st = MOVE_Walking \<or> MovementMode st = MOVE_NavWalking) \<and> bUpdatedComponent st"

section \<open>\<^verbatim>\<open>ImmersionDepth\<close>\<close>

definition ImmersionDepth :: "world \<Rightarrow> movement \<Rightarrow> real" where
  "ImmersionDepth W st =
     (if bCharacterOwner st \<and> bWaterVolume st then
        (let CollisionHalfHeight = CollisionHalfHeight st in
         if CollisionHalfHeight = 0 \<or> Buoyancy st = 0 then 1
         else
           (let Hit0 = FHitResult_init 1;
                Hit =
                  (if bVolumeBrushComp W then
                     (let CapsuleHalfHeight = Scale (GetComponentAxisZ st) CollisionHalfHeight;
                          TraceStart = Location st + CapsuleHalfHeight;
                          TraceEnd = Location st - CapsuleHalfHeight in
                      case BrushLineTrace W TraceStart TraceEnd of
                        None \<Rightarrow> Hit0
                      | Some h \<Rightarrow> h)
                   else Hit0) in
            if Time Hit = 1 then 1 else 1 - Time Hit))
      else 0)"

section \<open>\<^verbatim>\<open>MaintainHorizontalGroundVelocity\<close>\<close>

definition MaintainHorizontalGroundVelocity :: "engine \<Rightarrow> movement \<Rightarrow> movement" where
  "MaintainHorizontalGroundVelocity K st =
     (if bMaintainHorizontalGroundVelocity st then
        st\<lparr>Velocity := VectorPlaneProject (Velocity st) (GetComponentAxisZ st)\<rparr>
      else
        st\<lparr>Velocity :=
             Scale (GetSafeNormal K (VectorPlaneProject (Velocity st) (GetComponentAxisZ st)))
                   (Size (Velocity st))\<rparr>)"

section \<open>\<^verbatim>\<open>GetGravityDirection\<close>\<close>

text \<open>
  \<^verbatim>\<open>GravityActor != nullptr && !GravityActor->IsPendingKill()\<close>, giving the actor.
\<close>

definition LiveGravityActor :: "world \<Rightarrow> movement \<Rightarrow> object option" where
  "LiveGravityActor W st =
     (case GravityActor st of
        None \<Rightarrow> None
      | Some a \<Rightarrow> if IsPendingKill W a then None else Some a)"

text \<open>
  The function is \<^verbatim>\<open>const\<close> but refreshes \<open>GravityVectorA\<close> and \<open>GravityVectorB\<close> from the
  gravity actor through a \<^verbatim>\<open>const_cast\<close>. \<open>RefreshGravityVectors\<close> is that write: the state
  in which the \<^verbatim>\<open>switch\<close> of the given mode then reads the two vectors. It is the same in
  both copies of the \<^verbatim>\<open>switch\<close>.
\<close>

definition RefreshGravityVectors :: "world \<Rightarrow> movement \<Rightarrow> movement" where
  "RefreshGravityVectors W st =
     (case LiveGravityActor W st of
        None \<Rightarrow> st
      | Some a \<Rightarrow>
         (case GravityDirectionMode st of
            SplineTangent \<Rightarrow>
              (case FindDirectionClosestToWorldLocation W a (Location st) of
                 None \<Rightarrow> st
               | Some d \<Rightarrow> st\<lparr>GravityVectorA := d\<rparr>)
          | Point \<Rightarrow> st\<lparr>GravityVectorA := GetActorLocation W a\<rparr>
          | Spline \<Rightarrow>
              (case FindLocationClosestToWorldLocation W a (Location st) of
                 None \<Rightarrow> st
               | Some p \<Rightarrow> st\<lparr>GravityVectorA := p\<rparr>)
          | SplinePlane \<Rightarrow>
              (case ClosestLocationAndUpVector W a (Location st) of
                 None \<Rightarrow> st
               | Some (ClosestLocation, ClosestUpVector) \<Rightarrow>
                   st\<lparr>GravityVectorA :=
                        PointPlaneProject (Location st) ClosestLocation ClosestUpVector,
                      GravityVectorB := ClosestUpVector\<rparr>)
          | Box \<Rightarrow>
              st\<lparr>GravityVectorA := fst (GetActorBounds W a),
                 GravityVectorB := snd (GetActorBounds W a)\<rparr>
          | Collision \<Rightarrow>
              (let (Dist, ClosestPoint) = GetClosestPointOnCollision W a (Location st) in
               if Dist > 0 then st\<lparr>GravityVectorA := ClosestPoint\<rparr> else st)
          | _ \<Rightarrow> st))"

text \<open>
  One \<^verbatim>\<open>case\<close> of the \<^verbatim>\<open>switch\<close>, after the refresh. \<open>Sign\<close> is the factor the source
  multiplies with: \<^verbatim>\<open>(GravityScale > 0.0f) ? 1.0f : -1.0f\<close> in the first copy of the
  \<^verbatim>\<open>switch\<close>, and \<open>None\<close> in the second copy, which multiplies with nothing. The
  \<^verbatim>\<open>Unused\<close> modes have no \<^verbatim>\<open>case\<close> and leave the zero vector.
\<close>

definition Signed :: "real option \<Rightarrow> FVector \<Rightarrow> FVector" where
  "Signed Sign v = (case Sign of None \<Rightarrow> v | Some s \<Rightarrow> Scale v s)"

definition NormalizedOrZero :: "engine \<Rightarrow> real option \<Rightarrow> FVector \<Rightarrow> FVector" where
  "NormalizedOrZero K Sign GravityDir =
     (if \<not> IsZero GravityDir then Signed Sign (GetSafeNormal K GravityDir) else GravityDir)"

definition GravityDirSwitch :: "engine \<Rightarrow> movement \<Rightarrow> real option \<Rightarrow> FVector" where
  "GravityDirSwitch K st Sign =
     (case GravityDirectionMode st of
        Fixed \<Rightarrow> Signed Sign (GravityVectorA st)
      | SplineTangent \<Rightarrow> Signed Sign (GravityVectorA st)
      | Point \<Rightarrow> NormalizedOrZero K Sign (GravityVectorA st - Location st)
      | Line \<Rightarrow>
          NormalizedOrZero K Sign
            (ClosestPointOnInfiniteLine K (GravityVectorA st) (GravityVectorB st) (Location st)
               - Location st)
      | Segment \<Rightarrow>
          NormalizedOrZero K Sign
            (ClosestPointOnLine (GravityVectorA st) (GravityVectorB st) (Location st)
               - Location st)
      | Spline \<Rightarrow> NormalizedOrZero K Sign (GravityVectorA st - Location st)
      | Plane \<Rightarrow>
          NormalizedOrZero K Sign
            (PointPlaneProject (Location st) (GravityVectorA st) (GravityVectorB st)
               - Location st)
      | SplinePlane \<Rightarrow> NormalizedOrZero K Sign (GravityVectorA st - Location st)
      | Box \<Rightarrow>
          NormalizedOrZero K Sign
            (BoxClosestPointTo (GravityVectorA st - GravityVectorB st)
               (GravityVectorA st + GravityVectorB st) (Location st) - Location st)
      | Collision \<Rightarrow> NormalizedOrZero K Sign (GravityVectorA st - Location st)
      | _ \<Rightarrow> 0)"

text \<open>
  \<^verbatim>\<open>GetGravityDirection(bAvoidZeroGravity)\<close>: the direction returned, and the component with
  its refreshed gravity vectors.
\<close>

definition GetGravityDirection :: "engine \<Rightarrow> world \<Rightarrow> movement \<Rightarrow> bool \<Rightarrow> FVector \<times> movement" where
  "GetGravityDirection K W st bAvoidZeroGravity =
     (if \<not> HasValidData st then (DownVector, st)
      else if GravityScale st \<noteq> 0 then
        (let st' = RefreshGravityVectors W st;
             ScaleSign = (if GravityScale st > 0 then 1 else - 1);
             GravityDir = GravityDirSwitch K st' (Some ScaleSign) in
         if bAvoidZeroGravity \<and> IsZero GravityDir then
           (FVector 0 0 ((if GravityZ st > 0 then 1 else - 1) * ScaleSign), st')
         else (GravityDir, st'))
      else if bAvoidZeroGravity then
        (let st' = RefreshGravityVectors W st;
             GravityDir = GravityDirSwitch K st' None in
         if IsZero GravityDir then
           (FVector 0 0 (if GravityZ st > 0 then 1 else - 1), st')
         else (GravityDir, st'))
      else (0, st))"

section \<open>\<^verbatim>\<open>IsWalkable\<close>\<close>

text \<open>
  The threshold the source keeps in \<^verbatim>\<open>TestWalkableZ\<close>: \<^verbatim>\<open>GetWalkableFloorZ()\<close>, passed
  through the slope override of the hit component when the hit has one.
\<close>

definition TestWalkableZ :: "world \<Rightarrow> movement \<Rightarrow> FHitResult \<Rightarrow> real" where
  "TestWalkableZ W st Hit =
     (case Component Hit of
        None \<Rightarrow> WalkableFloorZ st
      | Some HitComponent \<Rightarrow> ModifyWalkableFloorZ W HitComponent (WalkableFloorZ st))"

text \<open>
  \<^verbatim>\<open>GetGravityDirection()\<close> is called with its default argument,
  \<^verbatim>\<open>bAvoidZeroGravity = false\<close>.
\<close>

definition IsWalkable :: "engine \<Rightarrow> world \<Rightarrow> movement \<Rightarrow> FHitResult \<Rightarrow> bool" where
  "IsWalkable K W st Hit =
     (if \<not> IsValidBlockingHit Hit then False
      else
        (let CapsuleUp = GetComponentAxisZ st in
         if Dot (ImpactNormal Hit) CapsuleUp < KINDA_SMALL_NUMBER K then False
         else
           (let TestWalkableZ = TestWalkableZ W st Hit in
            if Dot (ImpactNormal Hit) CapsuleUp < TestWalkableZ then False
            else if \<not> bLandOnAnySurface st \<and> IsFalling st \<and>
                    Dot (ImpactNormal Hit) (Scale (fst (GetGravityDirection K W st False)) (- 1))
                      < TestWalkableZ
            then False
            else True)))"

section \<open>\<^verbatim>\<open>AdjustFloorHeight\<close>\<close>

definition AdjustFloorHeight :: "engine \<Rightarrow> world \<Rightarrow> movement \<Rightarrow> movement" where
  "AdjustFloorHeight K W st =
     (if \<not> IsWalkableFloor (CurrentFloor st) then st
      else if bLineTrace (CurrentFloor st) \<and> FloorDist (CurrentFloor st) < MIN_FLOOR_DIST K \<and>
              LineDist (CurrentFloor st) \<ge> MIN_FLOOR_DIST K
      then st
      else
        (let OldFloorDist =
               (if bLineTrace (CurrentFloor st) then LineDist (CurrentFloor st)
                else FloorDist (CurrentFloor st)) in
         if OldFloorDist < MIN_FLOOR_DIST K \<or> OldFloorDist > MAX_FLOOR_DIST K then
           (let AvgFloorDist = (MIN_FLOOR_DIST K + MAX_FLOOR_DIST K) * (1 / 2);
                MoveDist = AvgFloorDist - OldFloorDist;
                CapsuleUp = GetComponentAxisZ st;
                InitialLocation = Location st;
                (AdjustHit, NewLocation) = SafeMoveUpdatedComponent W st (Scale CapsuleUp MoveDist);
                st1 = st\<lparr>Location := NewLocation\<rparr>;
                st2 =
                  (if \<not> IsValidBlockingHit AdjustHit then
                     st1\<lparr>CurrentFloor := (CurrentFloor st1)
                          \<lparr>FloorDist := FloorDist (CurrentFloor st1) + MoveDist\<rparr>\<rparr>
                   else if MoveDist > 0 then
                     st1\<lparr>CurrentFloor := (CurrentFloor st1)
                          \<lparr>FloorDist := FloorDist (CurrentFloor st1)
                             + Dot (InitialLocation - Location st1) CapsuleUp\<rparr>\<rparr>
                   else
                     (let st1' = st1\<lparr>CurrentFloor := (CurrentFloor st1)
                            \<lparr>FloorDist := Dot (HitLocation AdjustHit - Location st1) CapsuleUp\<rparr>\<rparr> in
                      if IsWalkable K W st1' AdjustHit then
                        st1'\<lparr>CurrentFloor :=
                               SetFromSweep AdjustHit (FloorDist (CurrentFloor st1')) True\<rparr>
                      else st1'));
                st3 = st2\<lparr>bJustTeleported :=
                         bJustTeleported st2 \<or> \<not> bMaintainHorizontalGroundVelocity st2 \<or>
                         OldFloorDist < 0\<rparr> in
            if bCharacterOwner st3 \<and> \<not> bIsSimulatedProxy st3
            then st3\<lparr>bForceNextFloorCheck := True\<rparr>
            else st3)
         else st))"

section \<open>\<^verbatim>\<open>StepUp\<close>\<close>

definition MAX_STEP_SIDE_Z :: real where
  "MAX_STEP_SIDE_Z = 8 / 100"

definition IsWithinEdgeToleranceEx :: "engine \<Rightarrow> FVector \<Rightarrow> FVector \<Rightarrow> real \<Rightarrow> FVector \<Rightarrow> bool" where
  "IsWithinEdgeToleranceEx K CapsuleLocation CapsuleDown CapsuleRadius TestImpactPoint =
     (let DistFromCenterSq =
            SizeSquared (CapsuleLocation
              + Scale CapsuleDown (Dot (TestImpactPoint - CapsuleLocation) CapsuleDown)
              - TestImpactPoint);
          ReducedRadiusSq =
            (max (SWEEP_EDGE_REJECT_DISTANCE K + KINDA_SMALL_NUMBER K)
                 (CapsuleRadius - SWEEP_EDGE_REJECT_DISTANCE K))\<^sup>2 in
      DistFromCenterSq < ReducedRadiusSq)"

record FStepDownResult =
  bComputedFloor :: bool
  FloorResult :: FFindFloorResult

text \<open>The default-constructed \<^verbatim>\<open>FStepDownResult\<close> (engine).\<close>

definition FStepDownResult_init :: FStepDownResult where
  "FStepDownResult_init =
     \<lparr> bComputedFloor = False,
       FloorResult = \<lparr> floor_bBlockingHit = False, bWalkableFloor = False, bLineTrace = False,
         FloorDist = 0, LineDist = 0, HitResult = FHitResult_init 1 \<rparr> \<rparr>"

text \<open>
  \<^verbatim>\<open>FScopedMovementUpdate::RevertMove\<close> (engine): the updated component gets back the
  transform it had when the scope was opened.
\<close>

definition RevertMove :: "movement \<Rightarrow> movement \<Rightarrow> movement" where
  "RevertMove st0 st = st\<lparr>Location := Location st0, ComponentQuat := ComponentQuat st0\<rparr>"

text \<open>
  The local variables \<^verbatim>\<open>StepUp\<close> computes before it moves anything (the source's lines
  from \<^verbatim>\<open>OldLocation\<close> to the end of the \<^verbatim>\<open>IsMovingOnGround\<close> block).
\<close>

record step_locals =
  OldLocation :: FVector
  CapsuleRadius :: real
  CapsuleDown :: FVector
  BottomPoint :: FVector
  TopPoint :: FVector
  StepTravelUpHeight :: real
  StepTravelDownHeight :: real
  StepSideZ :: real
  PawnInitialFloorBase :: FVector
  PawnFloorPoint :: FVector

definition StepUp_locals :: "engine \<Rightarrow> movement \<Rightarrow> FVector \<Rightarrow> FHitResult \<Rightarrow> step_locals" where
  "StepUp_locals K st GravDir InHit =
     (let OldLocation = Location st;
          Radius = PawnRadius st;
          HalfHeight = PawnHalfHeight st;
          CapsuleDown = Scale (GetComponentAxisZ st) (- 1);
          BottomPoint = OldLocation + Scale CapsuleDown HalfHeight;
          TopPoint = OldLocation - Scale CapsuleDown (max 0 (HalfHeight - Radius));
          StepSideZ = - 1 * Dot (ImpactNormal InHit) GravDir;
          PawnInitialFloorBase = OldLocation + Scale CapsuleDown HalfHeight in
      if IsMovingOnGround st \<and> IsWalkableFloor (CurrentFloor st) then
        (let DistToFloor = max 0 (GetDistanceToFloor (CurrentFloor st));
             bHitVerticalFace =
               \<not> IsWithinEdgeToleranceEx K (HitLocation InHit) CapsuleDown Radius
                   (ImpactPoint InHit) in
         \<lparr> OldLocation = OldLocation, CapsuleRadius = Radius, CapsuleDown = CapsuleDown,
           BottomPoint = BottomPoint, TopPoint = TopPoint,
           StepTravelUpHeight = max (MaxStepHeight st - DistToFloor) 0,
           StepTravelDownHeight = MaxStepHeight st + MAX_FLOOR_DIST K * 2,
           StepSideZ = StepSideZ,
           PawnInitialFloorBase = PawnInitialFloorBase + Scale CapsuleDown DistToFloor,
           PawnFloorPoint =
             (if \<not> bLineTrace (CurrentFloor st) \<and> \<not> bHitVerticalFace
              then ImpactPoint (HitResult (CurrentFloor st))
              else PawnInitialFloorBase + Scale CapsuleDown (FloorDist (CurrentFloor st))) \<rparr>)
      else
        \<lparr> OldLocation = OldLocation, CapsuleRadius = Radius, CapsuleDown = CapsuleDown,
          BottomPoint = BottomPoint, TopPoint = TopPoint, StepTravelUpHeight = MaxStepHeight st,
          StepTravelDownHeight = MaxStepHeight st, StepSideZ = StepSideZ,
          PawnInitialFloorBase = PawnInitialFloorBase,
          PawnFloorPoint = PawnInitialFloorBase \<rparr>)"

text \<open>
  \<^verbatim>\<open>StepUp\<close> answers with its return value, the component, and what \<^verbatim>\<open>OutStepDownResult\<close>
  points to (\<open>None\<close>: the pointer is null). \<open>st0\<close> is the component when the movement scope
  was opened. The function is cut at its three sweeps: \<open>StepUp_landing\<close> is the source from
  \<^verbatim>\<open>FStepDownResult StepDownResult\<close> to the end, \<open>StepUp_down\<close> the step down before it,
  \<open>StepUp_forward\<close> the step forward, and \<open>StepUp\<close> the checks and the step up. The radius
  of the capsule and its down axis are those read at the start; \<open>MaxStepHeight\<close> and the up
  axis of \<^verbatim>\<open>IsWalkable\<close> are read when they are used. The first projection divides by the
  squared length of the capsule's axis segment; for a segment of length zero the dividend is
  zero too, and the comparison with 1 fails in the source (NaN) as it does here.
\<close>

definition StepUp_accept ::
  "movement \<Rightarrow> FStepDownResult option \<Rightarrow> FStepDownResult
     \<Rightarrow> bool \<times> movement \<times> FStepDownResult option" where
  "StepUp_accept st Out StepDownResult =
     (True,
      st\<lparr>bJustTeleported := bJustTeleported st \<or> \<not> bMaintainHorizontalGroundVelocity st\<rparr>,
      (case Out of None \<Rightarrow> None | Some r \<Rightarrow> Some StepDownResult))"

definition StepUp_landing ::
  "engine \<Rightarrow> world \<Rightarrow> movement \<Rightarrow> step_locals \<Rightarrow> FVector \<Rightarrow> FHitResult \<Rightarrow> movement
     \<Rightarrow> FStepDownResult option \<Rightarrow> bool \<times> movement \<times> FStepDownResult option" where
  "StepUp_landing K W st0 L Delta Hit st Out =
     (if IsValidBlockingHit Hit then
        (let DeltaZ = Dot (PawnFloorPoint L - ImpactPoint Hit) (CapsuleDown L) in
         if DeltaZ > MaxStepHeight st then (False, RevertMove st0 st, Out)
         else if \<not> IsWalkable K W st Hit \<and> Dot Delta (ImpactNormal Hit) < 0
           then (False, RevertMove st0 st, Out)
         else if \<not> IsWalkable K W st Hit \<and>
                 Dot (OldLocation L - HitLocation Hit) (CapsuleDown L) > 0
           then (False, RevertMove st0 st, Out)
         else if \<not> IsWithinEdgeToleranceEx K (HitLocation Hit) (CapsuleDown L) (CapsuleRadius L)
                     (ImpactPoint Hit)
           then (False, RevertMove st0 st, Out)
         else if DeltaZ > 0 \<and> \<not> CanStepUp W st Hit then (False, RevertMove st0 st, Out)
         else
           (case Out of
              None \<Rightarrow> StepUp_accept st Out FStepDownResult_init
            | Some r \<Rightarrow>
                (let FloorResult = FindFloor W st (Location st) (Some Hit) in
                 if Dot (OldLocation L - HitLocation Hit) (CapsuleDown L) > 0 \<and>
                    \<not> floor_bBlockingHit FloorResult \<and> StepSideZ L < MAX_STEP_SIDE_Z
                 then (False, RevertMove st0 st, Out)
                 else StepUp_accept st Out
                        \<lparr> bComputedFloor = True, FloorResult = FloorResult \<rparr>)))
      else StepUp_accept st Out FStepDownResult_init)"

definition StepUp_down ::
  "engine \<Rightarrow> world \<Rightarrow> movement \<Rightarrow> step_locals \<Rightarrow> FVector \<Rightarrow> FVector \<Rightarrow> movement
     \<Rightarrow> FStepDownResult option \<Rightarrow> bool \<times> movement \<times> FStepDownResult option" where
  "StepUp_down K W st0 L GravDir Delta st Out =
     (let (Hit, NewLocation) =
            MoveUpdatedComponent W st (Scale GravDir (StepTravelDownHeight L));
          st1 = st\<lparr>Location := NewLocation\<rparr> in
      if bStartPenetrating Hit then (False, RevertMove st0 st1, Out)
      else StepUp_landing K W st0 L Delta Hit st1 Out)"

definition StepUp_forward ::
  "engine \<Rightarrow> world \<Rightarrow> movement \<Rightarrow> step_locals \<Rightarrow> FVector \<Rightarrow> FVector \<Rightarrow> FHitResult
     \<Rightarrow> movement \<Rightarrow> FStepDownResult option \<Rightarrow> bool \<times> movement \<times> FStepDownResult option" where
  "StepUp_forward K W st0 L GravDir Delta SweepUpHit st Out =
     (let (Hit, NewLocation) = MoveUpdatedComponent W st Delta;
          st1 = st\<lparr>Location := NewLocation\<rparr> in
      if bBlockingHit Hit then
        (if bStartPenetrating Hit then (False, RevertMove st0 st1, Out)
         else
           (let st2 = (if bBlockingHit SweepUpHit \<and> bBlockingHit Hit
                       then HandleImpact W SweepUpHit st1 else st1);
                st3 = HandleImpact W Hit st2 in
            if IsFalling st3 then (True, st3, Out)
            else
              (let ForwardHitTime = Time Hit;
                   (ForwardSlideAmount, st4) =
                     SlideAlongSurface W Delta (1 - Time Hit) (Normal Hit) Hit True st3 in
               if IsFalling st4 then (False, RevertMove st0 st4, Out)
               else if ForwardHitTime = 0 \<and> ForwardSlideAmount = 0
                 then (False, RevertMove st0 st4, Out)
               else StepUp_down K W st0 L GravDir Delta st4 Out)))
      else StepUp_down K W st0 L GravDir Delta st1 Out)"

definition StepUp ::
  "engine \<Rightarrow> world \<Rightarrow> movement \<Rightarrow> FVector \<Rightarrow> FVector \<Rightarrow> FHitResult
     \<Rightarrow> FStepDownResult option \<Rightarrow> bool \<times> movement \<times> FStepDownResult option" where
  "StepUp K W st GravDir Delta InHit Out =
     (if \<not> CanStepUp W st InHit \<or> MaxStepHeight st \<le> 0 then (False, st, Out)
      else
        (let L = StepUp_locals K st GravDir InHit;
             Segment = TopPoint L - BottomPoint L in
         if Dot (ImpactPoint InHit - BottomPoint L) Segment / SizeSquared Segment > 1
           then (False, st, Out)
         else if Dot (ImpactPoint InHit - PawnInitialFloorBase L)
                   (TopPoint L - PawnInitialFloorBase L) \<le> 0
           then (False, st, Out)
         else
           (let (SweepUpHit, NewLocation) =
                  MoveUpdatedComponent W st (Scale GravDir (- StepTravelUpHeight L));
                st1 = st\<lparr>Location := NewLocation\<rparr> in
            if bStartPenetrating SweepUpHit then (False, RevertMove st st1, Out)
            else StepUp_forward K W st L GravDir Delta SweepUpHit st1 Out)))"

text \<open>
  The three checks that \<^verbatim>\<open>StepUp\<close> makes before it opens the movement scope all pass: the
  hit can be stepped up with a positive step height, the impact is not above the capsule's
  axis segment, and it is not below the floor base.
\<close>

definition StepUp_starts :: "engine \<Rightarrow> world \<Rightarrow> movement \<Rightarrow> FVector \<Rightarrow> FHitResult \<Rightarrow> bool" where
  "StepUp_starts K W st GravDir InHit \<longleftrightarrow>
     CanStepUp W st InHit \<and> 0 < MaxStepHeight st \<and>
     (let L = StepUp_locals K st GravDir InHit in
      \<not> Dot (ImpactPoint InHit - BottomPoint L) (TopPoint L - BottomPoint L)
           / SizeSquared (TopPoint L - BottomPoint L) > 1 \<and>
      \<not> Dot (ImpactPoint InHit - PawnInitialFloorBase L)
           (TopPoint L - PawnInitialFloorBase L) \<le> 0)"

section \<open>\<^verbatim>\<open>PhysFalling\<close> and \<^verbatim>\<open>PhysSwimming\<close>\<close>

text \<open>\<^verbatim>\<open>FMath::IsNearlyZero\<close> (engine) with its default tolerance.\<close>

definition IsNearlyZero :: "engine \<Rightarrow> real \<Rightarrow> bool" where
  "IsNearlyZero K x \<longleftrightarrow> \<bar>x\<bar> \<le> SMALL_NUMBER K"

text \<open>
  The local variables of the loop of \<^verbatim>\<open>PhysFalling\<close> that the apex substep reads and writes.
\<close>

record falling_locals =
  timeTick :: real
  RemainingTime :: real
  Iterations :: int
  VelocityZ :: real

text \<open>
  The block under \<^verbatim>\<open>See if we need to sub-step to exactly reach the apex\<close>. \<open>OldVelocity\<close>
  and \<open>OldSpeedZ\<close> are the loop's constants of that name. \<open>timeTick\<close> is a positive time
  step; \<^verbatim>\<open>ApexTimeMinimum\<close> is the literal \<^verbatim>\<open>0.0001f\<close>, the single-precision number
  nearest to 0.0001.
\<close>

definition JumpApexSubstep ::
  "engine \<Rightarrow> FVector \<Rightarrow> FVector \<Rightarrow> real \<Rightarrow> falling_locals \<times> movement
     \<Rightarrow> falling_locals \<times> movement" where
  "JumpApexSubstep K GravityDir OldVelocity OldSpeedZ Fst =
     (let F = fst Fst; st = snd Fst in
      if ForceJumpPeakSubstep st \<noteq> 0 \<and> OldSpeedZ > 0 \<and> VelocityZ F \<le> 0 \<and>
         NumJumpApexAttempts st < MaxJumpApexAttemptsPerSimulation st then
        (let DerivedAccel =
               FloatVectorDiv K (FloatVectorSub K (Velocity st) OldVelocity) (timeTick F);
             DerivedAccelZ = FloatMul K (FloatDot K DerivedAccel GravityDir) (- 1) in
         if \<not> IsNearlyZero K DerivedAccelZ then
           (let TimeToApex = FloatDiv K (- OldSpeedZ) DerivedAccelZ;
                ApexTimeMinimum = RoundFloat K (1 / 10000) in
            if TimeToApex \<ge> ApexTimeMinimum \<and> TimeToApex < timeTick F then
              (let ApexVelocity =
                     FloatVectorAdd K OldVelocity (FloatVectorScale K DerivedAccel TimeToApex) in
               (F\<lparr>timeTick := TimeToApex,
                  RemainingTime :=
                    FloatAdd K (RemainingTime F) (FloatSub K (timeTick F) TimeToApex),
                  Iterations := Iterations F - 1,
                  VelocityZ := 0\<rparr>,
                st\<lparr>Velocity := FloatVectorPlaneProject K ApexVelocity GravityDir,
                   NumJumpApexAttempts := NumJumpApexAttempts st + 1\<rparr>))
            else (F, st))
         else (F, st))
      else (F, st))"

text \<open>
  The \<^verbatim>\<open>while\<close> loop of \<^verbatim>\<open>PhysFalling\<close>. \<open>st_in\<close> is the component when the loop was entered
  (the source computes \<^verbatim>\<open>FallAcceleration\<close> and \<^verbatim>\<open>bHasLimitedAirControl\<close> from it).
  \<open>FallingVelocity\<close> stands for the lines from \<^verbatim>\<open>Apply input\<close> to \<^verbatim>\<open>Apply gravity\<close> (the
  engine's \<^verbatim>\<open>CalcVelocity\<close>, the jump force and \<^verbatim>\<open>NewFallVelocity\<close>), \<open>FallingMove\<close> for the
  lines from \<^verbatim>\<open>ApplyRootMotionToVelocityOVERRIDEN\<close> to the last deflected move (the sweeps of
  the collision backend, landing and impact handling). The engine's functions may change any
  field, so the loop carries a bound on its iterations: \<open>None\<close> says that the bound was
  reached before the loop's own test failed.
\<close>

fun PhysFalling_loop ::
  "nat \<Rightarrow> engine \<Rightarrow> world \<Rightarrow> movement \<Rightarrow> FVector \<Rightarrow> real \<Rightarrow> int \<Rightarrow> movement
     \<Rightarrow> movement option" where
  "PhysFalling_loop 0 K W st_in GravityDir RemainingTime0 Iterations0 st =
     (if RemainingTime0 \<ge> MIN_TICK_TIME K \<and> Iterations0 < MaxSimulationIterations st
      then None else Some st)"
| "PhysFalling_loop (Suc n) K W st_in GravityDir RemainingTime0 Iterations0 st =
     (if RemainingTime0 \<ge> MIN_TICK_TIME K \<and> Iterations0 < MaxSimulationIterations st then
        (let Iterations1 = Iterations0 + 1;
             timeTick1 = GetSimulationTimeStep W RemainingTime0 Iterations1;
             RemainingTime1 = FloatSub K RemainingTime0 timeTick1;
             st1 = RestorePreAdditiveRootMotionVelocity W (st\<lparr>bJustTeleported := False\<rparr>);
             OldVelocity = Velocity st1;
             OldSpeedZ = FloatMul K (FloatDot K OldVelocity GravityDir) (- 1);
             st2 = FallingVelocity W st_in timeTick1 GravityDir st1;
             Fst = JumpApexSubstep K GravityDir OldVelocity OldSpeedZ
                     (\<lparr> timeTick = timeTick1, RemainingTime = RemainingTime1,
                        Iterations = Iterations1,
                        VelocityZ = FloatMul K (FloatDot K (Velocity st2) GravityDir) (- 1) \<rparr>,
                      st2);
             F = fst Fst in
         case FallingMove W st_in st1 (timeTick F) (RemainingTime F) (Iterations F) GravityDir
                (VelocityZ F) (snd Fst) of
           Return st3 \<Rightarrow> Some st3
         | Continue st3 \<Rightarrow>
             PhysFalling_loop n K W st_in GravityDir (RemainingTime F) (Iterations F)
               (if SizeSquared (VectorPlaneProject (Velocity st3) GravityDir)
                     \<le> KINDA_SMALL_NUMBER K * 10
                then st3\<lparr>Velocity := Scale GravityDir (Dot (Velocity st3) GravityDir)\<rparr>
                else st3))
      else Some st)"

definition PhysFalling :: "nat \<Rightarrow> engine \<Rightarrow> world \<Rightarrow> real \<Rightarrow> int \<Rightarrow> movement \<Rightarrow> movement option" where
  "PhysFalling n K W deltaTime Iterations0 st =
     (if deltaTime < MIN_TICK_TIME K then Some st
      else
        (let (GravityDir, st1) = GetGravityDirection K W st False in
         if IsZero GravityDir then
           Some (st1\<lparr>Acceleration := 0, Velocity := 0\<rparr>)
         else PhysFalling_loop n K W st1 GravityDir deltaTime Iterations0 st1))"

text \<open>
  \<^verbatim>\<open>PhysSwimming\<close>; \<open>SwimmingBody\<close> stands for everything after the check of the gravity
  direction.
\<close>

definition PhysSwimming :: "engine \<Rightarrow> world \<Rightarrow> real \<Rightarrow> int \<Rightarrow> movement \<Rightarrow> movement" where
  "PhysSwimming K W deltaTime Iterations0 st =
     (if deltaTime < MIN_TICK_TIME K then st
      else
        (let (GravityDir, st1) = GetGravityDirection K W st False in
         if IsZero GravityDir then st1\<lparr>Acceleration := 0, Velocity := 0\<rparr>
         else SwimmingBody W deltaTime Iterations0 GravityDir st1))"

section \<open>Client prediction and server correction\<close>

datatype FRotator = FRotator (Pitch: real) (Yaw: real) (Roll: real)

text \<open>
  \<^verbatim>\<open>FClientAdjustment\<close> (engine): the correction or acknowledgement that the server holds for
  the client until it is sent.
\<close>

record FClientAdjustment =
  TimeStamp :: real
  DeltaTime :: real
  NewLoc :: FVector
  NewVel :: FVector
  NewRot :: FRotator
  NewBase :: "object option"
  NewBaseBoneName :: string
  bAckGoodMove :: bool
  bBaseRelativePosition :: bool
  AdjustmentMovementMode :: nat

text \<open>The fields of \<^verbatim>\<open>FNetworkPredictionData_Server_Character\<close> (engine) that are used.\<close>

record server_data =
  PendingAdjustment :: FClientAdjustment
  bForceClientUpdate :: bool
  LastUpdateTime :: real

text \<open>The arguments of \<^verbatim>\<open>ServerMoveHandleClientError\<close>.\<close>

record client_move =
  ClientTimeStamp :: real
  ClientDeltaTime :: real
  Accel :: FVector
  RelativeClientLoc :: FVector
  ClientMovementBase :: "object option"
  ClientBaseBoneName :: string
  ClientMovementMode :: nat

text \<open>
  The fields of \<^verbatim>\<open>FNetworkPredictionData_Client_Character\<close> (engine) that are used: the time
  stamps of the saved moves, that of the last acknowledged move, and \<open>bUpdatePosition\<close>.
\<close>

record client_data =
  SavedMoves :: "real list"
  LastAckedMove :: "real option"
  bUpdatePosition :: bool

text \<open>
  The arguments of \<^verbatim>\<open>ClientAdjustPosition_Implementation\<close>, and with them the rotation of the
  adjustment in the move response container, which the function reads.
\<close>

record correction =
  CorrectionTimeStamp :: real
  NewLocation :: FVector
  NewVelocity :: FVector
  CorrectionBase :: "object option"
  CorrectionBaseBoneName :: string
  bHasBase :: bool
  bRelativePosition :: bool
  ServerMovementMode :: nat
  ResponseNewRot :: FRotator

text \<open>
  The engine's side of the network code: the packed-RPC switch, the world's time, the update
  rate limiter of the game network manager, the movement base utilities, the world origin
  rebasing, the server's error check and its authoritative-position switch, the packing and
  applying of the movement mode, the base and floor bookkeeping, the conversions of rotations,
  the quaternion builder of \<^verbatim>\<open>FNinjaMath::MakeFromZQuat\<close> (made of the engine's quaternion
  functions), and the client's saved-move queries.
\<close>

record net =
  ShouldUsePackedMovementRPCs :: bool
  TimeSeconds :: real
  WithinUpdateDelayBounds :: "real \<Rightarrow> bool"
  UseRelativeLocation :: "object option \<Rightarrow> bool"
  GetMovementBaseLocation :: "object option \<Rightarrow> string \<Rightarrow> FVector"
  RebaseOntoLocalOrigin :: "FVector \<Rightarrow> FVector"
  RebaseOntoZeroOrigin :: "FVector \<Rightarrow> FVector"
  ServerCheckClientError ::
    "movement \<Rightarrow> client_move \<Rightarrow> FVector \<Rightarrow> object option \<Rightarrow> string \<Rightarrow> bool"
  ServerShouldUseAuthoritativePosition ::
    "movement \<Rightarrow> client_move \<Rightarrow> FVector \<Rightarrow> object option \<Rightarrow> string \<Rightarrow> bool"
  PackNetworkMovementMode :: "movement \<Rightarrow> nat"
  ApplyNetworkMovementMode :: "nat \<Rightarrow> movement \<Rightarrow> movement"
  SetBase :: "object option \<Rightarrow> string \<Rightarrow> movement \<Rightarrow> movement"
  UpdateFloorFromAdjustment :: "movement \<Rightarrow> movement"
  SaveBaseLocation :: "movement \<Rightarrow> movement"
  UpdateComponentVelocity :: "movement \<Rightarrow> movement"
  GetComponentRotation :: "FQuat \<Rightarrow> FRotator"
  RotatorAxisZ :: "FRotator \<Rightarrow> FVector"
  MakeFromZQuat :: "FVector \<Rightarrow> FQuat \<Rightarrow> real \<Rightarrow> FQuat"
  GetSavedMoveIndex :: "client_data \<Rightarrow> real \<Rightarrow> nat option"
  AckMove :: "nat \<Rightarrow> client_data \<Rightarrow> client_data"

text \<open>\<^verbatim>\<open>FNinjaMath::Coincident\<close>.\<close>

definition Coincident :: "FVector \<Rightarrow> FVector \<Rightarrow> real \<Rightarrow> bool" where
  "Coincident Vector1 Vector2 CosineThreshold \<longleftrightarrow> Dot Vector1 Vector2 \<ge> CosineThreshold"

subsection \<open>\<^verbatim>\<open>ServerMoveHandleClientError\<close>\<close>

text \<open>
  The two early exits: the first part of a double server move (without packed RPCs), and a
  move that arrives within the update delay of the last update.
\<close>

definition ServerMoveSkipped :: "net \<Rightarrow> client_move \<Rightarrow> server_data \<Rightarrow> bool" where
  "ServerMoveSkipped N mv sd \<longleftrightarrow>
     (\<not> ShouldUsePackedMovementRPCs N \<and> RelativeClientLoc mv = FVector 1 2 3) \<or>
     (LastUpdateTime sd \<noteq> TimeSeconds N \<and> WithinUpdateDelayBounds N (LastUpdateTime sd))"

text \<open>\<^verbatim>\<open>ClientLoc\<close>: the client's location in world space.\<close>

definition ClientLoc :: "net \<Rightarrow> client_move \<Rightarrow> FVector" where
  "ClientLoc N mv =
     (if UseRelativeLocation N (ClientMovementBase mv)
      then RelativeClientLoc mv
             + GetMovementBaseLocation N (ClientMovementBase mv) (ClientBaseBoneName mv)
      else RebaseOntoLocalOrigin N (RelativeClientLoc mv))"

text \<open>
  The base and bone that are compared: the server's own when the client sent a null base
  while walking (\<^verbatim>\<open>MOVE_Walking\<close> is 1).
\<close>

definition ClientBase :: "client_move \<Rightarrow> movement \<Rightarrow> object option \<times> string" where
  "ClientBase mv st =
     (if ClientMovementBase mv = None \<and> ClientMovementMode mv = 1
      then (MovementBase st, BasedBoneName st)
      else (ClientMovementBase mv, ClientBaseBoneName mv))"

text \<open>
  The condition of the correction:
  \<^verbatim>\<open>ServerData->bForceClientUpdate || ServerCheckClientError(...)\<close>.
\<close>

definition ClientErrorDetected :: "net \<Rightarrow> client_move \<Rightarrow> server_data \<Rightarrow> movement \<Rightarrow> bool" where
  "ClientErrorDetected N mv sd st \<longleftrightarrow>
     bForceClientUpdate sd \<or>
     ServerCheckClientError N st mv (ClientLoc N mv) (fst (ClientBase mv st))
       (snd (ClientBase mv st))"

text \<open>
  The branch that queues the correction: the pending adjustment is filled from the server's
  own state.
\<close>

definition QueueCorrection :: "net \<Rightarrow> client_move \<Rightarrow> server_data \<Rightarrow> movement \<Rightarrow> server_data" where
  "QueueCorrection N mv sd st =
     (let bRelative = UseRelativeLocation N (MovementBase st);
          Adjustment = (PendingAdjustment sd)
            \<lparr>NewVel := Velocity st,
             NewBase := MovementBase st,
             NewBaseBoneName := BasedBoneName st,
             NewLoc := (if bRelative then BasedLocation st
                        else RebaseOntoZeroOrigin N (Location st)),
             NewRot := GetComponentRotation N (ComponentQuat st),
             bBaseRelativePosition := bRelative,
             DeltaTime := ClientDeltaTime mv,
             TimeStamp := ClientTimeStamp mv,
             bAckGoodMove := False,
             AdjustmentMovementMode := PackNetworkMovementMode N st\<rparr> in
      sd\<lparr>PendingAdjustment := Adjustment, LastUpdateTime := TimeSeconds N\<rparr>)"

text \<open>
  The block under \<^verbatim>\<open>ServerShouldUseAuthoritativePosition\<close> in the other branch: the server
  takes over the client's position, movement mode and base.
\<close>

definition UseClientPosition :: "net \<Rightarrow> client_move \<Rightarrow> movement \<Rightarrow> movement" where
  "UseClientPosition N mv st =
     (let ClientLocation = ClientLoc N mv;
          ClientMovementBase' = fst (ClientBase mv st);
          ClientBaseBoneName' = snd (ClientBase mv st) in
      if ServerShouldUseAuthoritativePosition N st mv ClientLocation
           ClientMovementBase' ClientBaseBoneName' then
        (let LocDiff = Location st - ClientLocation in
         if \<not> IsZero LocDiff \<or>
            ClientMovementMode mv \<noteq> PackNetworkMovementMode N st \<or>
            MovementBase st \<noteq> ClientMovementBase' \<or>
            (bCharacterOwner st \<and> BasedBoneName st \<noteq> ClientBaseBoneName')
         then
           (let sa = st\<lparr>Location := ClientLocation\<rparr>;
                sb = ApplyNetworkMovementMode N (ClientMovementMode mv) sa;
                sc = SetBase N ClientMovementBase' ClientBaseBoneName' sb;
                se = SaveBaseLocation N (UpdateFloorFromAdjustment N sc) in
            se\<lparr>LastUpdateLocation := (if bUpdatedComponent se then Location se else 0),
               LastUpdateRotation :=
                 (if bUpdatedComponent se then ComponentQuat se else FQuat 0 0 0 1),
               LastUpdateVelocity := Velocity se\<rparr>)
         else st)
      else st)"

definition ServerMoveHandleClientError ::
  "net \<Rightarrow> client_move \<Rightarrow> server_data \<times> movement \<Rightarrow> server_data \<times> movement" where
  "ServerMoveHandleClientError N mv sdst =
     (let sd = fst sdst; st = snd sdst in
      if \<not> ShouldUsePackedMovementRPCs N \<and> RelativeClientLoc mv = FVector 1 2 3 then (sd, st)
      else if LastUpdateTime sd \<noteq> TimeSeconds N \<and> WithinUpdateDelayBounds N (LastUpdateTime sd)
        then (sd, st)
      else
        (let st1 = st\<lparr>bNetworkLargeClientCorrection := bForceClientUpdate sd\<rparr> in
         if ClientErrorDetected N mv sd st1 then
           ((QueueCorrection N mv sd st1)\<lparr>bForceClientUpdate := False\<rparr>, st1)
         else
           (sd\<lparr>PendingAdjustment := (PendingAdjustment sd)
                  \<lparr>TimeStamp := ClientTimeStamp mv, bAckGoodMove := True\<rparr>,
               bForceClientUpdate := False\<rparr>,
            UseClientPosition N mv st1)))"

subsection \<open>\<^verbatim>\<open>ClientAdjustPosition_Implementation\<close>\<close>

text \<open>
  \<^verbatim>\<open>Trust the server's positioning\<close>: the location (and, when the up axes differ, the
  rotation) of the updated component and the velocity are set from the correction.
\<close>

definition ClientSnap :: "net \<Rightarrow> correction \<Rightarrow> FVector \<Rightarrow> movement \<Rightarrow> movement" where
  "ClientSnap N c WorldShiftedNewLocation st =
     (let st1 =
            (if bUpdatedComponent st then
               (let DesiredAxisZ = RotatorAxisZ N (ResponseNewRot c);
                    PawnRotation = ComponentQuat st in
                if \<not> Coincident DesiredAxisZ (GetAxisZ PawnRotation) (ThresholdParallelCosine st)
                then st\<lparr>Location := WorldShiftedNewLocation,
                        ComponentQuat :=
                          MakeFromZQuat N DesiredAxisZ PawnRotation (ThresholdParallelCosine st)\<rparr>
                else st\<lparr>Location := WorldShiftedNewLocation\<rparr>)
             else st) in
      st1\<lparr>Velocity := NewVelocity c\<rparr>)"

text \<open>
  The rest of the function: the server's movement mode and base are taken over, the floor and
  the base-relative offsets are updated.
\<close>

definition ClientSettle :: "net \<Rightarrow> world \<Rightarrow> correction \<Rightarrow> bool \<Rightarrow> movement \<Rightarrow> movement" where
  "ClientSettle N W c bUnresolvedBase st =
     (let PreviousBase = MovementBase st;
          st1 = ApplyNetworkMovementMode N (ServerMovementMode c) st;
          (FinalBase, FinalBaseBoneName, st2) =
            (if bUnresolvedBase \<and> PreviousBase \<noteq> None \<and> bUpdatedComponent st1 then
               (let sf = st1\<lparr>CurrentFloor := FindFloor W st1 (Location st1) None\<rparr> in
                if IsWalkableFloor (CurrentFloor sf)
                then (Component (HitResult (CurrentFloor sf)),
                      BoneName (HitResult (CurrentFloor sf)), sf)
                else (None, [], sf))
             else (CorrectionBase c, CorrectionBaseBoneName c, st1));
          st3 = SetBase N FinalBase FinalBaseBoneName st2;
          st4 = (UpdateFloorFromAdjustment N st3)\<lparr>bJustTeleported := True\<rparr>;
          st5 = SaveBaseLocation N st4;
          st6 = st5\<lparr>LastUpdateLocation := (if bUpdatedComponent st5 then Location st5 else 0),
                   LastUpdateRotation :=
                     (if bUpdatedComponent st5 then ComponentQuat st5 else FQuat 0 0 0 1),
                   LastUpdateVelocity := Velocity st5\<rparr> in
      UpdateComponentVelocity N st6)"

text \<open>
  \<^verbatim>\<open>OnClientCorrectionReceived\<close> only logs and draws debug shapes; it is left out.
\<close>

definition ClientAdjustPosition ::
  "net \<Rightarrow> world \<Rightarrow> correction \<Rightarrow> client_data \<times> movement \<Rightarrow> client_data \<times> movement" where
  "ClientAdjustPosition N W c cdst =
     (let cd = fst cdst; st = snd cdst in
      if \<not> HasValidData st \<or> \<not> bIsActive st then (cd, st)
      else
        (let bUnresolvedBase = bHasBase c \<and> CorrectionBase c = None in
         if bUnresolvedBase \<and> bRelativePosition c then (cd, st)
         else
           (case GetSavedMoveIndex N cd (CorrectionTimeStamp c) of
              None \<Rightarrow> (cd, st)
            | Some MoveIndex \<Rightarrow>
                (let cd1 = AckMove N MoveIndex cd;
                     WorldShiftedNewLocation =
                       (if bRelativePosition c
                        then NewLocation c
                               + GetMovementBaseLocation N (CorrectionBase c)
                                   (CorrectionBaseBoneName c)
                        else RebaseOntoLocalOrigin N (NewLocation c));
                     st1 = ClientSnap N c WorldShiftedNewLocation st in
                 (cd1\<lparr>bUpdatePosition := True\<rparr>, ClientSettle N W c bUnresolvedBase st1)))))"

section \<open>Concrete inputs\<close>

text \<open>
  A character standing upright at the origin under the default gravity, a world with no live
  objects in which no trace hits and every move goes through unobstructed, and a hit on a
  level floor: the inputs at which the theorems below are evaluated, each changed in a few
  fields.
\<close>

definition level_floor_hit :: FHitResult where
  "level_floor_hit =
     \<lparr> bBlockingHit = True, bStartPenetrating = False, Time = 1 / 2,
       HitLocation = FVector 0 0 0, ImpactPoint = FVector 0 0 (- 90),
       Normal = FVector 0 0 1, ImpactNormal = FVector 0 0 1, Component = None,
       BoneName = [] \<rparr>"

definition upright :: movement where
  "upright =
     \<lparr> bUpdatedComponent = True, bCharacterOwner = True, bIsActive = True,
       bIsSimulatedProxy = False,
       Location = FVector 0 0 0, ComponentQuat = FQuat 0 0 0 1,
       Velocity = FVector 0 0 0, Acceleration = FVector 0 0 0,
       MovementMode = MOVE_Walking,
       CurrentFloor = SetFromSweep level_floor_hit 2 True,
       bJustTeleported = False, bForceNextFloorCheck = False,
       bMaintainHorizontalGroundVelocity = False, bLandOnAnySurface = False,
       WalkableFloorZ = 7 / 10, MaxStepHeight = 45, PawnRadius = 34, PawnHalfHeight = 88,
       Buoyancy = 1, bWaterVolume = False, CollisionHalfHeight = 88,
       ForceJumpPeakSubstep = 1, NumJumpApexAttempts = 0, MaxJumpApexAttemptsPerSimulation = 2,
       MaxSimulationIterations = 8, MovementBase = None, BasedBoneName = [],
       BasedLocation = FVector 0 0 0, bNetworkLargeClientCorrection = False,
       LastUpdateLocation = FVector 0 0 0, LastUpdateRotation = FQuat 0 0 0 1,
       LastUpdateVelocity = FVector 0 0 0, ThresholdParallelCosine = 99984769515 / 100000000000,
       GravityZ = - 980, GravityScale = 1,
       GravityDirectionMode = Fixed, GravityVectorA = FVector 0 0 (- 1),
       GravityVectorB = FVector 0 0 0, GravityActor = None \<rparr>"

definition empty_world :: world where
  "empty_world =
     \<lparr> IsPendingKill = (\<lambda>a. True),
       FindDirectionClosestToWorldLocation = (\<lambda>a p. None),
       FindLocationClosestToWorldLocation = (\<lambda>a p. None),
       ClosestLocationAndUpVector = (\<lambda>a p. None),
       GetActorLocation = (\<lambda>a. FVector 0 0 0),
       GetActorBounds = (\<lambda>a. (FVector 0 0 0, FVector 0 0 0)),
       GetClosestPointOnCollision = (\<lambda>a p. (0, FVector 0 0 0)),
       ModifyWalkableFloorZ = (\<lambda>c z. z),
       bVolumeBrushComp = True,
       BrushLineTrace = (\<lambda>s e. None),
       SafeMoveUpdatedComponent = (\<lambda>st Delta. (FHitResult_init 1, Location st + Delta)),
       MoveUpdatedComponent = (\<lambda>st Delta. (FHitResult_init 1, Location st + Delta)),
       CanStepUp = (\<lambda>st Hit. True),
       HandleImpact = (\<lambda>Hit st. st),
       SlideAlongSurface = (\<lambda>Delta Time Normal Hit bHandleImpact st. (0, st)),
       FindFloor = (\<lambda>st CapsuleLocation DownwardSweepResult. CurrentFloor st),
       GetSimulationTimeStep = (\<lambda>RemainingTime Iterations. RemainingTime),
       RestorePreAdditiveRootMotionVelocity = (\<lambda>st. st),
       FallingVelocity =
         (\<lambda>st_in timeTick GravityDir st.
            st\<lparr>Velocity := Velocity st + Scale GravityDir (980 * timeTick)\<rparr>),
       FallingMove =
         (\<lambda>st_in st_old timeTick RemainingTime Iterations GravityDir VelocityZ st.
            Continue (st\<lparr>Location :=
              Location st + Scale (Velocity st_old + Velocity st) (1 / 2 * timeTick)\<rparr>)),
       SwimmingBody = (\<lambda>deltaTime Iterations GravityDir st. st) \<rparr>"

text \<open>
  A world in which every sweep of \<^verbatim>\<open>MoveUpdatedComponent\<close> starts in penetration, and the
  hit of a ledge at the side of the capsule, eight units above its base.
\<close>

definition blocked_world :: world where
  "blocked_world =
     empty_world\<lparr>MoveUpdatedComponent :=
       (\<lambda>st Delta. (level_floor_hit\<lparr>bStartPenetrating := True\<rparr>, Location st + Delta))\<rparr>"

definition ledge_hit :: FHitResult where
  "ledge_hit =
     level_floor_hit\<lparr>ImpactPoint := FVector 34 0 (- 80), ImpactNormal := FVector (- 1) 0 0\<rparr>"

text \<open>
  A network layer without world origin offset and without movement bases, in which the server
  tolerates every client position, a move is found by its time stamp among the saved moves,
  and acknowledging a move drops it and the moves before it.
\<close>

definition plain_net :: net where
  "plain_net =
     \<lparr> ShouldUsePackedMovementRPCs = True, TimeSeconds = 10,
       WithinUpdateDelayBounds = (\<lambda>t. False),
       UseRelativeLocation = (\<lambda>b. False),
       GetMovementBaseLocation = (\<lambda>b n. FVector 0 0 0),
       RebaseOntoLocalOrigin = (\<lambda>v. v), RebaseOntoZeroOrigin = (\<lambda>v. v),
       ServerCheckClientError = (\<lambda>st mv loc b n. False),
       ServerShouldUseAuthoritativePosition = (\<lambda>st mv loc b n. False),
       PackNetworkMovementMode = (\<lambda>st. 1),
       ApplyNetworkMovementMode = (\<lambda>m st. st),
       SetBase = (\<lambda>b n st. st\<lparr>MovementBase := b, BasedBoneName := n\<rparr>),
       UpdateFloorFromAdjustment = (\<lambda>st. st), SaveBaseLocation = (\<lambda>st. st),
       UpdateComponentVelocity = (\<lambda>st. st),
       GetComponentRotation = (\<lambda>q. FRotator 0 0 0),
       RotatorAxisZ = (\<lambda>r. FVector 0 0 1),
       MakeFromZQuat = (\<lambda>z q t. q),
       GetSavedMoveIndex =
         (\<lambda>cd t. if t \<in> set (SavedMoves cd)
                 then Some (length (takeWhile (\<lambda>x. x \<noteq> t) (SavedMoves cd))) else None),
       AckMove =
         (\<lambda>i cd. cd\<lparr>LastAckedMove := Some (SavedMoves cd ! i),
                       SavedMoves := drop (Suc i) (SavedMoves cd)\<rparr>) \<rparr>"

definition idle_server :: server_data where
  "idle_server =
     \<lparr> PendingAdjustment =
         \<lparr> TimeStamp = 0, DeltaTime = 0, NewLoc = FVector 0 0 0, NewVel = FVector 0 0 0,
           NewRot = FRotator 0 0 0, NewBase = None, NewBaseBoneName = [],
           bAckGoodMove = True, bBaseRelativePosition = False, AdjustmentMovementMode = 1 \<rparr>,
       bForceClientUpdate = False, LastUpdateTime = 9 \<rparr>"

definition walking_move :: client_move where
  "walking_move =
     \<lparr> ClientTimeStamp = 5, ClientDeltaTime = 1 / 60, Accel = FVector 1 0 0,
       RelativeClientLoc = FVector 3 0 0, ClientMovementBase = None, ClientBaseBoneName = [],
       ClientMovementMode = 1 \<rparr>"

definition absolute_correction :: correction where
  "absolute_correction =
     \<lparr> CorrectionTimeStamp = 5, NewLocation = FVector 7 0 0, NewVelocity = FVector 1 0 0,
       CorrectionBase = None, CorrectionBaseBoneName = [], bHasBase = True,
       bRelativePosition = False, ServerMovementMode = 1,
       ResponseNewRot = FRotator 0 0 0 \<rparr>"

section \<open>Properties\<close>

subsection \<open>Vector algebra\<close>

lemma IsZero_iff: "IsZero v \<longleftrightarrow> v = 0"
  by (cases v) (simp add: IsZero_def zero_FVector_def)

lemma Dot_VectorPlaneProject_gen:
  "Dot (VectorPlaneProject V N) N = Dot V N - Dot V N * Dot N N"
  by (simp add: VectorPlaneProject_def Dot_def Scale_def minus_FVector_def algebra_simps)

lemma Dot_VectorPlaneProject:
  "Dot N N = 1 \<Longrightarrow> Dot (VectorPlaneProject V N) N = 0"
  by (simp add: Dot_VectorPlaneProject_gen)

lemma Dot_Scale_left: "Dot (Scale v k) w = k * Dot v w"
  by (simp add: Dot_def Scale_def algebra_simps)

lemma Dot_zero_left: "Dot 0 w = 0"
  by (simp add: Dot_def zero_FVector_def)

lemma GetSafeNormal_cases:
  "GetSafeNormal K v = 0 \<or> (\<exists>k. GetSafeNormal K v = Scale v k)"
proof -
  have "v = Scale v 1" by (cases v) (simp add: Scale_def)
  then show ?thesis
    unfolding GetSafeNormal_def Let_def by (metis (full_types))
qed

lemma Dot_GetSafeNormal: "Dot v w = 0 \<Longrightarrow> Dot (GetSafeNormal K v) w = 0"
  using GetSafeNormal_cases [of K v] by (auto simp: Dot_Scale_left Dot_zero_left)

lemma Size_Scale: "Size (Scale v k) = \<bar>k\<bar> * Size v"
proof -
  have "X v * k * (X v * k) + Y v * k * (Y v * k) + Z v * k * (Z v * k)
      = k\<^sup>2 * (X v * X v + Y v * Y v + Z v * Z v)"
    by (simp add: power2_eq_square algebra_simps)
  then show ?thesis
    by (simp add: Size_def Scale_def real_sqrt_mult)
qed

lemma Size_nonneg: "0 \<le> Size v"
  by (simp add: Size_def)

lemma Size_GetSafeNormal:
  assumes "0 < SMALL_NUMBER K" "SMALL_NUMBER K \<le> SizeSquared v"
  shows "Size (GetSafeNormal K v) = 1"
proof -
  let ?q = "X v * X v + Y v * Y v + Z v * Z v"
  have q: "0 < ?q" using assms by (simp add: SizeSquared_def)
  show ?thesis
  proof (cases "?q = 1")
    case True
    then show ?thesis by (simp add: GetSafeNormal_def Size_def)
  next
    case False
    then have "GetSafeNormal K v = Scale v (1 / sqrt ?q)"
      using assms by (simp add: GetSafeNormal_def SizeSquared_def)
    then have "Size (GetSafeNormal K v) = \<bar>1 / sqrt ?q\<bar> * sqrt ?q"
      by (simp only: Size_Scale) (simp add: Size_def)
    then show ?thesis using q by simp
  qed
qed

lemma GetSafeNormal_small:
  "SizeSquared v < SMALL_NUMBER K \<Longrightarrow> SizeSquared v \<noteq> 1 \<Longrightarrow> GetSafeNormal K v = 0"
  by (simp add: GetSafeNormal_def SizeSquared_def)

lemma Scale_zero_left: "Scale 0 k = 0"
  by (simp add: Scale_def zero_FVector_def)

lemmas vector_eval =
  Scale_def Dot_def IsZero_def SizeSquared_def Size_def plus_FVector_def minus_FVector_def
  zero_FVector_def DownVector_def VectorPlaneProject_def PointPlaneProject_def
  GetSafeNormal_def UE4_def GetAxisZ_def GetComponentAxisZ_def

lemmas gravity_eval =
  GetGravityDirection_def HasValidData_def RefreshGravityVectors_def LiveGravityActor_def
  GravityDirSwitch_def Signed_def NormalizedOrZero_def Let_def

subsection \<open>Single-precision operations\<close>

lemma FloatBinade_numeral:
  "FloatBinade (numeral k) p x =
     (if x < p then FloatBinade (pred_numeral k) (p / 2) x
      else if 2 * p \<le> x then FloatBinade (pred_numeral k) (2 * p) x
      else p)"
  by (simp add: numeral_eq_Suc)

lemmas float_eval =
  FloatAdd_def FloatSub_def FloatMul_def FloatDiv_def FloatVectorAdd_def FloatVectorSub_def
  FloatVectorScale_def FloatVectorDiv_def FloatDot_def FloatVectorPlaneProject_def
  RoundToNearestFloat_def RoundHalfEven_def FloatBinade_numeral

text \<open>
  The rounding at a few numbers: 0.24 and 0.0001 are not single-precision numbers, -61.25 is
  one, and a tie goes to the even mantissa.
\<close>

lemma RoundToNearestFloat_examples:
  "RoundToNearestFloat (24 / 100) = 16106127 / 67108864 \<and>
   RoundToNearestFloat (1 / 10000) = 13743895 / 137438953472 \<and>
   RoundToNearestFloat (- (245 / 4)) = - (245 / 4) \<and>
   RoundToNearestFloat (3 / 2 ^ 25 + 1) = 1 + 1 / 2 ^ 23 \<and>
   RoundToNearestFloat (1 / 2 ^ 25 + 1) = 1 \<and>
   RoundToNearestFloat (1 / 2 ^ 24 + 1) = 1 \<and>
   RoundToNearestFloat (3 / 2 ^ 24 + 1) = 1 + 1 / 2 ^ 22"
  by (simp add: RoundToNearestFloat_def RoundHalfEven_def Let_def FloatBinade_numeral)

text \<open>With a rounding that changes nothing the operations are those of the reals.\<close>

lemma exact_float:
  assumes "\<forall>x. RoundFloat K x = x"
  shows "FloatAdd K a b = a + b" "FloatSub K a b = a - b" "FloatMul K a b = a * b"
    "FloatDiv K a b = a / b" "FloatVectorAdd K u v = u + v" "FloatVectorSub K u v = u - v"
    "FloatVectorScale K u k = Scale u k" "FloatVectorDiv K u k = Scale u (1 / k)"
    "FloatDot K u v = Dot u v" "FloatVectorPlaneProject K u v = VectorPlaneProject u v"
  using assms
  by (simp_all add: FloatAdd_def FloatSub_def FloatMul_def FloatDiv_def FloatVectorAdd_def
      FloatVectorSub_def FloatVectorScale_def FloatVectorDiv_def FloatDot_def
      FloatVectorPlaneProject_def plus_FVector_def minus_FVector_def Scale_def Dot_def
      VectorPlaneProject_def Let_def)

lemmas float_ops =
  FloatAdd_def FloatSub_def FloatMul_def FloatDiv_def FloatVectorAdd_def FloatVectorSub_def
  FloatVectorScale_def FloatVectorDiv_def FloatDot_def FloatVectorPlaneProject_def

lemma UE4_fields:
  "SMALL_NUMBER UE4 = 1 / 100000000" "KINDA_SMALL_NUMBER UE4 = 1 / 10000"
  "MIN_TICK_TIME UE4 = 1 / 1000000" "RoundFloat UE4 = RoundToNearestFloat"
  by (simp_all add: UE4_def)

subsection \<open>Gravity direction\<close>

text \<open>
  Claim C1, as the code has it. \<^verbatim>\<open>GetGravityDirection(true)\<close> never returns the zero vector.
  With valid data, the direction is first resolved from the mode's reference data (refreshed
  from the gravity actor), multiplied with the sign of \<open>GravityScale\<close> when the scale is not
  zero and taken as it is when the scale is zero. Only when that resolved direction is the zero
  vector is the result the world axis \<open>(0, 0, s)\<close>, where \<open>s\<close> is the sign of the engine
  gravity (1 when positive, else -1) times the sign of \<open>GravityScale\<close> when the scale is not
  zero; otherwise the resolved direction itself is returned, also when the scale is zero.
\<close>

theorem GetGravityDirection_avoid_zero:
  "fst (GetGravityDirection K W st True) \<noteq> 0 \<and>
   (HasValidData st \<longrightarrow>
      fst (GetGravityDirection K W st True) =
        (let Resolved =
               GravityDirSwitch K (RefreshGravityVectors W st)
                 (if GravityScale st = 0 then None
                  else Some (if GravityScale st > 0 then 1 else - 1)) in
         if IsZero Resolved
         then FVector 0 0
                ((if GravityZ st > 0 then 1 else - 1) * (if GravityScale st < 0 then - 1 else 1))
         else Resolved))"
proof
  show "fst (GetGravityDirection K W st True) \<noteq> 0"
    by (auto simp: GetGravityDirection_def Let_def IsZero_iff DownVector_def zero_FVector_def)
next
  show "HasValidData st \<longrightarrow>
      fst (GetGravityDirection K W st True) =
        (let Resolved =
               GravityDirSwitch K (RefreshGravityVectors W st)
                 (if GravityScale st = 0 then None
                  else Some (if GravityScale st > 0 then 1 else - 1)) in
         if IsZero Resolved
         then FVector 0 0
                ((if GravityZ st > 0 then 1 else - 1) * (if GravityScale st < 0 then - 1 else 1))
         else Resolved)"
    by (auto simp: GetGravityDirection_def Let_def)
qed

text \<open>
  The theorem at a character that stands on its gravity point: the resolved direction is
  zero and the result is world-down.
\<close>

theorem GetGravityDirection_avoid_zero_witness:
  "HasValidData (upright\<lparr>GravityDirectionMode := Point, GravityVectorA := FVector 0 0 0\<rparr>) \<and>
   fst (GetGravityDirection UE4 empty_world
          (upright\<lparr>GravityDirectionMode := Point, GravityVectorA := FVector 0 0 0\<rparr>) True)
     = FVector 0 0 (- 1)"
  using GetGravityDirection_avoid_zero
    [of UE4 empty_world "upright\<lparr>GravityDirectionMode := Point, GravityVectorA := FVector 0 0 0\<rparr>"]
  by (simp add: gravity_eval vector_eval upright_def empty_world_def)

text \<open>
  With \<open>GravityScale = 0\<close> the direction without \<^verbatim>\<open>bAvoidZeroGravity\<close> is the zero vector,
  yet with it a fixed gravity direction along the world's X axis is returned as it is, and
  not a world-down axis.
\<close>

theorem GetGravityDirection_zero_scale_counterexample:
  "GravityScale (upright\<lparr>GravityScale := 0, GravityVectorA := FVector 1 0 0\<rparr>) = 0 \<and>
   IsZero (fst (GetGravityDirection UE4 empty_world
                  (upright\<lparr>GravityScale := 0, GravityVectorA := FVector 1 0 0\<rparr>) False)) \<and>
   fst (GetGravityDirection UE4 empty_world
          (upright\<lparr>GravityScale := 0, GravityVectorA := FVector 1 0 0\<rparr>) True)
     = FVector 1 0 0"
  by (simp add: gravity_eval vector_eval upright_def empty_world_def)

subsection \<open>Walkable surfaces\<close>

text \<open>
  Claim C5. \<^verbatim>\<open>IsWalkable\<close> is false for a hit that is not a valid blocking hit, false when the
  impact normal's dot product with the capsule's up axis is below \<^verbatim>\<open>KINDA_SMALL_NUMBER\<close>,
  false when it is below the walkable-floor threshold, false when \<open>bLandOnAnySurface\<close> is not
  set, the character is falling and the impact normal's dot product with the reversed gravity
  direction is below that threshold; in every other case it is true. The threshold is
  \<open>WalkableFloorZ\<close> for a hit without a component, and what the slope override of the hit
  component makes of \<open>WalkableFloorZ\<close> for a hit with one; falling is the movement mode
  \<^verbatim>\<open>MOVE_Falling\<close> on an existing updated component.
\<close>

theorem IsWalkable_rule:
  "IsWalkable K W st Hit \<longleftrightarrow>
     IsValidBlockingHit Hit \<and>
     \<not> Dot (ImpactNormal Hit) (GetComponentAxisZ st) < KINDA_SMALL_NUMBER K \<and>
     \<not> Dot (ImpactNormal Hit) (GetComponentAxisZ st)
         < (case Component Hit of
              None \<Rightarrow> WalkableFloorZ st
            | Some HitComponent \<Rightarrow> ModifyWalkableFloorZ W HitComponent (WalkableFloorZ st)) \<and>
     \<not> (\<not> bLandOnAnySurface st \<and> MovementMode st = MOVE_Falling \<and> bUpdatedComponent st \<and>
        Dot (ImpactNormal Hit) (Scale (fst (GetGravityDirection K W st False)) (- 1))
          < (case Component Hit of
               None \<Rightarrow> WalkableFloorZ st
             | Some HitComponent \<Rightarrow> ModifyWalkableFloorZ W HitComponent (WalkableFloorZ st)))"
proof (cases "IsValidBlockingHit Hit")
  case False
  then show ?thesis
    by (simp add: IsWalkable_def)
next
  case True
  show ?thesis
  proof (cases "Dot (ImpactNormal Hit) (GetComponentAxisZ st) < KINDA_SMALL_NUMBER K")
    case vertical: True
    with True show ?thesis
      by (simp add: IsWalkable_def Let_def)
  next
    case False
    with True show ?thesis
      by (simp add: IsWalkable_def TestWalkableZ_def IsFalling_def Let_def)
  qed
qed

text \<open>
  The rule at a level floor under an upright walking character (walkable); at a slope whose
  normal has the dot product 0.8 with the up axis, without a component (walkable: the
  threshold is 0.7) and with a component whose slope override raises the threshold to 0.9 (not
  walkable); at a vertical wall; at the level floor for a character that falls sideways along
  the world's X axis (not walkable: the floor's normal is orthogonal to the reversed gravity),
  the same with \<open>bLandOnAnySurface\<close> (walkable); and at a hit that starts in penetration.
\<close>

theorem IsWalkable_rule_witness:
  "IsWalkable UE4 empty_world upright level_floor_hit \<and>
   IsWalkable UE4 (empty_world\<lparr>ModifyWalkableFloorZ := \<lambda>c z. 9 / 10\<rparr>) upright
     (level_floor_hit\<lparr>ImpactNormal := FVector (3 / 5) 0 (4 / 5)\<rparr>) \<and>
   \<not> IsWalkable UE4 (empty_world\<lparr>ModifyWalkableFloorZ := \<lambda>c z. 9 / 10\<rparr>) upright
       (level_floor_hit\<lparr>ImpactNormal := FVector (3 / 5) 0 (4 / 5), Component := Some 0\<rparr>) \<and>
   \<not> IsWalkable UE4 empty_world upright (level_floor_hit\<lparr>ImpactNormal := FVector 1 0 0\<rparr>) \<and>
   \<not> IsWalkable UE4 empty_world
       (upright\<lparr>MovementMode := MOVE_Falling, GravityVectorA := FVector 1 0 0\<rparr>) level_floor_hit \<and>
   IsWalkable UE4 empty_world
     (upright\<lparr>MovementMode := MOVE_Falling, GravityVectorA := FVector 1 0 0,
        bLandOnAnySurface := True\<rparr>) level_floor_hit \<and>
   \<not> IsWalkable UE4 empty_world upright (level_floor_hit\<lparr>bStartPenetrating := True\<rparr>)"
  using IsWalkable_rule [of UE4 empty_world upright level_floor_hit]
    IsWalkable_rule [of UE4 "empty_world\<lparr>ModifyWalkableFloorZ := \<lambda>c z. 9 / 10\<rparr>" upright
      "level_floor_hit\<lparr>ImpactNormal := FVector (3 / 5) 0 (4 / 5)\<rparr>"]
    IsWalkable_rule [of UE4 "empty_world\<lparr>ModifyWalkableFloorZ := \<lambda>c z. 9 / 10\<rparr>" upright
      "level_floor_hit\<lparr>ImpactNormal := FVector (3 / 5) 0 (4 / 5), Component := Some 0\<rparr>"]
    IsWalkable_rule [of UE4 empty_world upright "level_floor_hit\<lparr>ImpactNormal := FVector 1 0 0\<rparr>"]
    IsWalkable_rule [of UE4 empty_world
      "upright\<lparr>MovementMode := MOVE_Falling, GravityVectorA := FVector 1 0 0\<rparr>" level_floor_hit]
    IsWalkable_rule [of UE4 empty_world
      "upright\<lparr>MovementMode := MOVE_Falling, GravityVectorA := FVector 1 0 0,
         bLandOnAnySurface := True\<rparr>" level_floor_hit]
    IsWalkable_rule [of UE4 empty_world upright "level_floor_hit\<lparr>bStartPenetrating := True\<rparr>"]
  by (simp add: IsValidBlockingHit_def level_floor_hit_def
      gravity_eval vector_eval upright_def empty_world_def)

subsection \<open>Ground velocity\<close>

text \<open>
  Claim C9, as the code has it. For a unit up axis, the velocity left by
  \<^verbatim>\<open>MaintainHorizontalGroundVelocity\<close> has dot product zero with the up axis. When
  \<open>bMaintainHorizontalGroundVelocity\<close> is false, the result has the magnitude of the original
  velocity provided the projection of the velocity onto the plane orthogonal to the up axis has
  a squared length of at least \<^verbatim>\<open>SMALL_NUMBER\<close>; when the projection is shorter (a velocity
  along the up axis), \<^verbatim>\<open>GetSafeNormal\<close> yields the zero vector and the velocity becomes zero.
\<close>

theorem MaintainHorizontalGroundVelocity_projects:
  assumes "Dot (GetComponentAxisZ st) (GetComponentAxisZ st) = 1"
    and "0 < SMALL_NUMBER K"
  shows "Dot (Velocity (MaintainHorizontalGroundVelocity K st)) (GetComponentAxisZ st) = 0 \<and>
     (\<not> bMaintainHorizontalGroundVelocity st \<and>
      SMALL_NUMBER K \<le> SizeSquared (VectorPlaneProject (Velocity st) (GetComponentAxisZ st))
        \<longrightarrow> Size (Velocity (MaintainHorizontalGroundVelocity K st)) = Size (Velocity st)) \<and>
     (\<not> bMaintainHorizontalGroundVelocity st \<and>
      SizeSquared (VectorPlaneProject (Velocity st) (GetComponentAxisZ st)) < SMALL_NUMBER K \<and>
      SizeSquared (VectorPlaneProject (Velocity st) (GetComponentAxisZ st)) \<noteq> 1
        \<longrightarrow> Velocity (MaintainHorizontalGroundVelocity K st) = 0)"
proof (intro conjI impI)
  show "Dot (Velocity (MaintainHorizontalGroundVelocity K st)) (GetComponentAxisZ st) = 0"
    using assms(1)
    by (simp add: MaintainHorizontalGroundVelocity_def Dot_VectorPlaneProject Dot_Scale_left
        Dot_GetSafeNormal)
next
  assume "\<not> bMaintainHorizontalGroundVelocity st \<and>
      SMALL_NUMBER K \<le> SizeSquared (VectorPlaneProject (Velocity st) (GetComponentAxisZ st))"
  then show "Size (Velocity (MaintainHorizontalGroundVelocity K st)) = Size (Velocity st)"
    using assms(2)
    by (simp add: MaintainHorizontalGroundVelocity_def Size_Scale Size_GetSafeNormal Size_nonneg)
next
  assume "\<not> bMaintainHorizontalGroundVelocity st \<and>
      SizeSquared (VectorPlaneProject (Velocity st) (GetComponentAxisZ st)) < SMALL_NUMBER K \<and>
      SizeSquared (VectorPlaneProject (Velocity st) (GetComponentAxisZ st)) \<noteq> 1"
  then show "Velocity (MaintainHorizontalGroundVelocity K st) = 0"
    by (simp add: MaintainHorizontalGroundVelocity_def GetSafeNormal_small Scale_zero_left)
qed

text \<open>
  The theorem at an upright character moving with velocity \<open>(3, 0, 4)\<close>: the result is
  horizontal and its magnitude is that of the original velocity.
\<close>

theorem MaintainHorizontalGroundVelocity_projects_witness:
  "Dot (GetComponentAxisZ (upright\<lparr>Velocity := FVector 3 0 4\<rparr>))
       (GetComponentAxisZ (upright\<lparr>Velocity := FVector 3 0 4\<rparr>)) = 1 \<and>
   0 < SMALL_NUMBER UE4 \<and>
   Dot (Velocity (MaintainHorizontalGroundVelocity UE4 (upright\<lparr>Velocity := FVector 3 0 4\<rparr>)))
       (GetComponentAxisZ (upright\<lparr>Velocity := FVector 3 0 4\<rparr>)) = 0 \<and>
   Size (Velocity (MaintainHorizontalGroundVelocity UE4 (upright\<lparr>Velocity := FVector 3 0 4\<rparr>)))
     = Size (Velocity (upright\<lparr>Velocity := FVector 3 0 4\<rparr>))"
proof -
  let ?st = "upright\<lparr>Velocity := FVector 3 0 4\<rparr>"
  have unit: "Dot (GetComponentAxisZ ?st) (GetComponentAxisZ ?st) = 1"
    by (simp add: vector_eval upright_def)
  have tol: "0 < SMALL_NUMBER UE4"
    by (simp add: UE4_def)
  have flag: "\<not> bMaintainHorizontalGroundVelocity ?st"
    by (simp add: upright_def)
  have long: "SMALL_NUMBER UE4
      \<le> SizeSquared (VectorPlaneProject (Velocity ?st) (GetComponentAxisZ ?st))"
    by (simp add: vector_eval upright_def)
  from MaintainHorizontalGroundVelocity_projects [OF unit tol] flag long unit tol
  show ?thesis by blast
qed

text \<open>
  A velocity straight up the axis of an upright character: the flag is false, the up axis is
  a unit vector, and the magnitude 5 is lost.
\<close>

theorem MaintainHorizontalGroundVelocity_magnitude_counterexample:
  "Dot (GetComponentAxisZ (upright\<lparr>Velocity := FVector 0 0 5\<rparr>))
       (GetComponentAxisZ (upright\<lparr>Velocity := FVector 0 0 5\<rparr>)) = 1 \<and>
   \<not> bMaintainHorizontalGroundVelocity (upright\<lparr>Velocity := FVector 0 0 5\<rparr>) \<and>
   Size (Velocity (MaintainHorizontalGroundVelocity UE4 (upright\<lparr>Velocity := FVector 0 0 5\<rparr>)))
     \<noteq> Size (Velocity (upright\<lparr>Velocity := FVector 0 0 5\<rparr>))"
  by (simp add: MaintainHorizontalGroundVelocity_def vector_eval upright_def)

subsection \<open>Immersion depth\<close>

text \<open>
  Claim C10. Provided the line trace of the collision backend reports hit times between 0 and
  1, \<^verbatim>\<open>ImmersionDepth\<close> returns a value between 0 and 1. It returns 0 when the physics volume
  is not a water volume. In a water volume (with a character owner) it returns exactly 1 when
  the collision half height or \<open>Buoyancy\<close> is zero, without any division, and when the trace
  against the volume's brush hits nothing.
\<close>

theorem ImmersionDepth_range:
  assumes "\<And>s e h. BrushLineTrace W s e = Some h \<Longrightarrow> 0 \<le> Time h \<and> Time h \<le> 1"
  shows "0 \<le> ImmersionDepth W st \<and> ImmersionDepth W st \<le> 1 \<and>
     (\<not> bWaterVolume st \<longrightarrow> ImmersionDepth W st = 0) \<and>
     (bCharacterOwner st \<and> bWaterVolume st \<and> (CollisionHalfHeight st = 0 \<or> Buoyancy st = 0)
        \<longrightarrow> ImmersionDepth W st = 1) \<and>
     (bCharacterOwner st \<and> bWaterVolume st \<and>
      BrushLineTrace W (Location st + Scale (GetComponentAxisZ st) (CollisionHalfHeight st))
        (Location st - Scale (GetComponentAxisZ st) (CollisionHalfHeight st)) = None
        \<longrightarrow> ImmersionDepth W st = 1)"
proof -
  have range: "0 \<le> ImmersionDepth W st \<and> ImmersionDepth W st \<le> 1"
  proof (cases "BrushLineTrace W
        (Location st + Scale (GetComponentAxisZ st) (CollisionHalfHeight st))
        (Location st - Scale (GetComponentAxisZ st) (CollisionHalfHeight st))")
    case None
    then show ?thesis
      by (simp add: ImmersionDepth_def Let_def FHitResult_init_def)
  next
    case (Some h)
    with assms have "0 \<le> Time h \<and> Time h \<le> 1" by blast
    with Some show ?thesis
      by (simp add: ImmersionDepth_def Let_def FHitResult_init_def)
  qed
  have dry: "\<not> bWaterVolume st \<longrightarrow> ImmersionDepth W st = 0"
    by (simp add: ImmersionDepth_def)
  have guard: "bCharacterOwner st \<and> bWaterVolume st \<and>
      (CollisionHalfHeight st = 0 \<or> Buoyancy st = 0) \<longrightarrow> ImmersionDepth W st = 1"
    by (auto simp: ImmersionDepth_def)
  have miss: "bCharacterOwner st \<and> bWaterVolume st \<and>
      BrushLineTrace W (Location st + Scale (GetComponentAxisZ st) (CollisionHalfHeight st))
        (Location st - Scale (GetComponentAxisZ st) (CollisionHalfHeight st)) = None
        \<longrightarrow> ImmersionDepth W st = 1"
  proof (intro impI, elim conjE)
    assume own: "bCharacterOwner st" "bWaterVolume st"
      and none: "BrushLineTrace W
        (Location st + Scale (GetComponentAxisZ st) (CollisionHalfHeight st))
        (Location st - Scale (GetComponentAxisZ st) (CollisionHalfHeight st)) = None"
    show "ImmersionDepth W st = 1"
      unfolding ImmersionDepth_def Let_def none using own by (simp add: FHitResult_init_def)
  qed
  from range dry guard miss show ?thesis by blast
qed

text \<open>
  The theorem in a water volume whose brush is hit a quarter of the way down the capsule: the
  depth is three quarters.
\<close>

theorem ImmersionDepth_range_witness:
  "0 \<le> ImmersionDepth
          (empty_world\<lparr>BrushLineTrace := (\<lambda>s e. Some (level_floor_hit\<lparr>Time := 1 / 4\<rparr>))\<rparr>)
          (upright\<lparr>bWaterVolume := True\<rparr>) \<and>
   ImmersionDepth
     (empty_world\<lparr>BrushLineTrace := (\<lambda>s e. Some (level_floor_hit\<lparr>Time := 1 / 4\<rparr>))\<rparr>)
     (upright\<lparr>bWaterVolume := True\<rparr>) = 3 / 4"
proof -
  let ?W = "empty_world\<lparr>BrushLineTrace := (\<lambda>s e. Some (level_floor_hit\<lparr>Time := 1 / 4\<rparr>))\<rparr>"
  have times: "\<And>s e h. BrushLineTrace ?W s e = Some h \<Longrightarrow> 0 \<le> Time h \<and> Time h \<le> 1"
    by auto
  have depth: "ImmersionDepth ?W (upright\<lparr>bWaterVolume := True\<rparr>) = 3 / 4"
    by (simp add: ImmersionDepth_def Let_def upright_def empty_world_def)
  from ImmersionDepth_range [of ?W "upright\<lparr>bWaterVolume := True\<rparr>", OF times] depth
  show ?thesis by simp
qed

subsection \<open>Floor height\<close>

text \<open>
  Claim C6, as the code has it. Let \<^verbatim>\<open>MIN_FLOOR_DIST \<le> MAX_FLOOR_DIST\<close> and the current floor
  be walkable. When the floor was found by the sweep (not by the line trace) and either its
  distance is already within the two bounds or the adjusting move is not stopped by a valid
  blocking hit, \<open>FloorDist\<close> lies between \<^verbatim>\<open>MIN_FLOOR_DIST\<close> and \<^verbatim>\<open>MAX_FLOOR_DIST\<close> after
  \<^verbatim>\<open>AdjustFloorHeight\<close>. When the floor was found by the line trace with a sweep distance
  below \<^verbatim>\<open>MIN_FLOOR_DIST\<close> and a line distance of at least \<^verbatim>\<open>MIN_FLOOR_DIST\<close>, the function
  aborts and changes nothing.
\<close>

theorem AdjustFloorHeight_bounds:
  assumes "MIN_FLOOR_DIST K \<le> MAX_FLOOR_DIST K" and "IsWalkableFloor (CurrentFloor st)"
  shows "(\<not> bLineTrace (CurrentFloor st) \<and>
      (MIN_FLOOR_DIST K \<le> FloorDist (CurrentFloor st) \<and>
         FloorDist (CurrentFloor st) \<le> MAX_FLOOR_DIST K \<or>
       \<not> IsValidBlockingHit (fst (SafeMoveUpdatedComponent W st
            (Scale (GetComponentAxisZ st)
               ((MIN_FLOOR_DIST K + MAX_FLOOR_DIST K) * (1 / 2) - FloorDist (CurrentFloor st))))))
      \<longrightarrow> MIN_FLOOR_DIST K \<le> FloorDist (CurrentFloor (AdjustFloorHeight K W st)) \<and>
          FloorDist (CurrentFloor (AdjustFloorHeight K W st)) \<le> MAX_FLOOR_DIST K) \<and>
     (bLineTrace (CurrentFloor st) \<and> FloorDist (CurrentFloor st) < MIN_FLOOR_DIST K \<and>
      MIN_FLOOR_DIST K \<le> LineDist (CurrentFloor st)
      \<longrightarrow> AdjustFloorHeight K W st = st)"
proof (rule conjI; rule impI)
  assume a: "\<not> bLineTrace (CurrentFloor st) \<and>
      (MIN_FLOOR_DIST K \<le> FloorDist (CurrentFloor st) \<and>
         FloorDist (CurrentFloor st) \<le> MAX_FLOOR_DIST K \<or>
       \<not> IsValidBlockingHit (fst (SafeMoveUpdatedComponent W st
            (Scale (GetComponentAxisZ st)
               ((MIN_FLOOR_DIST K + MAX_FLOOR_DIST K) * (1 / 2) - FloorDist (CurrentFloor st))))))"
  show "MIN_FLOOR_DIST K \<le> FloorDist (CurrentFloor (AdjustFloorHeight K W st)) \<and>
          FloorDist (CurrentFloor (AdjustFloorHeight K W st)) \<le> MAX_FLOOR_DIST K"
  proof (cases "MIN_FLOOR_DIST K \<le> FloorDist (CurrentFloor st) \<and>
         FloorDist (CurrentFloor st) \<le> MAX_FLOOR_DIST K")
    case True
    with a assms show ?thesis
      by (simp add: AdjustFloorHeight_def Let_def)
  next
    case False
    with a have free: "\<not> IsValidBlockingHit (fst (SafeMoveUpdatedComponent W st
            (Scale (GetComponentAxisZ st)
               ((MIN_FLOOR_DIST K + MAX_FLOOR_DIST K) * (1 / 2) - FloorDist (CurrentFloor st)))))"
      by blast
    from False have out: "FloorDist (CurrentFloor st) < MIN_FLOOR_DIST K \<or>
        FloorDist (CurrentFloor st) > MAX_FLOOR_DIST K" by linarith
    have "FloorDist (CurrentFloor (AdjustFloorHeight K W st))
        = (MIN_FLOOR_DIST K + MAX_FLOOR_DIST K) * (1 / 2)"
      using a assms(2) out free
      by (simp add: AdjustFloorHeight_def Let_def split_beta)
    with assms(1) show ?thesis by simp
  qed
next
  assume "bLineTrace (CurrentFloor st) \<and> FloorDist (CurrentFloor st) < MIN_FLOOR_DIST K \<and>
      MIN_FLOOR_DIST K \<le> LineDist (CurrentFloor st)"
  then show "AdjustFloorHeight K W st = st"
    by (simp add: AdjustFloorHeight_def)
qed

lemmas floor_eval =
  upright_def IsWalkableFloor_def SetFromSweep_def UE4_def IsValidBlockingHit_def
  level_floor_hit_def empty_world_def FHitResult_init_def

text \<open>
  The theorem at a walking character that hovers one unit above a swept floor, with nothing
  in the way of the adjusting move.
\<close>

theorem AdjustFloorHeight_bounds_witness:
  "FloorDist (CurrentFloor (upright\<lparr>CurrentFloor := (CurrentFloor upright)\<lparr>FloorDist := 1\<rparr>\<rparr>))
     < MIN_FLOOR_DIST UE4 \<and>
   MIN_FLOOR_DIST UE4
     \<le> FloorDist (CurrentFloor (AdjustFloorHeight UE4 empty_world
          (upright\<lparr>CurrentFloor := (CurrentFloor upright)\<lparr>FloorDist := 1\<rparr>\<rparr>))) \<and>
   FloorDist (CurrentFloor (AdjustFloorHeight UE4 empty_world
          (upright\<lparr>CurrentFloor := (CurrentFloor upright)\<lparr>FloorDist := 1\<rparr>\<rparr>)))
     \<le> MAX_FLOOR_DIST UE4"
proof -
  let ?st = "upright\<lparr>CurrentFloor := (CurrentFloor upright)\<lparr>FloorDist := 1\<rparr>\<rparr>"
  have order: "MIN_FLOOR_DIST UE4 \<le> MAX_FLOOR_DIST UE4"
    by (simp add: UE4_def)
  have walkable: "IsWalkableFloor (CurrentFloor ?st)"
    by (simp add: floor_eval)
  have low: "FloorDist (CurrentFloor ?st) < MIN_FLOOR_DIST UE4"
    by (simp add: floor_eval)
  have swept: "\<not> bLineTrace (CurrentFloor ?st)"
    by (simp add: floor_eval)
  have free: "\<not> IsValidBlockingHit (fst (SafeMoveUpdatedComponent empty_world ?st
      (Scale (GetComponentAxisZ ?st)
         ((MIN_FLOOR_DIST UE4 + MAX_FLOOR_DIST UE4) * (1 / 2) - FloorDist (CurrentFloor ?st)))))"
    by (simp add: empty_world_def IsValidBlockingHit_def FHitResult_init_def)
  from AdjustFloorHeight_bounds [OF order walkable, of empty_world] swept free low
  show ?thesis by blast
qed

text \<open>
  A walking character on a walkable floor that was found by the line trace, with a sweep
  distance of 1 and a line distance of 2: \<^verbatim>\<open>AdjustFloorHeight\<close> aborts and \<open>FloorDist\<close> stays
  below \<^verbatim>\<open>MIN_FLOOR_DIST\<close>.
\<close>

theorem AdjustFloorHeight_line_trace_counterexample:
  "MovementMode (upright\<lparr>CurrentFloor :=
       (CurrentFloor upright)\<lparr>bLineTrace := True, FloorDist := 1, LineDist := 2\<rparr>\<rparr>)
     = MOVE_Walking \<and>
   IsWalkableFloor (CurrentFloor (upright\<lparr>CurrentFloor :=
       (CurrentFloor upright)\<lparr>bLineTrace := True, FloorDist := 1, LineDist := 2\<rparr>\<rparr>)) \<and>
   FloorDist (CurrentFloor (AdjustFloorHeight UE4 empty_world
      (upright\<lparr>CurrentFloor :=
         (CurrentFloor upright)\<lparr>bLineTrace := True, FloorDist := 1, LineDist := 2\<rparr>\<rparr>)))
     < MIN_FLOOR_DIST UE4"
  by (simp add: AdjustFloorHeight_def floor_eval)

text \<open>
  The branch for an upward adjustment that is stopped by a valid blocking hit adds
  \<^verbatim>\<open>(InitialLocation - GetComponentLocation()) | CapsuleUp\<close> to the floor distance. A character
  one unit above a swept floor whose upward move of 1.15 is stopped half way ends 0.575 higher,
  with a recorded floor distance of 0.425.
\<close>

lemma AdjustFloorHeight_blocked_example:
  "FloorDist (CurrentFloor (AdjustFloorHeight UE4
      (empty_world\<lparr>SafeMoveUpdatedComponent :=
         (\<lambda>st Delta. (level_floor_hit, Location st + Scale Delta (1 / 2)))\<rparr>)
      (upright\<lparr>CurrentFloor := (CurrentFloor upright)\<lparr>FloorDist := 1\<rparr>\<rparr>))) = 17 / 40 \<and>
   Location (AdjustFloorHeight UE4
      (empty_world\<lparr>SafeMoveUpdatedComponent :=
         (\<lambda>st Delta. (level_floor_hit, Location st + Scale Delta (1 / 2)))\<rparr>)
      (upright\<lparr>CurrentFloor := (CurrentFloor upright)\<lparr>FloorDist := 1\<rparr>\<rparr>))
     = FVector 0 0 (23 / 40)"
  by (simp add: AdjustFloorHeight_def floor_eval Let_def vector_eval)

subsection \<open>Stepping up\<close>

lemma RevertMove_transform:
  "Location (RevertMove st0 st) = Location st0 \<and>
   ComponentQuat (RevertMove st0 st) = ComponentQuat st0"
  by (simp add: RevertMove_def)

lemma StepUp_landing_reject:
  "\<not> fst (StepUp_landing K W st0 L Delta Hit st Out) \<Longrightarrow>
   Location (fst (snd (StepUp_landing K W st0 L Delta Hit st Out))) = Location st0 \<and>
   ComponentQuat (fst (snd (StepUp_landing K W st0 L Delta Hit st Out))) = ComponentQuat st0"
  by (auto simp: StepUp_landing_def StepUp_accept_def Let_def RevertMove_transform
      split: if_splits option.splits)

lemma StepUp_down_reject:
  "\<not> fst (StepUp_down K W st0 L GravDir Delta st Out) \<Longrightarrow>
   Location (fst (snd (StepUp_down K W st0 L GravDir Delta st Out))) = Location st0 \<and>
   ComponentQuat (fst (snd (StepUp_down K W st0 L GravDir Delta st Out))) = ComponentQuat st0"
  unfolding StepUp_down_def Let_def split_beta
  using StepUp_landing_reject
  by (auto simp: RevertMove_transform split: if_splits)

lemma StepUp_forward_reject:
  "\<not> fst (StepUp_forward K W st0 L GravDir Delta SweepUpHit st Out) \<Longrightarrow>
   Location (fst (snd (StepUp_forward K W st0 L GravDir Delta SweepUpHit st Out))) = Location st0 \<and>
   ComponentQuat (fst (snd (StepUp_forward K W st0 L GravDir Delta SweepUpHit st Out)))
     = ComponentQuat st0"
  unfolding StepUp_forward_def Let_def split_beta
  using StepUp_down_reject
  by (auto simp: RevertMove_transform split: if_splits)

lemma StepUp_reject:
  "\<not> fst (StepUp K W st GravDir Delta InHit Out) \<Longrightarrow>
   Location (fst (snd (StepUp K W st GravDir Delta InHit Out))) = Location st \<and>
   ComponentQuat (fst (snd (StepUp K W st GravDir Delta InHit Out))) = ComponentQuat st"
  unfolding StepUp_def Let_def split_beta
  using StepUp_forward_reject
  by (auto simp: RevertMove_transform split: if_splits)

lemma StepUp_landing_rejects:
  assumes "IsValidBlockingHit Hit"
    and "Dot (PawnFloorPoint L - ImpactPoint Hit) (CapsuleDown L) > MaxStepHeight st \<or>
         (\<not> IsWalkable K W st Hit \<and>
            (Dot Delta (ImpactNormal Hit) < 0 \<or>
             Dot (OldLocation L - HitLocation Hit) (CapsuleDown L) > 0)) \<or>
         \<not> IsWithinEdgeToleranceEx K (HitLocation Hit) (CapsuleDown L) (CapsuleRadius L)
             (ImpactPoint Hit)"
  shows "\<not> fst (StepUp_landing K W st0 L Delta Hit st Out)"
  using assms by (auto simp: StepUp_landing_def Let_def)

lemma StepUp_down_rejects:
  assumes "bStartPenetrating
      (fst (MoveUpdatedComponent W st (Scale GravDir (StepTravelDownHeight L))))"
  shows "\<not> fst (StepUp_down K W st0 L GravDir Delta st Out)"
  using assms by (simp add: StepUp_down_def Let_def split_beta)

lemma StepUp_forward_rejects:
  assumes "bBlockingHit (fst (MoveUpdatedComponent W st Delta))"
    and "bStartPenetrating (fst (MoveUpdatedComponent W st Delta))"
  shows "\<not> fst (StepUp_forward K W st0 L GravDir Delta SweepUpHit st Out)"
  using assms by (simp add: StepUp_forward_def Let_def split_beta)

lemma StepUp_up_rejects:
  assumes "StepUp_starts K W st GravDir InHit"
    and "bStartPenetrating (fst (MoveUpdatedComponent W st
           (Scale GravDir (- StepTravelUpHeight (StepUp_locals K st GravDir InHit)))))"
  shows "\<not> fst (StepUp K W st GravDir Delta InHit Out)"
  using assms by (simp add: StepUp_def StepUp_starts_def Let_def split_beta)

lemma StepUp_not_started:
  "\<not> StepUp_starts K W st GravDir InHit \<Longrightarrow>
   StepUp K W st GravDir Delta InHit Out = (False, st, Out)"
  by (auto simp: StepUp_def StepUp_starts_def Let_def)

lemma StepUp_goes_forward:
  assumes "StepUp_starts K W st GravDir InHit"
    and "\<not> bStartPenetrating (fst (MoveUpdatedComponent W st
           (Scale GravDir (- StepTravelUpHeight (StepUp_locals K st GravDir InHit)))))"
  shows "StepUp K W st GravDir Delta InHit Out =
     StepUp_forward K W st (StepUp_locals K st GravDir InHit) GravDir Delta
       (fst (MoveUpdatedComponent W st
           (Scale GravDir (- StepTravelUpHeight (StepUp_locals K st GravDir InHit)))))
       (st\<lparr>Location := snd (MoveUpdatedComponent W st
           (Scale GravDir (- StepTravelUpHeight (StepUp_locals K st GravDir InHit))))\<rparr>) Out"
  using assms by (simp add: StepUp_def StepUp_starts_def Let_def split_beta)

lemma StepUp_forward_goes_down:
  "fst (StepUp_forward K W st0 L GravDir Delta SweepUpHit st Out) \<Longrightarrow>
   IsFalling (fst (snd (StepUp_forward K W st0 L GravDir Delta SweepUpHit st Out))) \<or>
   (\<exists>st2. StepUp_forward K W st0 L GravDir Delta SweepUpHit st Out
            = StepUp_down K W st0 L GravDir Delta st2 Out)"
  unfolding StepUp_forward_def Let_def split_beta
  by (auto split: if_splits)

lemma StepUp_down_goes_landing:
  assumes "\<not> bStartPenetrating
      (fst (MoveUpdatedComponent W st (Scale GravDir (StepTravelDownHeight L))))"
  shows "StepUp_down K W st0 L GravDir Delta st Out =
     StepUp_landing K W st0 L Delta
       (fst (MoveUpdatedComponent W st (Scale GravDir (StepTravelDownHeight L))))
       (st\<lparr>Location := snd (MoveUpdatedComponent W st (Scale GravDir (StepTravelDownHeight L)))\<rparr>)
       Out"
  using assms by (simp add: StepUp_down_def Let_def split_beta)

text \<open>
  Claim C7. Whenever \<^verbatim>\<open>StepUp\<close> returns false, the location and rotation of the updated
  component are what they were before the call. The attempt runs through its stages in order:
  without a start nothing is moved; after an upward sweep that does not start in penetration
  the call is the step forward; a step forward that succeeds has either left the character
  falling after the impact or is a step down; and a step down that does not start in
  penetration is the validation of the landing. \<^verbatim>\<open>StepUp\<close> returns false when it starts its
  attempt and the upward sweep starts in penetration. Whatever the component \<open>st\<close> was when the
  scope was opened: the step forward from any component \<open>st1\<close> returns false and restores the
  location of \<open>st\<close> when its sweep is a blocking hit that starts in penetration (the collision
  backend reports a start in penetration only on a blocking hit); the step down from any
  component \<open>st2\<close> does so when its sweep starts in penetration; and the validation of the
  landing at any component \<open>st3\<close> does so when the hit of the step down is a valid blocking hit
  and the height gained from the floor point exceeds \<open>MaxStepHeight\<close>, or the surface is not
  walkable and either opposes the move or lies above the start, or the landing point is
  outside the edge tolerance.
\<close>

theorem StepUp_rejections_revert:
  "(\<not> fst (StepUp K W st GravDir Delta InHit Out) \<longrightarrow>
      Location (fst (snd (StepUp K W st GravDir Delta InHit Out))) = Location st \<and>
      ComponentQuat (fst (snd (StepUp K W st GravDir Delta InHit Out))) = ComponentQuat st) \<and>
   (\<not> StepUp_starts K W st GravDir InHit \<longrightarrow>
      StepUp K W st GravDir Delta InHit Out = (False, st, Out)) \<and>
   (StepUp_starts K W st GravDir InHit \<and>
    \<not> bStartPenetrating (fst (MoveUpdatedComponent W st
       (Scale GravDir (- StepTravelUpHeight (StepUp_locals K st GravDir InHit)))))
      \<longrightarrow> StepUp K W st GravDir Delta InHit Out =
            StepUp_forward K W st (StepUp_locals K st GravDir InHit) GravDir Delta
              (fst (MoveUpdatedComponent W st
                 (Scale GravDir (- StepTravelUpHeight (StepUp_locals K st GravDir InHit)))))
              (st\<lparr>Location := snd (MoveUpdatedComponent W st
                 (Scale GravDir (- StepTravelUpHeight (StepUp_locals K st GravDir InHit))))\<rparr>)
              Out) \<and>
   (fst (StepUp_forward K W st L GravDir Delta SweepUpHit st1 Out) \<longrightarrow>
      IsFalling (fst (snd (StepUp_forward K W st L GravDir Delta SweepUpHit st1 Out))) \<or>
      (\<exists>st2'. StepUp_forward K W st L GravDir Delta SweepUpHit st1 Out
               = StepUp_down K W st L GravDir Delta st2' Out)) \<and>
   (\<not> bStartPenetrating
        (fst (MoveUpdatedComponent W st2 (Scale GravDir (StepTravelDownHeight L))))
      \<longrightarrow> StepUp_down K W st L GravDir Delta st2 Out =
            StepUp_landing K W st L Delta
              (fst (MoveUpdatedComponent W st2 (Scale GravDir (StepTravelDownHeight L))))
              (st2\<lparr>Location :=
                    snd (MoveUpdatedComponent W st2 (Scale GravDir (StepTravelDownHeight L)))\<rparr>)
              Out) \<and>
   (StepUp_starts K W st GravDir InHit \<and>
    bStartPenetrating (fst (MoveUpdatedComponent W st
       (Scale GravDir (- StepTravelUpHeight (StepUp_locals K st GravDir InHit)))))
      \<longrightarrow> \<not> fst (StepUp K W st GravDir Delta InHit Out)) \<and>
   (bBlockingHit (fst (MoveUpdatedComponent W st1 Delta)) \<and>
    bStartPenetrating (fst (MoveUpdatedComponent W st1 Delta))
      \<longrightarrow> \<not> fst (StepUp_forward K W st L GravDir Delta SweepUpHit st1 Out) \<and>
          Location (fst (snd (StepUp_forward K W st L GravDir Delta SweepUpHit st1 Out)))
            = Location st) \<and>
   (bStartPenetrating (fst (MoveUpdatedComponent W st2 (Scale GravDir (StepTravelDownHeight L))))
      \<longrightarrow> \<not> fst (StepUp_down K W st L GravDir Delta st2 Out) \<and>
          Location (fst (snd (StepUp_down K W st L GravDir Delta st2 Out))) = Location st) \<and>
   (IsValidBlockingHit Hit \<and>
    (Dot (PawnFloorPoint L - ImpactPoint Hit) (CapsuleDown L) > MaxStepHeight st3 \<or>
     (\<not> IsWalkable K W st3 Hit \<and>
        (Dot Delta (ImpactNormal Hit) < 0 \<or>
         Dot (OldLocation L - HitLocation Hit) (CapsuleDown L) > 0)) \<or>
     \<not> IsWithinEdgeToleranceEx K (HitLocation Hit) (CapsuleDown L) (CapsuleRadius L)
         (ImpactPoint Hit))
      \<longrightarrow> \<not> fst (StepUp_landing K W st L Delta Hit st3 Out) \<and>
          Location (fst (snd (StepUp_landing K W st L Delta Hit st3 Out))) = Location st)"
proof -
  have reverted: "\<not> fst (StepUp K W st GravDir Delta InHit Out) \<longrightarrow>
      Location (fst (snd (StepUp K W st GravDir Delta InHit Out))) = Location st \<and>
      ComponentQuat (fst (snd (StepUp K W st GravDir Delta InHit Out))) = ComponentQuat st"
    using StepUp_reject by blast
  have idle: "\<not> StepUp_starts K W st GravDir InHit \<longrightarrow>
      StepUp K W st GravDir Delta InHit Out = (False, st, Out)"
    using StepUp_not_started by blast
  have forward: "StepUp_starts K W st GravDir InHit \<and>
    \<not> bStartPenetrating (fst (MoveUpdatedComponent W st
       (Scale GravDir (- StepTravelUpHeight (StepUp_locals K st GravDir InHit)))))
      \<longrightarrow> StepUp K W st GravDir Delta InHit Out =
            StepUp_forward K W st (StepUp_locals K st GravDir InHit) GravDir Delta
              (fst (MoveUpdatedComponent W st
                 (Scale GravDir (- StepTravelUpHeight (StepUp_locals K st GravDir InHit)))))
              (st\<lparr>Location := snd (MoveUpdatedComponent W st
                 (Scale GravDir (- StepTravelUpHeight (StepUp_locals K st GravDir InHit))))\<rparr>)
              Out"
    using StepUp_goes_forward by blast
  have down: "fst (StepUp_forward K W st L GravDir Delta SweepUpHit st1 Out) \<longrightarrow>
      IsFalling (fst (snd (StepUp_forward K W st L GravDir Delta SweepUpHit st1 Out))) \<or>
      (\<exists>st2'. StepUp_forward K W st L GravDir Delta SweepUpHit st1 Out
               = StepUp_down K W st L GravDir Delta st2' Out)"
    using StepUp_forward_goes_down by blast
  have landing: "\<not> bStartPenetrating
        (fst (MoveUpdatedComponent W st2 (Scale GravDir (StepTravelDownHeight L))))
      \<longrightarrow> StepUp_down K W st L GravDir Delta st2 Out =
            StepUp_landing K W st L Delta
              (fst (MoveUpdatedComponent W st2 (Scale GravDir (StepTravelDownHeight L))))
              (st2\<lparr>Location :=
                    snd (MoveUpdatedComponent W st2 (Scale GravDir (StepTravelDownHeight L)))\<rparr>)
              Out"
    using StepUp_down_goes_landing by blast
  have r_up: "StepUp_starts K W st GravDir InHit \<and>
    bStartPenetrating (fst (MoveUpdatedComponent W st
       (Scale GravDir (- StepTravelUpHeight (StepUp_locals K st GravDir InHit)))))
      \<longrightarrow> \<not> fst (StepUp K W st GravDir Delta InHit Out)"
    using StepUp_up_rejects by blast
  have r_forward: "bBlockingHit (fst (MoveUpdatedComponent W st1 Delta)) \<and>
    bStartPenetrating (fst (MoveUpdatedComponent W st1 Delta))
      \<longrightarrow> \<not> fst (StepUp_forward K W st L GravDir Delta SweepUpHit st1 Out) \<and>
          Location (fst (snd (StepUp_forward K W st L GravDir Delta SweepUpHit st1 Out)))
            = Location st"
    using StepUp_forward_rejects StepUp_forward_reject by blast
  have r_down: "bStartPenetrating
        (fst (MoveUpdatedComponent W st2 (Scale GravDir (StepTravelDownHeight L))))
      \<longrightarrow> \<not> fst (StepUp_down K W st L GravDir Delta st2 Out) \<and>
          Location (fst (snd (StepUp_down K W st L GravDir Delta st2 Out))) = Location st"
    using StepUp_down_rejects StepUp_down_reject by blast
  have r_landing: "IsValidBlockingHit Hit \<and>
    (Dot (PawnFloorPoint L - ImpactPoint Hit) (CapsuleDown L) > MaxStepHeight st3 \<or>
     (\<not> IsWalkable K W st3 Hit \<and>
        (Dot Delta (ImpactNormal Hit) < 0 \<or>
         Dot (OldLocation L - HitLocation Hit) (CapsuleDown L) > 0)) \<or>
     \<not> IsWithinEdgeToleranceEx K (HitLocation Hit) (CapsuleDown L) (CapsuleRadius L)
         (ImpactPoint Hit))
      \<longrightarrow> \<not> fst (StepUp_landing K W st L Delta Hit st3 Out) \<and>
          Location (fst (snd (StepUp_landing K W st L Delta Hit st3 Out))) = Location st"
    using StepUp_landing_rejects StepUp_landing_reject by blast
  show ?thesis
    by (intro conjI reverted idle forward down landing r_up r_forward r_down r_landing)
qed

lemmas step_eval =
  StepUp_starts_def StepUp_locals_def blocked_world_def ledge_hit_def empty_world_def upright_def
  Let_def IsMovingOnGround_def IsWalkableFloor_def SetFromSweep_def level_floor_hit_def
  IsValidBlockingHit_def GetDistanceToFloor_def IsWithinEdgeToleranceEx_def
  GetComponentAxisZ_def GetAxisZ_def Scale_def Dot_def SizeSquared_def plus_FVector_def
  minus_FVector_def UE4_def

text \<open>
  The theorem at an upright walking character that meets a ledge: where the upward sweep
  starts in penetration the step is refused and the character has not moved; and a landing
  60 units above the floor point, with a step height of 45, is refused from wherever the
  sweeps have taken the capsule.
\<close>

theorem StepUp_rejections_revert_witness:
  "StepUp_starts UE4 blocked_world upright (FVector 0 0 (- 1)) ledge_hit \<and>
   \<not> fst (StepUp UE4 blocked_world upright (FVector 0 0 (- 1)) (FVector 10 0 0) ledge_hit None) \<and>
   Location (fst (snd (StepUp UE4 blocked_world upright (FVector 0 0 (- 1)) (FVector 10 0 0)
      ledge_hit None))) = Location upright \<and>
   IsValidBlockingHit (level_floor_hit\<lparr>ImpactPoint := FVector 0 0 (- 30)\<rparr>) \<and>
   \<not> fst (StepUp_landing UE4 empty_world upright
          (StepUp_locals UE4 upright (FVector 0 0 (- 1)) ledge_hit) (FVector 10 0 0)
          (level_floor_hit\<lparr>ImpactPoint := FVector 0 0 (- 30)\<rparr>)
          (upright\<lparr>Location := FVector 10 0 60\<rparr>) None) \<and>
   Location (fst (snd (StepUp_landing UE4 empty_world upright
          (StepUp_locals UE4 upright (FVector 0 0 (- 1)) ledge_hit) (FVector 10 0 0)
          (level_floor_hit\<lparr>ImpactPoint := FVector 0 0 (- 30)\<rparr>)
          (upright\<lparr>Location := FVector 10 0 60\<rparr>) None))) = Location upright"
proof -
  have starts: "StepUp_starts UE4 blocked_world upright (FVector 0 0 (- 1)) ledge_hit"
    by (simp add: step_eval)
  have pen: "bStartPenetrating (fst (MoveUpdatedComponent blocked_world upright
       (Scale (FVector 0 0 (- 1))
          (- StepTravelUpHeight (StepUp_locals UE4 upright (FVector 0 0 (- 1)) ledge_hit)))))"
    by (simp add: blocked_world_def level_floor_hit_def)
  have valid: "IsValidBlockingHit (level_floor_hit\<lparr>ImpactPoint := FVector 0 0 (- 30)\<rparr>)"
    by (simp add: IsValidBlockingHit_def level_floor_hit_def)
  have high: "Dot (PawnFloorPoint (StepUp_locals UE4 upright (FVector 0 0 (- 1)) ledge_hit)
             - ImpactPoint (level_floor_hit\<lparr>ImpactPoint := FVector 0 0 (- 30)\<rparr>))
          (CapsuleDown (StepUp_locals UE4 upright (FVector 0 0 (- 1)) ledge_hit))
        > MaxStepHeight (upright\<lparr>Location := FVector 10 0 60\<rparr>)"
    by (simp add: step_eval)
  from StepUp_rejections_revert
    [where K = UE4 and W = blocked_world and st = upright and GravDir = "FVector 0 0 (- 1)"
       and Delta = "FVector 10 0 0" and InHit = ledge_hit and Out = None]
    starts pen
  have up: "\<not> fst (StepUp UE4 blocked_world upright (FVector 0 0 (- 1)) (FVector 10 0 0)
        ledge_hit None) \<and>
      Location (fst (snd (StepUp UE4 blocked_world upright (FVector 0 0 (- 1)) (FVector 10 0 0)
        ledge_hit None))) = Location upright"
    by blast
  from StepUp_rejections_revert
    [where K = UE4 and W = empty_world and st = upright and Delta = "FVector 10 0 0"
       and L = "StepUp_locals UE4 upright (FVector 0 0 (- 1)) ledge_hit"
       and Hit = "level_floor_hit\<lparr>ImpactPoint := FVector 0 0 (- 30)\<rparr>"
       and ?st3.0 = "upright\<lparr>Location := FVector 10 0 60\<rparr>" and Out = None]
    valid high
  have landing: "\<not> fst (StepUp_landing UE4 empty_world upright
          (StepUp_locals UE4 upright (FVector 0 0 (- 1)) ledge_hit) (FVector 10 0 0)
          (level_floor_hit\<lparr>ImpactPoint := FVector 0 0 (- 30)\<rparr>)
          (upright\<lparr>Location := FVector 10 0 60\<rparr>) None) \<and>
      Location (fst (snd (StepUp_landing UE4 empty_world upright
          (StepUp_locals UE4 upright (FVector 0 0 (- 1)) ledge_hit) (FVector 10 0 0)
          (level_floor_hit\<lparr>ImpactPoint := FVector 0 0 (- 30)\<rparr>)
          (upright\<lparr>Location := FVector 10 0 60\<rparr>) None))) = Location upright"
    by blast
  from starts up valid landing show ?thesis by blast
qed

subsection \<open>Falling and swimming\<close>

lemma RefreshGravityVectors_Location: "Location (RefreshGravityVectors W st) = Location st"
  by (simp add: RefreshGravityVectors_def Let_def split_beta
      split: option.splits ENinjaGravityDirectionMode.splits)

lemma GetGravityDirection_Location:
  "Location (snd (GetGravityDirection K W st b)) = Location st"
  by (simp add: GetGravityDirection_def Let_def RefreshGravityVectors_Location)

text \<open>
  Claim C8, as the code has it. For a time step of at least \<^verbatim>\<open>MIN_TICK_TIME\<close> in which the
  gravity direction resolves to the zero vector, \<^verbatim>\<open>PhysFalling\<close> and \<^verbatim>\<open>PhysSwimming\<close> return
  at once, whatever the iteration bound: acceleration and velocity are exactly zero, the
  location is unchanged, and nothing else has changed but the gravity vectors that
  \<^verbatim>\<open>GetGravityDirection\<close> refreshes. For a shorter time step both functions return before the
  gravity direction is looked at, and change nothing.
\<close>

theorem Phys_zero_gravity:
  "(MIN_TICK_TIME K \<le> deltaTime \<and> IsZero (fst (GetGravityDirection K W st False)) \<longrightarrow>
      PhysFalling n K W deltaTime Iterations0 st
        = Some ((snd (GetGravityDirection K W st False))\<lparr>Acceleration := 0, Velocity := 0\<rparr>) \<and>
      PhysSwimming K W deltaTime Iterations0 st
        = (snd (GetGravityDirection K W st False))\<lparr>Acceleration := 0, Velocity := 0\<rparr> \<and>
      Location (snd (GetGravityDirection K W st False)) = Location st) \<and>
   (deltaTime < MIN_TICK_TIME K \<longrightarrow>
      PhysFalling n K W deltaTime Iterations0 st = Some st \<and>
      PhysSwimming K W deltaTime Iterations0 st = st)"
proof (rule conjI; rule impI)
  assume "MIN_TICK_TIME K \<le> deltaTime \<and> IsZero (fst (GetGravityDirection K W st False))"
  then show "PhysFalling n K W deltaTime Iterations0 st
        = Some ((snd (GetGravityDirection K W st False))\<lparr>Acceleration := 0, Velocity := 0\<rparr>) \<and>
      PhysSwimming K W deltaTime Iterations0 st
        = (snd (GetGravityDirection K W st False))\<lparr>Acceleration := 0, Velocity := 0\<rparr> \<and>
      Location (snd (GetGravityDirection K W st False)) = Location st"
    by (simp add: PhysFalling_def PhysSwimming_def split_beta GetGravityDirection_Location)
next
  assume "deltaTime < MIN_TICK_TIME K"
  then show "PhysFalling n K W deltaTime Iterations0 st = Some st \<and>
      PhysSwimming K W deltaTime Iterations0 st = st"
    by (simp add: PhysFalling_def PhysSwimming_def)
qed

text \<open>
  The theorem at a falling character without gravity (\<open>GravityScale = 0\<close>) that moves and
  accelerates, for a frame of a sixtieth of a second: it is stopped where it is.
\<close>

theorem Phys_zero_gravity_witness:
  "MIN_TICK_TIME UE4 \<le> 1 / 60 \<and>
   IsZero (fst (GetGravityDirection UE4 empty_world
     (upright\<lparr>MovementMode := MOVE_Falling, GravityScale := 0, Velocity := FVector 1 0 0,
        Acceleration := FVector 0 1 0\<rparr>) False)) \<and>
   map_option Velocity (PhysFalling 8 UE4 empty_world (1 / 60) 0
     (upright\<lparr>MovementMode := MOVE_Falling, GravityScale := 0, Velocity := FVector 1 0 0,
        Acceleration := FVector 0 1 0\<rparr>)) = Some 0 \<and>
   map_option Acceleration (PhysFalling 8 UE4 empty_world (1 / 60) 0
     (upright\<lparr>MovementMode := MOVE_Falling, GravityScale := 0, Velocity := FVector 1 0 0,
        Acceleration := FVector 0 1 0\<rparr>)) = Some 0 \<and>
   map_option Location (PhysFalling 8 UE4 empty_world (1 / 60) 0
     (upright\<lparr>MovementMode := MOVE_Falling, GravityScale := 0, Velocity := FVector 1 0 0,
        Acceleration := FVector 0 1 0\<rparr>)) = Some (FVector 0 0 0)"
proof -
  let ?st = "upright\<lparr>MovementMode := MOVE_Falling, GravityScale := 0,
    Velocity := FVector 1 0 0, Acceleration := FVector 0 1 0\<rparr>"
  have step: "MIN_TICK_TIME UE4 \<le> 1 / 60"
    by (simp add: UE4_def)
  have zero: "IsZero (fst (GetGravityDirection UE4 empty_world ?st False))"
    by (simp add: GetGravityDirection_def HasValidData_def upright_def IsZero_def zero_FVector_def)
  have loc: "Location ?st = FVector 0 0 0"
    by (simp add: upright_def)
  from Phys_zero_gravity [of UE4 "1 / 60" empty_world ?st 8 0] step zero
  have "PhysFalling 8 UE4 empty_world (1 / 60) 0 ?st
        = Some ((snd (GetGravityDirection UE4 empty_world ?st False))
                  \<lparr>Acceleration := 0, Velocity := 0\<rparr>) \<and>
      Location (snd (GetGravityDirection UE4 empty_world ?st False)) = Location ?st"
    by blast
  with step zero loc show ?thesis by simp
qed

text \<open>
  The same character in a frame of length zero: the gravity direction is the zero vector,
  the character is falling, and both integrators leave its velocity as it was.
\<close>

theorem Phys_short_tick_counterexample:
  "MovementMode (upright\<lparr>MovementMode := MOVE_Falling, GravityScale := 0,
       Velocity := FVector 1 0 0\<rparr>) = MOVE_Falling \<and>
   IsZero (fst (GetGravityDirection UE4 empty_world
     (upright\<lparr>MovementMode := MOVE_Falling, GravityScale := 0, Velocity := FVector 1 0 0\<rparr>)
     False)) \<and>
   map_option Velocity (PhysFalling 8 UE4 empty_world 0 0
     (upright\<lparr>MovementMode := MOVE_Falling, GravityScale := 0, Velocity := FVector 1 0 0\<rparr>))
     = Some (FVector 1 0 0) \<and>
   Velocity (PhysSwimming UE4 empty_world 0 0
     (upright\<lparr>MovementMode := MOVE_Falling, GravityScale := 0, Velocity := FVector 1 0 0\<rparr>))
     = FVector 1 0 0"
  by (simp add: PhysFalling_def PhysSwimming_def GetGravityDirection_def HasValidData_def
      upright_def IsZero_def zero_FVector_def UE4_def)

lemma exact_apex_time:
  assumes "OldSpeedZ = - Dot OldVelocity GravityDir" "VZ = - Dot V GravityDir"
  shows "- OldSpeedZ / (Dot (Scale (V - OldVelocity) (1 / dt)) GravityDir * - 1)
       = OldSpeedZ / ((OldSpeedZ - VZ) / dt)"
proof -
  have "Dot (Scale (V - OldVelocity) (1 / dt)) GravityDir
      = (Dot V GravityDir - Dot OldVelocity GravityDir) * (1 / dt)"
    by (simp add: Dot_def Scale_def minus_FVector_def algebra_simps)
  then have "Dot (Scale (V - OldVelocity) (1 / dt)) GravityDir = (OldSpeedZ - VZ) / dt"
    using assms by simp
  then show ?thesis by simp
qed

text \<open>
  The apex block in one equation, given the three quantities it computes on its way.
\<close>

lemma JumpApexSubstep_unfold:
  assumes a: "DerivedAccel
      = FloatVectorDiv K (FloatVectorSub K (Velocity st) OldVelocity) (timeTick F)"
    and g: "DerivedAccelZ = FloatMul K (FloatDot K DerivedAccel GravityDir) (- 1)"
    and t: "TimeToApex = FloatDiv K (- OldSpeedZ) DerivedAccelZ"
  shows "JumpApexSubstep K GravityDir OldVelocity OldSpeedZ (F, st) =
     (if ForceJumpPeakSubstep st \<noteq> 0 \<and> OldSpeedZ > 0 \<and> VelocityZ F \<le> 0 \<and>
         NumJumpApexAttempts st < MaxJumpApexAttemptsPerSimulation st \<and>
         SMALL_NUMBER K < \<bar>DerivedAccelZ\<bar> \<and>
         RoundFloat K (1 / 10000) \<le> TimeToApex \<and> TimeToApex < timeTick F
      then
        (F\<lparr>timeTick := TimeToApex,
           RemainingTime := FloatAdd K (RemainingTime F) (FloatSub K (timeTick F) TimeToApex),
           Iterations := Iterations F - 1,
           VelocityZ := 0\<rparr>,
         st\<lparr>Velocity := FloatVectorPlaneProject K
               (FloatVectorAdd K OldVelocity (FloatVectorScale K DerivedAccel TimeToApex))
               GravityDir,
            NumJumpApexAttempts := NumJumpApexAttempts st + 1\<rparr>)
      else (F, st))"
  unfolding JumpApexSubstep_def Let_def fst_conv snd_conv IsNearlyZero_def
    a [symmetric] g [symmetric] t [symmetric]
  by (simp add: not_le)

text \<open>
  Claim C3, as the code has it. Let \<open>DerivedAccel\<close> be the difference of the velocity after
  and before gravity was applied, divided by the substep, \<open>DerivedAccelZ\<close> its component
  against gravity and \<open>TimeToApex\<close> the quotient \<open>- OldSpeedZ / DerivedAccelZ\<close>, each computed
  in single precision. The block inserts an apex substep if and only if the console variable
  \<^verbatim>\<open>p.ForceJumpPeakSubstep\<close> is on, the speed against gravity was positive before and is not
  positive after, fewer apex substeps than \<open>MaxJumpApexAttemptsPerSimulation\<close> have been made,
  \<open>DerivedAccelZ\<close> is not nearly zero, and \<open>TimeToApex\<close> is at least \<^verbatim>\<open>0.0001f\<close> and less
  than the substep. Then the substep is shortened to exactly \<open>TimeToApex\<close>, the rest of it is
  added to the remaining time, the number of iterations is taken back by one, the local
  \<open>VelocityZ\<close> is exactly zero, the velocity is the projection of the apex velocity onto the
  plane orthogonal to the gravity direction, and the number of apex attempts goes up by one.
  In every other case the block changes nothing. When no operation rounds, \<open>TimeToApex\<close> is
  the loop's \<open>OldSpeedZ\<close> divided by the derived deceleration
  \<open>(OldSpeedZ - VelocityZ) / timeTick\<close>, and the projected velocity has no component along a
  unit gravity direction.
\<close>

theorem JumpApexSubstep_at_apex:
  assumes a: "DerivedAccel
      = FloatVectorDiv K (FloatVectorSub K (Velocity st) OldVelocity) (timeTick F)"
    and g: "DerivedAccelZ = FloatMul K (FloatDot K DerivedAccel GravityDir) (- 1)"
    and t: "TimeToApex = FloatDiv K (- OldSpeedZ) DerivedAccelZ"
  shows "JumpApexSubstep K GravityDir OldVelocity OldSpeedZ (F, st) =
     (if ForceJumpPeakSubstep st \<noteq> 0 \<and> OldSpeedZ > 0 \<and> VelocityZ F \<le> 0 \<and>
         NumJumpApexAttempts st < MaxJumpApexAttemptsPerSimulation st \<and>
         SMALL_NUMBER K < \<bar>DerivedAccelZ\<bar> \<and>
         RoundFloat K (1 / 10000) \<le> TimeToApex \<and> TimeToApex < timeTick F
      then
        (F\<lparr>timeTick := TimeToApex,
           RemainingTime := FloatAdd K (RemainingTime F) (FloatSub K (timeTick F) TimeToApex),
           Iterations := Iterations F - 1,
           VelocityZ := 0\<rparr>,
         st\<lparr>Velocity := FloatVectorPlaneProject K
               (FloatVectorAdd K OldVelocity (FloatVectorScale K DerivedAccel TimeToApex))
               GravityDir,
            NumJumpApexAttempts := NumJumpApexAttempts st + 1\<rparr>)
      else (F, st)) \<and>
     ((\<forall>x. RoundFloat K x = x) \<and> OldSpeedZ = - Dot OldVelocity GravityDir \<and>
      VelocityZ F = - Dot (Velocity st) GravityDir
        \<longrightarrow> TimeToApex = OldSpeedZ / ((OldSpeedZ - VelocityZ F) / timeTick F)) \<and>
     ((\<forall>x. RoundFloat K x = x) \<and> Dot GravityDir GravityDir = 1
        \<longrightarrow> Dot (FloatVectorPlaneProject K
                 (FloatVectorAdd K OldVelocity (FloatVectorScale K DerivedAccel TimeToApex))
                 GravityDir) GravityDir = 0)"
proof (intro conjI impI)
  show "JumpApexSubstep K GravityDir OldVelocity OldSpeedZ (F, st) =
     (if ForceJumpPeakSubstep st \<noteq> 0 \<and> OldSpeedZ > 0 \<and> VelocityZ F \<le> 0 \<and>
         NumJumpApexAttempts st < MaxJumpApexAttemptsPerSimulation st \<and>
         SMALL_NUMBER K < \<bar>DerivedAccelZ\<bar> \<and>
         RoundFloat K (1 / 10000) \<le> TimeToApex \<and> TimeToApex < timeTick F
      then
        (F\<lparr>timeTick := TimeToApex,
           RemainingTime := FloatAdd K (RemainingTime F) (FloatSub K (timeTick F) TimeToApex),
           Iterations := Iterations F - 1,
           VelocityZ := 0\<rparr>,
         st\<lparr>Velocity := FloatVectorPlaneProject K
               (FloatVectorAdd K OldVelocity (FloatVectorScale K DerivedAccel TimeToApex))
               GravityDir,
            NumJumpApexAttempts := NumJumpApexAttempts st + 1\<rparr>)
      else (F, st))"
    by (rule JumpApexSubstep_unfold [OF a g t])
next
  assume e: "(\<forall>x. RoundFloat K x = x) \<and> OldSpeedZ = - Dot OldVelocity GravityDir \<and>
      VelocityZ F = - Dot (Velocity st) GravityDir"
  then have x: "\<forall>x. RoundFloat K x = x" by blast
  have "TimeToApex
      = - OldSpeedZ / (Dot (Scale (Velocity st - OldVelocity) (1 / timeTick F)) GravityDir * - 1)"
    unfolding t g a by (simp only: exact_float [OF x])
  also have "\<dots> = OldSpeedZ / ((OldSpeedZ - VelocityZ F) / timeTick F)"
    using e by (intro exact_apex_time) simp_all
  finally show "TimeToApex = OldSpeedZ / ((OldSpeedZ - VelocityZ F) / timeTick F)" .
next
  assume e: "(\<forall>x. RoundFloat K x = x) \<and> Dot GravityDir GravityDir = 1"
  then have x: "\<forall>x. RoundFloat K x = x" by blast
  from e show "Dot (FloatVectorPlaneProject K
                 (FloatVectorAdd K OldVelocity (FloatVectorScale K DerivedAccel TimeToApex))
                 GravityDir) GravityDir = 0"
    by (simp only: exact_float [OF x] Dot_VectorPlaneProject)
qed

text \<open>
  The theorem at a substep of a quarter of a second in which the speed against gravity goes
  from 1 to -1, in single precision: the apex is at an eighth of a second, the other eighth is
  refunded and the velocity is zero; with the console variable off the substep keeps its
  length. And at a substep of a tenth of a second without rounding: the apex is at a
  twentieth of a second, which is the speed 1 divided by the deceleration 20, and the velocity
  has no component along gravity.
\<close>

theorem JumpApexSubstep_at_apex_witness:
  "timeTick (fst (JumpApexSubstep UE4 (FVector 0 0 (- 1)) (FVector 0 0 1) 1
      (\<lparr>timeTick = 1 / 4, RemainingTime = 0, Iterations = 1, VelocityZ = - 1\<rparr>,
       upright\<lparr>MovementMode := MOVE_Falling, Velocity := FVector 0 0 (- 1)\<rparr>))) = 1 / 8 \<and>
   RemainingTime (fst (JumpApexSubstep UE4 (FVector 0 0 (- 1)) (FVector 0 0 1) 1
      (\<lparr>timeTick = 1 / 4, RemainingTime = 0, Iterations = 1, VelocityZ = - 1\<rparr>,
       upright\<lparr>MovementMode := MOVE_Falling, Velocity := FVector 0 0 (- 1)\<rparr>))) = 1 / 8 \<and>
   Velocity (snd (JumpApexSubstep UE4 (FVector 0 0 (- 1)) (FVector 0 0 1) 1
      (\<lparr>timeTick = 1 / 4, RemainingTime = 0, Iterations = 1, VelocityZ = - 1\<rparr>,
       upright\<lparr>MovementMode := MOVE_Falling, Velocity := FVector 0 0 (- 1)\<rparr>)))
     = FVector 0 0 0 \<and>
   timeTick (fst (JumpApexSubstep UE4 (FVector 0 0 (- 1)) (FVector 0 0 1) 1
      (\<lparr>timeTick = 1 / 4, RemainingTime = 0, Iterations = 1, VelocityZ = - 1\<rparr>,
       upright\<lparr>MovementMode := MOVE_Falling, Velocity := FVector 0 0 (- 1),
         ForceJumpPeakSubstep := 0\<rparr>))) = 1 / 4 \<and>
   timeTick (fst (JumpApexSubstep (UE4\<lparr>RoundFloat := \<lambda>x. x\<rparr>) (FVector 0 0 (- 1))
      (FVector 0 0 1) 1
      (\<lparr>timeTick = 1 / 10, RemainingTime = 0, Iterations = 1, VelocityZ = - 1\<rparr>,
       upright\<lparr>MovementMode := MOVE_Falling, Velocity := FVector 0 0 (- 1)\<rparr>)))
     = 1 / ((1 - (- 1)) / (1 / 10)) \<and>
   Dot (Velocity (snd (JumpApexSubstep (UE4\<lparr>RoundFloat := \<lambda>x. x\<rparr>) (FVector 0 0 (- 1))
      (FVector 0 0 1) 1
      (\<lparr>timeTick = 1 / 10, RemainingTime = 0, Iterations = 1, VelocityZ = - 1\<rparr>,
       upright\<lparr>MovementMode := MOVE_Falling, Velocity := FVector 0 0 (- 1)\<rparr>))))
     (FVector 0 0 (- 1)) = 0"
proof -
  let ?G = "FVector 0 0 (- 1)" and ?O = "FVector 0 0 1"
  let ?st = "upright\<lparr>MovementMode := MOVE_Falling, Velocity := FVector 0 0 (- 1)\<rparr>"
  let ?F = "\<lparr>timeTick = 1 / 4, RemainingTime = 0, Iterations = 1, VelocityZ = - 1\<rparr>"
  let ?F' = "\<lparr>timeTick = 1 / 10, RemainingTime = 0, Iterations = 1, VelocityZ = - 1\<rparr>"
  let ?E = "UE4\<lparr>RoundFloat := \<lambda>x. x\<rparr>"
  have a: "FVector 0 0 (- 8)
      = FloatVectorDiv UE4 (FloatVectorSub UE4 (Velocity ?st) ?O) (timeTick ?F)"
    by (simp add: float_eval UE4_def Let_def)
  have g: "- 8 = FloatMul UE4 (FloatDot UE4 (FVector 0 0 (- 8)) ?G) (- 1)"
    by (simp add: float_eval UE4_def Let_def)
  have t: "1 / 8 = FloatDiv UE4 (- 1) (- 8)"
    by (simp add: float_eval UE4_def Let_def)
  have guards: "ForceJumpPeakSubstep ?st \<noteq> 0 \<and> (1::real) > 0 \<and> VelocityZ ?F \<le> 0 \<and>
      NumJumpApexAttempts ?st < MaxJumpApexAttemptsPerSimulation ?st \<and>
      SMALL_NUMBER UE4 < \<bar>- 8\<bar> \<and> RoundFloat UE4 (1 / 10000) \<le> 1 / 8 \<and>
      (1::real) / 8 < timeTick ?F"
    by (simp add: float_eval UE4_def Let_def upright_def)
  have rest: "FloatAdd UE4 0 (FloatSub UE4 (1 / 4) (1 / 8)) = 1 / 8"
    by (simp add: float_eval UE4_def Let_def)
  have apex: "FloatVectorPlaneProject UE4
      (FloatVectorAdd UE4 ?O (FloatVectorScale UE4 (FVector 0 0 (- 8)) (1 / 8))) ?G = FVector 0 0 0"
    by (simp add: float_eval UE4_def Let_def)
  have "JumpApexSubstep UE4 ?G ?O 1 (?F, ?st) =
      (?F\<lparr>timeTick := 1 / 8,
           RemainingTime := FloatAdd UE4 (RemainingTime ?F) (FloatSub UE4 (timeTick ?F) (1 / 8)),
           Iterations := Iterations ?F - 1, VelocityZ := 0\<rparr>,
       ?st\<lparr>Velocity := FloatVectorPlaneProject UE4
               (FloatVectorAdd UE4 ?O (FloatVectorScale UE4 (FVector 0 0 (- 8)) (1 / 8))) ?G,
            NumJumpApexAttempts := NumJumpApexAttempts ?st + 1\<rparr>)"
    by (simp only: JumpApexSubstep_at_apex [OF a g t, THEN conjunct1] guards [THEN eqTrueI]
        if_True)
  then have first: "timeTick (fst (JumpApexSubstep UE4 ?G ?O 1 (?F, ?st))) = 1 / 8 \<and>
      RemainingTime (fst (JumpApexSubstep UE4 ?G ?O 1 (?F, ?st))) = 1 / 8 \<and>
      Velocity (snd (JumpApexSubstep UE4 ?G ?O 1 (?F, ?st))) = FVector 0 0 0"
    by (simp add: rest apex)
  let ?off = "?st\<lparr>ForceJumpPeakSubstep := 0\<rparr>"
  have a': "FVector 0 0 (- 8)
      = FloatVectorDiv UE4 (FloatVectorSub UE4 (Velocity ?off) ?O) (timeTick ?F)"
    by (simp add: float_eval UE4_def Let_def)
  have off: "\<not> (ForceJumpPeakSubstep ?off \<noteq> 0 \<and> (1::real) > 0 \<and> VelocityZ ?F \<le> 0 \<and>
      NumJumpApexAttempts ?off < MaxJumpApexAttemptsPerSimulation ?off \<and>
      SMALL_NUMBER UE4 < \<bar>- 8\<bar> \<and> RoundFloat UE4 (1 / 10000) \<le> 1 / 8 \<and>
      (1::real) / 8 < timeTick ?F)"
    by simp
  have "JumpApexSubstep UE4 ?G ?O 1 (?F, ?off) = (?F, ?off)"
    by (simp only: JumpApexSubstep_at_apex [OF a' g t, THEN conjunct1] off [THEN Eq_FalseI]
        if_False)
  then have second: "timeTick (fst (JumpApexSubstep UE4 ?G ?O 1 (?F, ?off))) = 1 / 4"
    by simp
  have ea: "FVector 0 0 (- 20)
      = FloatVectorDiv ?E (FloatVectorSub ?E (Velocity ?st) ?O) (timeTick ?F')"
    by (simp add: float_eval Let_def)
  have eg: "- 20 = FloatMul ?E (FloatDot ?E (FVector 0 0 (- 20)) ?G) (- 1)"
    by (simp add: float_eval Let_def)
  have et: "1 / 20 = FloatDiv ?E (- 1) (- 20)"
    by (simp add: float_eval Let_def)
  have exact: "\<forall>x. RoundFloat ?E x = x" by simp
  have loop: "(1::real) = - Dot ?O ?G" "VelocityZ ?F' = - Dot (Velocity ?st) ?G"
    "Dot ?G ?G = 1"
    by (simp_all add: Dot_def)
  have guards': "ForceJumpPeakSubstep ?st \<noteq> 0 \<and> (1::real) > 0 \<and> VelocityZ ?F' \<le> 0 \<and>
      NumJumpApexAttempts ?st < MaxJumpApexAttemptsPerSimulation ?st \<and>
      SMALL_NUMBER ?E < \<bar>- 20\<bar> \<and> RoundFloat ?E (1 / 10000) \<le> 1 / 20 \<and>
      (1::real) / 20 < timeTick ?F'"
    by (simp add: upright_def UE4_def)
  note at = JumpApexSubstep_at_apex [OF ea eg et]
  have eq: "JumpApexSubstep ?E ?G ?O 1 (?F', ?st) =
      (?F'\<lparr>timeTick := 1 / 20,
           RemainingTime := FloatAdd ?E (RemainingTime ?F') (FloatSub ?E (timeTick ?F') (1 / 20)),
           Iterations := Iterations ?F' - 1, VelocityZ := 0\<rparr>,
       ?st\<lparr>Velocity := FloatVectorPlaneProject ?E
               (FloatVectorAdd ?E ?O (FloatVectorScale ?E (FVector 0 0 (- 20)) (1 / 20))) ?G,
            NumJumpApexAttempts := NumJumpApexAttempts ?st + 1\<rparr>)"
    by (simp only: at [THEN conjunct1] guards' [THEN eqTrueI] if_True)
  have time: "(1::real) / 20 = 1 / ((1 - VelocityZ ?F') / timeTick ?F')"
    by (rule at [THEN conjunct2, THEN conjunct1, rule_format]) (intro conjI exact loop)
  have flat: "Dot (FloatVectorPlaneProject ?E
            (FloatVectorAdd ?E ?O (FloatVectorScale ?E (FVector 0 0 (- 20)) (1 / 20))) ?G) ?G = 0"
    by (rule at [THEN conjunct2, THEN conjunct2, rule_format]) (intro conjI exact loop)
  have "timeTick (fst (JumpApexSubstep ?E ?G ?O 1 (?F', ?st)))
      = 1 / ((1 - VelocityZ ?F') / timeTick ?F')"
    unfolding eq fst_conv using time by simp
  moreover have "Dot (Velocity (snd (JumpApexSubstep ?E ?G ?O 1 (?F', ?st)))) ?G = 0"
    unfolding eq snd_conv using flat by simp
  ultimately have third: "timeTick (fst (JumpApexSubstep ?E ?G ?O 1 (?F', ?st)))
       = 1 / ((1 - (- 1)) / (1 / 10)) \<and>
     Dot (Velocity (snd (JumpApexSubstep ?E ?G ?O 1 (?F', ?st)))) ?G = 0"
    by simp
  from first second third show ?thesis by blast
qed

text \<open>
  A substep of a 64th of a second in which the speed against gravity goes from 1/1024 to
  -255/1024, with every guard but the minimum apex time open: the apex lies 1/16384 seconds
  (0.000061) into the substep, below the minimum of 0.0001, so no substep is inserted; the
  substep keeps its length and the velocity keeps its component along gravity. Every number
  is a single-precision number and no operation rounds.
\<close>

theorem JumpApexSubstep_minimum_time_counterexample:
  "(1 / 1024 :: real) > 0 \<and> - (255 / 1024 :: real) \<le> 0 \<and>
   timeTick (fst (JumpApexSubstep UE4 (FVector 0 0 (- 1)) (FVector 0 0 (1 / 1024)) (1 / 1024)
      (\<lparr>timeTick = 1 / 64, RemainingTime = 0, Iterations = 1, VelocityZ = - (255 / 1024)\<rparr>,
       upright\<lparr>MovementMode := MOVE_Falling, Velocity := FVector 0 0 (- (255 / 1024))\<rparr>)))
     = 1 / 64 \<and>
   FloatDiv UE4 (- (1 / 1024)) (- 16) = 1 / 16384 \<and>
   Dot (Velocity (snd (JumpApexSubstep UE4 (FVector 0 0 (- 1)) (FVector 0 0 (1 / 1024)) (1 / 1024)
      (\<lparr>timeTick = 1 / 64, RemainingTime = 0, Iterations = 1, VelocityZ = - (255 / 1024)\<rparr>,
       upright\<lparr>MovementMode := MOVE_Falling, Velocity := FVector 0 0 (- (255 / 1024))\<rparr>))))
     (FVector 0 0 (- 1)) = 255 / 1024"
proof -
  let ?G = "FVector 0 0 (- 1)" and ?O = "FVector 0 0 (1 / 1024)"
  let ?st = "upright\<lparr>MovementMode := MOVE_Falling, Velocity := FVector 0 0 (- (255 / 1024))\<rparr>"
  let ?F = "\<lparr>timeTick = 1 / 64, RemainingTime = 0, Iterations = 1, VelocityZ = - (255 / 1024)\<rparr>"
  have a: "FVector 0 0 (- 16)
      = FloatVectorDiv UE4 (FloatVectorSub UE4 (Velocity ?st) ?O) (timeTick ?F)"
    by (simp add: float_eval UE4_def Let_def)
  have g: "- 16 = FloatMul UE4 (FloatDot UE4 (FVector 0 0 (- 16)) ?G) (- 1)"
    by (simp add: float_eval UE4_def Let_def)
  have t: "1 / 16384 = FloatDiv UE4 (- (1 / 1024)) (- 16)"
    by (simp add: float_eval UE4_def Let_def)
  have early: "\<not> (ForceJumpPeakSubstep ?st \<noteq> 0 \<and> (1 / 1024 :: real) > 0 \<and> VelocityZ ?F \<le> 0 \<and>
      NumJumpApexAttempts ?st < MaxJumpApexAttemptsPerSimulation ?st \<and>
      SMALL_NUMBER UE4 < \<bar>- 16\<bar> \<and> RoundFloat UE4 (1 / 10000) \<le> 1 / 16384 \<and>
      (1::real) / 16384 < timeTick ?F)"
    by (simp add: float_eval UE4_def Let_def)
  have "JumpApexSubstep UE4 ?G ?O (1 / 1024) (?F, ?st) = (?F, ?st)"
    by (simp only: JumpApexSubstep_unfold [OF a g t] early [THEN Eq_FalseI] if_False)
  then have "timeTick (fst (JumpApexSubstep UE4 ?G ?O (1 / 1024) (?F, ?st))) = 1 / 64"
    "Dot (Velocity (snd (JumpApexSubstep UE4 ?G ?O (1 / 1024) (?F, ?st)))) ?G = 255 / 1024"
    by (simp_all add: Dot_def)
  with t show ?thesis by simp
qed

text \<open>
  A substep of \<^verbatim>\<open>0.24f\<close> at whose end the speed against gravity, 1 before, is exactly zero.
  Without rounding the apex time is the substep itself and nothing is inserted. In single
  precision the reciprocal of the substep is rounded up, the apex time comes out one unit in
  the last place below the substep, and an apex substep of that length is inserted.
\<close>

lemma JumpApexSubstep_rounding_example:
  "timeTick (fst (JumpApexSubstep UE4 (FVector 0 0 (- 1)) (FVector 0 0 1) 1
      (\<lparr>timeTick = 16106127 / 67108864, RemainingTime = 0, Iterations = 1, VelocityZ = 0\<rparr>,
       upright\<lparr>MovementMode := MOVE_Falling, Velocity := FVector 0 0 0\<rparr>)))
     = 8053063 / 33554432 \<and>
   timeTick (fst (JumpApexSubstep (UE4\<lparr>RoundFloat := \<lambda>x. x\<rparr>) (FVector 0 0 (- 1))
      (FVector 0 0 1) 1
      (\<lparr>timeTick = 16106127 / 67108864, RemainingTime = 0, Iterations = 1, VelocityZ = 0\<rparr>,
       upright\<lparr>MovementMode := MOVE_Falling, Velocity := FVector 0 0 0\<rparr>)))
     = 16106127 / 67108864"
proof -
  let ?G = "FVector 0 0 (- 1)" and ?O = "FVector 0 0 1"
  let ?st = "upright\<lparr>MovementMode := MOVE_Falling, Velocity := FVector 0 0 0\<rparr>"
  let ?F = "\<lparr>timeTick = 16106127 / 67108864, RemainingTime = 0, Iterations = 1, VelocityZ = 0\<rparr>"
  let ?E = "UE4\<lparr>RoundFloat := \<lambda>x. x\<rparr>"
  have a: "FVector 0 0 (- (4369067 / 1048576))
      = FloatVectorDiv UE4 (FloatVectorSub UE4 (Velocity ?st) ?O) (timeTick ?F)"
    by (simp add: float_eval UE4_def Let_def)
  have g: "- (4369067 / 1048576)
      = FloatMul UE4 (FloatDot UE4 (FVector 0 0 (- (4369067 / 1048576))) ?G) (- 1)"
    by (simp add: float_eval UE4_def Let_def)
  have t: "8053063 / 33554432 = FloatDiv UE4 (- 1) (- (4369067 / 1048576))"
    by (simp add: float_eval UE4_def Let_def)
  have rounded: "ForceJumpPeakSubstep ?st \<noteq> 0 \<and> (1::real) > 0 \<and> VelocityZ ?F \<le> 0 \<and>
      NumJumpApexAttempts ?st < MaxJumpApexAttemptsPerSimulation ?st \<and>
      SMALL_NUMBER UE4 < \<bar>- (4369067 / 1048576)\<bar> \<and>
      RoundFloat UE4 (1 / 10000) \<le> 8053063 / 33554432 \<and>
      (8053063::real) / 33554432 < timeTick ?F"
    by (simp add: float_eval UE4_def Let_def upright_def)
  have "JumpApexSubstep UE4 ?G ?O 1 (?F, ?st) =
      (?F\<lparr>timeTick := 8053063 / 33554432,
           RemainingTime := FloatAdd UE4 (RemainingTime ?F)
             (FloatSub UE4 (timeTick ?F) (8053063 / 33554432)),
           Iterations := Iterations ?F - 1, VelocityZ := 0\<rparr>,
       ?st\<lparr>Velocity := FloatVectorPlaneProject UE4
               (FloatVectorAdd UE4 ?O
                  (FloatVectorScale UE4 (FVector 0 0 (- (4369067 / 1048576)))
                     (8053063 / 33554432))) ?G,
            NumJumpApexAttempts := NumJumpApexAttempts ?st + 1\<rparr>)"
    by (simp only: JumpApexSubstep_unfold [OF a g t] rounded [THEN eqTrueI] if_True)
  then have first: "timeTick (fst (JumpApexSubstep UE4 ?G ?O 1 (?F, ?st)))
      = 8053063 / 33554432"
    by simp
  have ea: "FVector 0 0 (- (67108864 / 16106127))
      = FloatVectorDiv ?E (FloatVectorSub ?E (Velocity ?st) ?O) (timeTick ?F)"
    by (simp add: float_ops Let_def)
  have eg: "- (67108864 / 16106127)
      = FloatMul ?E (FloatDot ?E (FVector 0 0 (- (67108864 / 16106127))) ?G) (- 1)"
    by (simp add: float_ops Let_def)
  have et: "16106127 / 67108864 = FloatDiv ?E (- 1) (- (67108864 / 16106127))"
    by (simp add: float_ops Let_def)
  have exact: "\<not> (ForceJumpPeakSubstep ?st \<noteq> 0 \<and> (1::real) > 0 \<and> VelocityZ ?F \<le> 0 \<and>
      NumJumpApexAttempts ?st < MaxJumpApexAttemptsPerSimulation ?st \<and>
      SMALL_NUMBER ?E < \<bar>- (67108864 / 16106127)\<bar> \<and>
      RoundFloat ?E (1 / 10000) \<le> 16106127 / 67108864 \<and>
      (16106127::real) / 67108864 < timeTick ?F)"
    by simp
  have "JumpApexSubstep ?E ?G ?O 1 (?F, ?st) = (?F, ?st)"
    by (simp only: JumpApexSubstep_unfold [OF ea eg et] exact [THEN Eq_FalseI] if_False)
  then have second: "timeTick (fst (JumpApexSubstep ?E ?G ?O 1 (?F, ?st)))
      = 16106127 / 67108864"
    by simp
  from first second show ?thesis by (rule conjI)
qed

lemma JumpApexSubstep_not_rising:
  "\<not> OldSpeedZ > 0 \<Longrightarrow> JumpApexSubstep K GravityDir OldVelocity OldSpeedZ Fst = Fst"
  by (simp add: JumpApexSubstep_def Let_def)

lemma rounded_values:
  "RoundToNearestFloat 0 = 0" "RoundToNearestFloat (245 / 4) = 245 / 4"
  "RoundToNearestFloat (- (245 / 4)) = - (245 / 4)"
  by (simp_all add: RoundToNearestFloat_def RoundHalfEven_def Let_def FloatBinade_numeral)

lemma JumpApexSubstep_jump_example:
  assumes "Velocity st = FVector 0 0 (- (245 / 4))" and "ForceJumpPeakSubstep st \<noteq> 0"
    and "NumJumpApexAttempts st < MaxJumpApexAttemptsPerSimulation st"
  shows "JumpApexSubstep UE4 (FVector 0 0 (- 1)) (FVector 0 0 (245 / 4)) (245 / 4)
      (\<lparr>timeTick = 1 / 8, RemainingTime = 0, Iterations = 1, VelocityZ = - (245 / 4)\<rparr>, st)
    = (\<lparr>timeTick = 1 / 16, RemainingTime = 1 / 16, Iterations = 0, VelocityZ = 0\<rparr>,
       st\<lparr>Velocity := FVector 0 0 0, NumJumpApexAttempts := NumJumpApexAttempts st + 1\<rparr>)"
proof -
  let ?G = "FVector 0 0 (- 1)" and ?O = "FVector 0 0 (245 / 4)"
  let ?F = "\<lparr>timeTick = 1 / 8, RemainingTime = 0, Iterations = 1, VelocityZ = - (245 / 4)\<rparr>"
  have a: "FVector 0 0 (- 980)
      = FloatVectorDiv UE4 (FloatVectorSub UE4 (Velocity st) ?O) (timeTick ?F)"
    by (simp add: assms(1) float_eval UE4_def Let_def)
  have g: "- 980 = FloatMul UE4 (FloatDot UE4 (FVector 0 0 (- 980)) ?G) (- 1)"
    by (simp add: float_eval UE4_def Let_def)
  have t: "1 / 16 = FloatDiv UE4 (- (245 / 4)) (- 980)"
    by (simp add: float_eval UE4_def Let_def)
  have guards: "ForceJumpPeakSubstep st \<noteq> 0 \<and> (245 / 4 :: real) > 0 \<and> VelocityZ ?F \<le> 0 \<and>
      NumJumpApexAttempts st < MaxJumpApexAttemptsPerSimulation st \<and>
      SMALL_NUMBER UE4 < \<bar>- 980\<bar> \<and> RoundFloat UE4 (1 / 10000) \<le> 1 / 16 \<and>
      (1::real) / 16 < timeTick ?F"
    using assms(2,3) by (simp add: float_eval UE4_def Let_def)
  have rest: "FloatAdd UE4 (RemainingTime ?F) (FloatSub UE4 (timeTick ?F) (1 / 16)) = 1 / 16"
    by (simp add: float_eval UE4_def Let_def)
  have apex: "FloatVectorPlaneProject UE4
      (FloatVectorAdd UE4 ?O (FloatVectorScale UE4 (FVector 0 0 (- 980)) (1 / 16))) ?G
        = FVector 0 0 0"
    by (simp add: float_eval UE4_def Let_def)
  show ?thesis
    by (simp only: JumpApexSubstep_unfold [OF a g t] guards [THEN eqTrueI] if_True rest apex)
      simp
qed

text \<open>
  The loop on a jump: a character that rises with 61.25 units per second under a gravity of
  980 for a tick of an eighth of a second reaches its apex after a sixteenth of a second.
  Within three iterations the loop has inserted one apex substep and ends the tick at the
  height of the start with the velocity reversed.
\<close>

lemma PhysFalling_jump_example:
  "map_option NumJumpApexAttempts (PhysFalling 3 UE4 empty_world (1 / 8) 0
      (upright\<lparr>MovementMode := MOVE_Falling, Velocity := FVector 0 0 (245 / 4)\<rparr>)) = Some 1 \<and>
   map_option Velocity (PhysFalling 3 UE4 empty_world (1 / 8) 0
      (upright\<lparr>MovementMode := MOVE_Falling, Velocity := FVector 0 0 (245 / 4)\<rparr>))
     = Some (FVector 0 0 (- (245 / 4))) \<and>
   map_option Location (PhysFalling 3 UE4 empty_world (1 / 8) 0
      (upright\<lparr>MovementMode := MOVE_Falling, Velocity := FVector 0 0 (245 / 4)\<rparr>))
     = Some (FVector 0 0 0)"
  by (simp add: PhysFalling_def numeral_3_eq_3 gravity_eval Scale_def Dot_def IsZero_def
      SizeSquared_def plus_FVector_def minus_FVector_def zero_FVector_def
      VectorPlaneProject_def GetSafeNormal_def UE4_fields FloatSub_def FloatMul_def
      FloatAdd_def FloatDot_def rounded_values JumpApexSubstep_jump_example
      JumpApexSubstep_not_rising empty_world_def upright_def)

subsection \<open>Server corrections\<close>

lemma ServerMove_skipped:
  "ServerMoveSkipped N mv sd \<Longrightarrow> ServerMoveHandleClientError N mv (sd, st) = (sd, st)"
  by (auto simp: ServerMoveSkipped_def ServerMoveHandleClientError_def)

lemma ServerMove_handled:
  assumes "\<not> ServerMoveSkipped N mv sd"
  shows "ServerMoveHandleClientError N mv (sd, st) =
     (if ClientErrorDetected N mv sd (st\<lparr>bNetworkLargeClientCorrection := bForceClientUpdate sd\<rparr>)
      then ((QueueCorrection N mv sd
               (st\<lparr>bNetworkLargeClientCorrection := bForceClientUpdate sd\<rparr>))
              \<lparr>bForceClientUpdate := False\<rparr>,
            st\<lparr>bNetworkLargeClientCorrection := bForceClientUpdate sd\<rparr>)
      else (sd\<lparr>PendingAdjustment := (PendingAdjustment sd)
                  \<lparr>TimeStamp := ClientTimeStamp mv, bAckGoodMove := True\<rparr>,
               bForceClientUpdate := False\<rparr>,
            UseClientPosition N mv
              (st\<lparr>bNetworkLargeClientCorrection := bForceClientUpdate sd\<rparr>)))"
proof -
  from assms
  have g1: "(\<not> ShouldUsePackedMovementRPCs N \<and> RelativeClientLoc mv = FVector 1 2 3) = False"
    and g2: "(LastUpdateTime sd \<noteq> TimeSeconds N \<and>
              WithinUpdateDelayBounds N (LastUpdateTime sd)) = False"
    by (auto simp: ServerMoveSkipped_def)
  show ?thesis
    unfolding ServerMoveHandleClientError_def Let_def fst_conv snd_conv g1 g2 if_False
    by (rule refl)
qed

lemma QueueCorrection_adjustment:
  "PendingAdjustment (QueueCorrection N mv sd st) =
     \<lparr> TimeStamp = ClientTimeStamp mv, DeltaTime = ClientDeltaTime mv,
       NewLoc = (if UseRelativeLocation N (MovementBase st) then BasedLocation st
                 else RebaseOntoZeroOrigin N (Location st)),
       NewVel = Velocity st,
       NewRot = GetComponentRotation N (ComponentQuat st),
       NewBase = MovementBase st, NewBaseBoneName = BasedBoneName st,
       bAckGoodMove = False,
       bBaseRelativePosition = UseRelativeLocation N (MovementBase st),
       AdjustmentMovementMode = PackNetworkMovementMode N st \<rparr>"
  by (simp add: QueueCorrection_def Let_def)

text \<open>
  Claim C2, as the code has it. A client move is skipped when packed movement RPCs are off and
  it is the first part of a double move (\<open>RelativeClientLoc = (1, 2, 3)\<close>), or when the
  server's last update was not made at the current world time and the move arrives within
  the update delay of that last update: nothing is changed, neither a correction nor an
  acknowledgement is recorded, and the force-update flag stays as it is. A move that arrives
  at the world time of the last update is not skipped for the update delay. For every move
  that is not skipped the pending adjustment gets the move's time stamp and the force-update
  flag is cleared; the adjustment is a correction (\<open>bAckGoodMove = false\<close>) if and only if the
  force-update flag was set or \<^verbatim>\<open>ServerCheckClientError\<close>, asked about the client's location
  in world space and the client's base (the server's own base and bone when the client sent
  a null base while walking), reports an error. A correction carries the server's location
  (relative to the base when the base is one with a relative location), velocity, rotation,
  base, bone and packed movement mode, records the world time as the time of the last update
  and leaves the server's location as it is; otherwise the move is acknowledged with
  \<open>bAckGoodMove = true\<close> and the other fields of the pending adjustment are untouched.
\<close>

theorem ServerMoveHandleClientError_correction:
  assumes skip: "skipped \<longleftrightarrow>
      (\<not> ShouldUsePackedMovementRPCs N \<and> RelativeClientLoc mv = FVector 1 2 3) \<or>
      (LastUpdateTime sd \<noteq> TimeSeconds N \<and> WithinUpdateDelayBounds N (LastUpdateTime sd))"
    and st1: "st1 = st\<lparr>bNetworkLargeClientCorrection := bForceClientUpdate sd\<rparr>"
    and err: "diverged \<longleftrightarrow>
      ServerCheckClientError N st1 mv
        (if UseRelativeLocation N (ClientMovementBase mv)
         then RelativeClientLoc mv
                + GetMovementBaseLocation N (ClientMovementBase mv) (ClientBaseBoneName mv)
         else RebaseOntoLocalOrigin N (RelativeClientLoc mv))
        (if ClientMovementBase mv = None \<and> ClientMovementMode mv = 1
         then MovementBase st else ClientMovementBase mv)
        (if ClientMovementBase mv = None \<and> ClientMovementMode mv = 1
         then BasedBoneName st else ClientBaseBoneName mv)"
  shows "(skipped \<longrightarrow> ServerMoveHandleClientError N mv (sd, st) = (sd, st)) \<and>
   (\<not> skipped \<longrightarrow>
      (\<not> bAckGoodMove (PendingAdjustment (fst (ServerMoveHandleClientError N mv (sd, st))))
         \<longleftrightarrow> bForceClientUpdate sd \<or> diverged) \<and>
      \<not> bForceClientUpdate (fst (ServerMoveHandleClientError N mv (sd, st))) \<and>
      TimeStamp (PendingAdjustment (fst (ServerMoveHandleClientError N mv (sd, st))))
        = ClientTimeStamp mv \<and>
      (bForceClientUpdate sd \<or> diverged \<longrightarrow>
         PendingAdjustment (fst (ServerMoveHandleClientError N mv (sd, st))) =
            \<lparr> TimeStamp = ClientTimeStamp mv, DeltaTime = ClientDeltaTime mv,
              NewLoc = (if UseRelativeLocation N (MovementBase st) then BasedLocation st
                        else RebaseOntoZeroOrigin N (Location st)),
              NewVel = Velocity st,
              NewRot = GetComponentRotation N (ComponentQuat st),
              NewBase = MovementBase st, NewBaseBoneName = BasedBoneName st,
              bAckGoodMove = False,
              bBaseRelativePosition = UseRelativeLocation N (MovementBase st),
              AdjustmentMovementMode = PackNetworkMovementMode N st1 \<rparr> \<and>
         LastUpdateTime (fst (ServerMoveHandleClientError N mv (sd, st))) = TimeSeconds N \<and>
         Location (snd (ServerMoveHandleClientError N mv (sd, st))) = Location st) \<and>
      (\<not> (bForceClientUpdate sd \<or> diverged) \<longrightarrow>
         PendingAdjustment (fst (ServerMoveHandleClientError N mv (sd, st))) =
           (PendingAdjustment sd)\<lparr>TimeStamp := ClientTimeStamp mv, bAckGoodMove := True\<rparr>))"
proof (rule conjI; rule impI)
  assume skipped
  with skip have "ServerMoveSkipped N mv sd"
    by (simp add: ServerMoveSkipped_def)
  then show "ServerMoveHandleClientError N mv (sd, st) = (sd, st)"
    by (rule ServerMove_skipped)
next
  assume "\<not> skipped"
  with skip have ns: "\<not> ServerMoveSkipped N mv sd"
    by (simp add: ServerMoveSkipped_def)
  have det: "ClientErrorDetected N mv sd st1 \<longleftrightarrow> bForceClientUpdate sd \<or> diverged"
    unfolding err by (simp add: ClientErrorDetected_def ClientLoc_def ClientBase_def st1)
  show "(\<not> bAckGoodMove (PendingAdjustment (fst (ServerMoveHandleClientError N mv (sd, st))))
         \<longleftrightarrow> bForceClientUpdate sd \<or> diverged) \<and>
      \<not> bForceClientUpdate (fst (ServerMoveHandleClientError N mv (sd, st))) \<and>
      TimeStamp (PendingAdjustment (fst (ServerMoveHandleClientError N mv (sd, st))))
        = ClientTimeStamp mv \<and>
      (bForceClientUpdate sd \<or> diverged \<longrightarrow>
         PendingAdjustment (fst (ServerMoveHandleClientError N mv (sd, st))) =
            \<lparr> TimeStamp = ClientTimeStamp mv, DeltaTime = ClientDeltaTime mv,
              NewLoc = (if UseRelativeLocation N (MovementBase st) then BasedLocation st
                        else RebaseOntoZeroOrigin N (Location st)),
              NewVel = Velocity st,
              NewRot = GetComponentRotation N (ComponentQuat st),
              NewBase = MovementBase st, NewBaseBoneName = BasedBoneName st,
              bAckGoodMove = False,
              bBaseRelativePosition = UseRelativeLocation N (MovementBase st),
              AdjustmentMovementMode = PackNetworkMovementMode N st1 \<rparr> \<and>
         LastUpdateTime (fst (ServerMoveHandleClientError N mv (sd, st))) = TimeSeconds N \<and>
         Location (snd (ServerMoveHandleClientError N mv (sd, st))) = Location st) \<and>
      (\<not> (bForceClientUpdate sd \<or> diverged) \<longrightarrow>
         PendingAdjustment (fst (ServerMoveHandleClientError N mv (sd, st))) =
           (PendingAdjustment sd)\<lparr>TimeStamp := ClientTimeStamp mv, bAckGoodMove := True\<rparr>)"
  proof (cases "bForceClientUpdate sd \<or> diverged")
    case True
    with det have "ClientErrorDetected N mv sd st1" by simp
    then have eq: "ServerMoveHandleClientError N mv (sd, st) =
        ((QueueCorrection N mv sd st1)\<lparr>bForceClientUpdate := False\<rparr>, st1)"
      unfolding st1 by (simp only: ServerMove_handled [OF ns] if_True)
    have upd: "LastUpdateTime (QueueCorrection N mv sd st1) = TimeSeconds N"
      by (simp add: QueueCorrection_def Let_def)
    show ?thesis
      unfolding eq fst_conv snd_conv using True
      by (simp add: QueueCorrection_adjustment upd) (simp add: st1)
  next
    case False
    with det have "\<not> ClientErrorDetected N mv sd st1" by simp
    then have eq: "fst (ServerMoveHandleClientError N mv (sd, st)) =
        sd\<lparr>PendingAdjustment := (PendingAdjustment sd)
               \<lparr>TimeStamp := ClientTimeStamp mv, bAckGoodMove := True\<rparr>,
            bForceClientUpdate := False\<rparr>"
      unfolding st1 by (simp only: ServerMove_handled [OF ns] if_False fst_conv)
    show ?thesis
      unfolding eq using False by simp
  qed
qed

text \<open>
  The theorem at a walking move that the server tolerates (acknowledged); at the same move
  when the force-update flag is set (corrected with the server's location); when
  \<^verbatim>\<open>ServerCheckClientError\<close> reports an error (corrected); when the flag is set and the move
  arrives within the update delay but at the world time of the last update (corrected); and
  at the first part of a double move without packed RPCs (skipped although the flag is set).
\<close>

theorem ServerMoveHandleClientError_correction_witness:
  "bAckGoodMove (PendingAdjustment
     (fst (ServerMoveHandleClientError plain_net walking_move (idle_server, upright)))) \<and>
   \<not> bAckGoodMove (PendingAdjustment
     (fst (ServerMoveHandleClientError plain_net walking_move
        (idle_server\<lparr>bForceClientUpdate := True\<rparr>, upright)))) \<and>
   NewLoc (PendingAdjustment
     (fst (ServerMoveHandleClientError plain_net walking_move
        (idle_server\<lparr>bForceClientUpdate := True\<rparr>, upright)))) = FVector 0 0 0 \<and>
   \<not> bAckGoodMove (PendingAdjustment
     (fst (ServerMoveHandleClientError
        (plain_net\<lparr>ServerCheckClientError := \<lambda>st mv loc b n. True\<rparr>) walking_move
        (idle_server, upright)))) \<and>
   \<not> bAckGoodMove (PendingAdjustment
     (fst (ServerMoveHandleClientError
        (plain_net\<lparr>WithinUpdateDelayBounds := \<lambda>t. True\<rparr>) walking_move
        (idle_server\<lparr>bForceClientUpdate := True, LastUpdateTime := 10\<rparr>, upright)))) \<and>
   fst (ServerMoveHandleClientError (plain_net\<lparr>ShouldUsePackedMovementRPCs := False\<rparr>)
     (walking_move\<lparr>RelativeClientLoc := FVector 1 2 3\<rparr>)
     (idle_server\<lparr>bForceClientUpdate := True\<rparr>, upright))
     = idle_server\<lparr>bForceClientUpdate := True\<rparr>"
proof -
  let ?forced = "idle_server\<lparr>bForceClientUpdate := True\<rparr>"
  let ?strict = "plain_net\<lparr>ServerCheckClientError := \<lambda>st mv loc b n. True\<rparr>"
  let ?limited = "plain_net\<lparr>WithinUpdateDelayBounds := \<lambda>t. True\<rparr>"
  let ?same_frame = "idle_server\<lparr>bForceClientUpdate := True, LastUpdateTime := 10\<rparr>"
  let ?unpacked = "plain_net\<lparr>ShouldUsePackedMovementRPCs := False\<rparr>"
  let ?first_part = "walking_move\<lparr>RelativeClientLoc := FVector 1 2 3\<rparr>"
  have handled: "False \<longleftrightarrow>
      (\<not> ShouldUsePackedMovementRPCs plain_net \<and> RelativeClientLoc walking_move = FVector 1 2 3) \<or>
      (LastUpdateTime idle_server \<noteq> TimeSeconds plain_net \<and>
       WithinUpdateDelayBounds plain_net (LastUpdateTime idle_server))"
    by (simp add: plain_net_def idle_server_def)
  have tolerated: "False \<longleftrightarrow>
      ServerCheckClientError plain_net
        (upright\<lparr>bNetworkLargeClientCorrection := bForceClientUpdate idle_server\<rparr>) walking_move
        (if UseRelativeLocation plain_net (ClientMovementBase walking_move)
         then RelativeClientLoc walking_move
                + GetMovementBaseLocation plain_net (ClientMovementBase walking_move)
                    (ClientBaseBoneName walking_move)
         else RebaseOntoLocalOrigin plain_net (RelativeClientLoc walking_move))
        (if ClientMovementBase walking_move = None \<and> ClientMovementMode walking_move = 1
         then MovementBase upright else ClientMovementBase walking_move)
        (if ClientMovementBase walking_move = None \<and> ClientMovementMode walking_move = 1
         then BasedBoneName upright else ClientBaseBoneName walking_move)"
    by (simp add: plain_net_def)
  have quiet: "\<not> bForceClientUpdate idle_server"
    by (simp add: idle_server_def)
  from ServerMoveHandleClientError_correction [OF handled refl tolerated] quiet
  have ack: "bAckGoodMove (PendingAdjustment
      (fst (ServerMoveHandleClientError plain_net walking_move (idle_server, upright))))"
    by blast
  have handled': "False \<longleftrightarrow>
      (\<not> ShouldUsePackedMovementRPCs plain_net \<and> RelativeClientLoc walking_move = FVector 1 2 3) \<or>
      (LastUpdateTime ?forced \<noteq> TimeSeconds plain_net \<and>
       WithinUpdateDelayBounds plain_net (LastUpdateTime ?forced))"
    by (simp add: plain_net_def idle_server_def)
  have tolerated': "False \<longleftrightarrow>
      ServerCheckClientError plain_net
        (upright\<lparr>bNetworkLargeClientCorrection := bForceClientUpdate ?forced\<rparr>) walking_move
        (if UseRelativeLocation plain_net (ClientMovementBase walking_move)
         then RelativeClientLoc walking_move
                + GetMovementBaseLocation plain_net (ClientMovementBase walking_move)
                    (ClientBaseBoneName walking_move)
         else RebaseOntoLocalOrigin plain_net (RelativeClientLoc walking_move))
        (if ClientMovementBase walking_move = None \<and> ClientMovementMode walking_move = 1
         then MovementBase upright else ClientMovementBase walking_move)
        (if ClientMovementBase walking_move = None \<and> ClientMovementMode walking_move = 1
         then BasedBoneName upright else ClientBaseBoneName walking_move)"
    by (simp add: plain_net_def)
  have flag: "bForceClientUpdate ?forced"
    by simp
  have loc: "\<not> UseRelativeLocation plain_net (MovementBase upright)"
    "RebaseOntoZeroOrigin plain_net (Location upright) = FVector 0 0 0"
    by (simp_all add: plain_net_def upright_def)
  from ServerMoveHandleClientError_correction [OF handled' refl tolerated'] flag
  have "\<not> bAckGoodMove (PendingAdjustment
       (fst (ServerMoveHandleClientError plain_net walking_move (?forced, upright)))) \<and>
     NewLoc (PendingAdjustment
       (fst (ServerMoveHandleClientError plain_net walking_move (?forced, upright))))
       = (if UseRelativeLocation plain_net (MovementBase upright) then BasedLocation upright
          else RebaseOntoZeroOrigin plain_net (Location upright))"
    by simp
  with loc have forced: "\<not> bAckGoodMove (PendingAdjustment
       (fst (ServerMoveHandleClientError plain_net walking_move (?forced, upright)))) \<and>
     NewLoc (PendingAdjustment
       (fst (ServerMoveHandleClientError plain_net walking_move (?forced, upright))))
       = FVector 0 0 0"
    by simp
  have handled'': "False \<longleftrightarrow>
      (\<not> ShouldUsePackedMovementRPCs ?strict \<and> RelativeClientLoc walking_move = FVector 1 2 3) \<or>
      (LastUpdateTime idle_server \<noteq> TimeSeconds ?strict \<and>
       WithinUpdateDelayBounds ?strict (LastUpdateTime idle_server))"
    by (simp add: plain_net_def idle_server_def)
  have reported: "True \<longleftrightarrow>
      ServerCheckClientError ?strict
        (upright\<lparr>bNetworkLargeClientCorrection := bForceClientUpdate idle_server\<rparr>) walking_move
        (if UseRelativeLocation ?strict (ClientMovementBase walking_move)
         then RelativeClientLoc walking_move
                + GetMovementBaseLocation ?strict (ClientMovementBase walking_move)
                    (ClientBaseBoneName walking_move)
         else RebaseOntoLocalOrigin ?strict (RelativeClientLoc walking_move))
        (if ClientMovementBase walking_move = None \<and> ClientMovementMode walking_move = 1
         then MovementBase upright else ClientMovementBase walking_move)
        (if ClientMovementBase walking_move = None \<and> ClientMovementMode walking_move = 1
         then BasedBoneName upright else ClientBaseBoneName walking_move)"
    by simp
  from ServerMoveHandleClientError_correction [OF handled'' refl reported]
  have diverged: "\<not> bAckGoodMove (PendingAdjustment
      (fst (ServerMoveHandleClientError ?strict walking_move (idle_server, upright))))"
    by blast
  have same: "False \<longleftrightarrow>
      (\<not> ShouldUsePackedMovementRPCs ?limited \<and> RelativeClientLoc walking_move = FVector 1 2 3) \<or>
      (LastUpdateTime ?same_frame \<noteq> TimeSeconds ?limited \<and>
       WithinUpdateDelayBounds ?limited (LastUpdateTime ?same_frame))"
    by (simp add: plain_net_def)
  have tolerated''': "False \<longleftrightarrow>
      ServerCheckClientError ?limited
        (upright\<lparr>bNetworkLargeClientCorrection := bForceClientUpdate ?same_frame\<rparr>) walking_move
        (if UseRelativeLocation ?limited (ClientMovementBase walking_move)
         then RelativeClientLoc walking_move
                + GetMovementBaseLocation ?limited (ClientMovementBase walking_move)
                    (ClientBaseBoneName walking_move)
         else RebaseOntoLocalOrigin ?limited (RelativeClientLoc walking_move))
        (if ClientMovementBase walking_move = None \<and> ClientMovementMode walking_move = 1
         then MovementBase upright else ClientMovementBase walking_move)
        (if ClientMovementBase walking_move = None \<and> ClientMovementMode walking_move = 1
         then BasedBoneName upright else ClientBaseBoneName walking_move)"
    by (simp add: plain_net_def)
  have flag': "bForceClientUpdate ?same_frame"
    by simp
  from ServerMoveHandleClientError_correction [OF same refl tolerated'''] flag'
  have same_frame: "\<not> bAckGoodMove (PendingAdjustment
      (fst (ServerMoveHandleClientError ?limited walking_move (?same_frame, upright))))"
    by blast
  have double: "True \<longleftrightarrow>
      (\<not> ShouldUsePackedMovementRPCs ?unpacked \<and> RelativeClientLoc ?first_part = FVector 1 2 3) \<or>
      (LastUpdateTime ?forced \<noteq> TimeSeconds ?unpacked \<and>
       WithinUpdateDelayBounds ?unpacked (LastUpdateTime ?forced))"
    by (simp add: plain_net_def)
  from ServerMoveHandleClientError_correction [OF double refl refl]
  have "ServerMoveHandleClientError ?unpacked ?first_part (?forced, upright) = (?forced, upright)"
    by blast
  then have skipped: "fst (ServerMoveHandleClientError ?unpacked ?first_part (?forced, upright))
      = ?forced"
    by (simp only: fst_conv)
  from ack forced diverged same_frame skipped show ?thesis
    by (intro conjI) blast+
qed

text \<open>
  A move that arrives within the update delay of a last update made one second earlier,
  while the force-update flag is set: nothing is queued. The pending adjustment is still the
  acknowledgement of an earlier move, and the flag is still set.
\<close>

theorem ServerMoveHandleClientError_rate_limit_counterexample:
  "bForceClientUpdate (idle_server\<lparr>bForceClientUpdate := True\<rparr>) \<and>
   fst (ServerMoveHandleClientError (plain_net\<lparr>WithinUpdateDelayBounds := (\<lambda>t. True)\<rparr>)
          walking_move (idle_server\<lparr>bForceClientUpdate := True\<rparr>, upright))
     = idle_server\<lparr>bForceClientUpdate := True\<rparr> \<and>
   bAckGoodMove (PendingAdjustment (idle_server\<lparr>bForceClientUpdate := True\<rparr>)) \<and>
   TimeStamp (PendingAdjustment (idle_server\<lparr>bForceClientUpdate := True\<rparr>))
     \<noteq> ClientTimeStamp walking_move"
  by (simp add: ServerMoveHandleClientError_def plain_net_def idle_server_def walking_move_def)

subsection \<open>Client adjustment\<close>

text \<open>
  Claim C4, as the code has it. Let the correction name a base that the client cannot resolve
  (\<open>bHasBase\<close> with a null base). If the correction is relative to the base, it is rejected
  before any saved move is acknowledged: the client's prediction data and the whole component,
  with its location, velocity and movement mode, are unchanged. If the correction is absolute,
  the unresolved base does not reject it. Provided the updated component and the character
  owner exist, the component is active and the correction's time stamp is that of a saved
  move, the move is acknowledged, a position update is requested, and the corrected location
  and velocity are set on the component before the movement mode, base and floor are taken
  over. When the updated component or the character owner is missing, the component is not
  active, or no saved move has the correction's time stamp, the absolute correction is
  dropped: the prediction data and the component are unchanged.
\<close>

theorem ClientAdjustPosition_unresolved_base:
  assumes "bHasBase c" and "CorrectionBase c = None"
  shows "(bRelativePosition c \<longrightarrow> ClientAdjustPosition N W c (cd, st) = (cd, st)) \<and>
   (\<not> bRelativePosition c \<and> bUpdatedComponent st \<and> bCharacterOwner st \<and> bIsActive st \<and>
    GetSavedMoveIndex N cd (CorrectionTimeStamp c) = Some i \<longrightarrow>
      fst (ClientAdjustPosition N W c (cd, st)) = (AckMove N i cd)\<lparr>bUpdatePosition := True\<rparr> \<and>
      snd (ClientAdjustPosition N W c (cd, st))
        = ClientSettle N W c True (ClientSnap N c (RebaseOntoLocalOrigin N (NewLocation c)) st) \<and>
      Location (ClientSnap N c (RebaseOntoLocalOrigin N (NewLocation c)) st)
        = RebaseOntoLocalOrigin N (NewLocation c) \<and>
      Velocity (ClientSnap N c (RebaseOntoLocalOrigin N (NewLocation c)) st) = NewVelocity c) \<and>
   (\<not> bRelativePosition c \<and>
    (\<not> bUpdatedComponent st \<or> \<not> bCharacterOwner st \<or> \<not> bIsActive st \<or>
     GetSavedMoveIndex N cd (CorrectionTimeStamp c) = None) \<longrightarrow>
      ClientAdjustPosition N W c (cd, st) = (cd, st))"
proof (intro conjI impI)
  assume "bRelativePosition c"
  with assms show "ClientAdjustPosition N W c (cd, st) = (cd, st)"
    by (simp add: ClientAdjustPosition_def)
next
  assume a: "\<not> bRelativePosition c \<and> bUpdatedComponent st \<and> bCharacterOwner st \<and>
    bIsActive st \<and> GetSavedMoveIndex N cd (CorrectionTimeStamp c) = Some i"
  then show "fst (ClientAdjustPosition N W c (cd, st))
      = (AckMove N i cd)\<lparr>bUpdatePosition := True\<rparr>"
    using assms by (simp add: ClientAdjustPosition_def HasValidData_def Let_def)
  from a assms show "snd (ClientAdjustPosition N W c (cd, st))
        = ClientSettle N W c True (ClientSnap N c (RebaseOntoLocalOrigin N (NewLocation c)) st)"
    by (simp add: ClientAdjustPosition_def HasValidData_def Let_def)
  from a show "Location (ClientSnap N c (RebaseOntoLocalOrigin N (NewLocation c)) st)
        = RebaseOntoLocalOrigin N (NewLocation c)"
    by (simp add: ClientSnap_def Let_def)
  show "Velocity (ClientSnap N c (RebaseOntoLocalOrigin N (NewLocation c)) st) = NewVelocity c"
    by (simp add: ClientSnap_def Let_def)
next
  assume d: "\<not> bRelativePosition c \<and>
    (\<not> bUpdatedComponent st \<or> \<not> bCharacterOwner st \<or> \<not> bIsActive st \<or>
     GetSavedMoveIndex N cd (CorrectionTimeStamp c) = None)"
  show "ClientAdjustPosition N W c (cd, st) = (cd, st)"
  proof (cases "HasValidData st \<and> bIsActive st")
    case False
    then show ?thesis
      unfolding ClientAdjustPosition_def Let_def fst_conv snd_conv by auto
  next
    case True
    with d have none: "GetSavedMoveIndex N cd (CorrectionTimeStamp c) = None"
      by (auto simp: HasValidData_def)
    from d have "\<not> (bHasBase c \<and> CorrectionBase c = None \<and> bRelativePosition c)"
      by simp
    with True none show ?thesis
      unfolding ClientAdjustPosition_def Let_def fst_conv snd_conv by simp
  qed
qed

text \<open>
  The theorem at an absolute correction with an unresolved base for the second of three saved
  moves: the move and the one before it are acknowledged, and the component is set to the
  corrected location \<open>(7, 0, 0)\<close> and velocity. The same correction is dropped by an inactive
  component, and the correction made relative to the base is rejected.
\<close>

theorem ClientAdjustPosition_unresolved_base_witness:
  "bHasBase absolute_correction \<and> CorrectionBase absolute_correction = None \<and>
   \<not> bRelativePosition absolute_correction \<and>
   fst (ClientAdjustPosition plain_net empty_world absolute_correction
     (\<lparr>SavedMoves = [4, 5, 6], LastAckedMove = None, bUpdatePosition = False\<rparr>, upright))
     = \<lparr>SavedMoves = [6], LastAckedMove = Some 5, bUpdatePosition = True\<rparr> \<and>
   Location (ClientSnap plain_net absolute_correction (FVector 7 0 0) upright) = FVector 7 0 0 \<and>
   Velocity (ClientSnap plain_net absolute_correction (FVector 7 0 0) upright) = FVector 1 0 0 \<and>
   fst (ClientAdjustPosition plain_net empty_world absolute_correction
     (\<lparr>SavedMoves = [4, 5, 6], LastAckedMove = None, bUpdatePosition = False\<rparr>,
      upright\<lparr>bIsActive := False\<rparr>))
     = \<lparr>SavedMoves = [4, 5, 6], LastAckedMove = None, bUpdatePosition = False\<rparr> \<and>
   Location (snd (ClientAdjustPosition plain_net empty_world absolute_correction
     (\<lparr>SavedMoves = [4, 5, 6], LastAckedMove = None, bUpdatePosition = False\<rparr>,
      upright\<lparr>bIsActive := False\<rparr>))) = FVector 0 0 0 \<and>
   snd (ClientAdjustPosition plain_net empty_world
     (absolute_correction\<lparr>bRelativePosition := True\<rparr>)
     (\<lparr>SavedMoves = [4, 5, 6], LastAckedMove = None, bUpdatePosition = False\<rparr>, upright))
     = upright"
proof -
  let ?cd = "\<lparr>SavedMoves = [4, 5, 6], LastAckedMove = None, bUpdatePosition = False\<rparr>"
  let ?rel = "absolute_correction\<lparr>bRelativePosition := True\<rparr>"
  have base: "bHasBase absolute_correction" "CorrectionBase absolute_correction = None"
    and absolute: "\<not> bRelativePosition absolute_correction"
    by (simp_all add: absolute_correction_def)
  have base': "bHasBase ?rel" "CorrectionBase ?rel = None" and relative: "bRelativePosition ?rel"
    by (simp_all add: absolute_correction_def)
  have valid: "bUpdatedComponent upright" "bCharacterOwner upright" "bIsActive upright"
    by (simp_all add: upright_def)
  have inactive: "\<not> bIsActive (upright\<lparr>bIsActive := False\<rparr>)"
    by simp
  have found: "GetSavedMoveIndex plain_net ?cd (CorrectionTimeStamp absolute_correction) = Some 1"
    by (simp add: plain_net_def absolute_correction_def)
  have acked: "(AckMove plain_net 1 ?cd)\<lparr>bUpdatePosition := True\<rparr>
      = \<lparr>SavedMoves = [6], LastAckedMove = Some 5, bUpdatePosition = True\<rparr>"
    by (simp add: plain_net_def)
  have target: "RebaseOntoLocalOrigin plain_net (NewLocation absolute_correction) = FVector 7 0 0"
    "NewVelocity absolute_correction = FVector 1 0 0"
    by (simp_all add: plain_net_def absolute_correction_def)
  from ClientAdjustPosition_unresolved_base [OF base, of plain_net empty_world ?cd upright 1]
    absolute valid found
  have "fst (ClientAdjustPosition plain_net empty_world absolute_correction (?cd, upright))
        = (AckMove plain_net 1 ?cd)\<lparr>bUpdatePosition := True\<rparr> \<and>
      Location (ClientSnap plain_net absolute_correction
          (RebaseOntoLocalOrigin plain_net (NewLocation absolute_correction)) upright)
        = RebaseOntoLocalOrigin plain_net (NewLocation absolute_correction) \<and>
      Velocity (ClientSnap plain_net absolute_correction
          (RebaseOntoLocalOrigin plain_net (NewLocation absolute_correction)) upright)
        = NewVelocity absolute_correction"
    by blast
  then have applied: "fst (ClientAdjustPosition plain_net empty_world absolute_correction
        (?cd, upright)) = \<lparr>SavedMoves = [6], LastAckedMove = Some 5, bUpdatePosition = True\<rparr> \<and>
      Location (ClientSnap plain_net absolute_correction (FVector 7 0 0) upright)
        = FVector 7 0 0 \<and>
      Velocity (ClientSnap plain_net absolute_correction (FVector 7 0 0) upright) = FVector 1 0 0"
    by (simp only: acked target)
  from ClientAdjustPosition_unresolved_base
    [OF base, of plain_net empty_world ?cd "upright\<lparr>bIsActive := False\<rparr>" 1]
    absolute inactive
  have "ClientAdjustPosition plain_net empty_world absolute_correction
      (?cd, upright\<lparr>bIsActive := False\<rparr>) = (?cd, upright\<lparr>bIsActive := False\<rparr>)"
    by blast
  then have dropped: "fst (ClientAdjustPosition plain_net empty_world absolute_correction
        (?cd, upright\<lparr>bIsActive := False\<rparr>)) = ?cd \<and>
      Location (snd (ClientAdjustPosition plain_net empty_world absolute_correction
        (?cd, upright\<lparr>bIsActive := False\<rparr>))) = FVector 0 0 0"
    by (simp add: upright_def)
  from ClientAdjustPosition_unresolved_base [OF base', of plain_net empty_world ?cd upright 1]
    relative
  have "ClientAdjustPosition plain_net empty_world ?rel (?cd, upright) = (?cd, upright)"
    by blast
  then have rejected: "snd (ClientAdjustPosition plain_net empty_world ?rel (?cd, upright))
      = upright"
    by (simp only: snd_conv)
  from base absolute applied dropped rejected show ?thesis
    by (intro conjI) blast+
qed

text \<open>
  The same absolute correction when its move is no longer among the saved moves: the
  component has valid data and is active, and yet nothing is acknowledged and the corrected
  location is not applied.
\<close>

theorem ClientAdjustPosition_stale_move_counterexample:
  "bHasBase absolute_correction \<and> CorrectionBase absolute_correction = None \<and>
   \<not> bRelativePosition absolute_correction \<and> HasValidData upright \<and> bIsActive upright \<and>
   fst (ClientAdjustPosition plain_net empty_world absolute_correction
     (\<lparr>SavedMoves = [6, 7], LastAckedMove = Some 5, bUpdatePosition = False\<rparr>, upright))
     = \<lparr>SavedMoves = [6, 7], LastAckedMove = Some 5, bUpdatePosition = False\<rparr> \<and>
   Location (snd (ClientAdjustPosition plain_net empty_world absolute_correction
     (\<lparr>SavedMoves = [6, 7], LastAckedMove = Some 5, bUpdatePosition = False\<rparr>, upright)))
     = FVector 0 0 0 \<and>
   RebaseOntoLocalOrigin plain_net (NewLocation absolute_correction) = FVector 7 0 0"
  by (simp add: ClientAdjustPosition_def plain_net_def absolute_correction_def upright_def
      HasValidData_def)

end
